theory Spec2Isabelle
  imports Complex_Main "HOL-Library.Sublist"
begin

section \<open>Supplier reconciliation: the store and its result tables\<close>

text \<open>
  The development follows \<^verbatim>\<open>src/scraper/database.py\<close> (class \<^verbatim>\<open>DatabaseManager\<close>).
  A value of a \<^verbatim>\<open>REAL\<close> column is a binary64 number, read as the real number it
  denotes; a nullable column is an \<open>option\<close>.  The subtraction, the addition and the
  multiplication of the SQL expressions round their result to the nearest binary64
  number, as the engine does; the function \<^verbatim>\<open>ROUND\<close> and the conversion of a number to
  text are parameters of the model.  The aggregate \<^verbatim>\<open>SUM\<close> and the amounts read by
  \<^verbatim>\<open>float()\<close> are taken exactly: no property below depends on their rounding.  The
  texts of the SQL statements are lists of bytes (UTF-8): an accented letter of a
  message is written as its two bytes, and left out of the comments that quote the
  message.
\<close>

subsection \<open>SQL scalar functions\<close>

definition coalesce0 :: "real option \<Rightarrow> real" where
  \<comment> \<open>\<^verbatim>\<open>COALESCE(x, 0)\<close>\<close>
  "coalesce0 x = (case x of None \<Rightarrow> 0 | Some v \<Rightarrow> v)"

definition sql_eq :: "string option \<Rightarrow> string option \<Rightarrow> bool" where
  \<comment> \<open>\<^verbatim>\<open>a = b\<close> in a \<^verbatim>\<open>WHERE\<close> clause: a comparison with \<^verbatim>\<open>NULL\<close> selects nothing\<close>
  "sql_eq a b = (case (a, b) of (Some x, Some y) \<Rightarrow> x = y | _ \<Rightarrow> False)"

definition sql_like_prefix :: "string \<Rightarrow> string option \<Rightarrow> bool" where
  \<comment> \<open>\<^verbatim>\<open>col LIKE 'p%'\<close> for a pattern \<open>p\<close> of digits and dots\<close>
  "sql_like_prefix p col = (case col of None \<Rightarrow> False | Some s \<Rightarrow> prefix p s)"

definition sql_null_or_empty :: "string option \<Rightarrow> bool" where
  \<comment> \<open>\<^verbatim>\<open>col IS NULL OR col = ''\<close>\<close>
  "sql_null_or_empty col = (col = None \<or> col = Some [])"

definition digit_char :: "nat \<Rightarrow> char" where
  \<comment> \<open>the decimal digit \<open>n < 10\<close> as a character\<close>
  "digit_char n = ''0123456789'' ! n"

function dec_of_nat :: "nat \<Rightarrow> string" where
  "dec_of_nat n =
     (if n < 10 then [digit_char n] else dec_of_nat (n div 10) @ [digit_char (n mod 10)])"
  by pat_completeness auto
termination
  by (relation "measure id") auto

declare dec_of_nat.simps [simp del]

subsection \<open>Arithmetic on \<^verbatim>\<open>REAL\<close> values\<close>

text \<open>
  SQLite computes \<^verbatim>\<open>x - y\<close>, \<^verbatim>\<open>x + y\<close> and \<^verbatim>\<open>x * y\<close> on \<^verbatim>\<open>REAL\<close> operands with the
  machine's binary64 arithmetic (IEEE 754): the exact result, rounded to the nearest
  binary64 number, a tie going to the number whose significand is even.  A binary64
  number is an integer multiple of \<open>2 ^ (e - 52)\<close>, where \<open>e\<close> is its binary exponent,
  from \<open>-1022\<close> (shared by the subnormal numbers) to \<open>1023\<close>.  The integer \<^verbatim>\<open>0\<close> that
  \<^verbatim>\<open>COALESCE(x, 0)\<close> returns for a \<^verbatim>\<open>NULL\<close> is converted to the number zero.  A literal
  such as \<^verbatim>\<open>0.03\<close> is read as the nearest binary64 number, and so is an amount a
  column receives: an operand that is not a binary64 number stands for the nearest
  one, which is what the column holds for it.  Infinite values (the overflow of a
  result beyond the largest binary64 number, an infinite value of a column) are
  outside the model.
\<close>

definition pot2 :: "int \<Rightarrow> real" where
  \<comment> \<open>the power of two of an integer exponent\<close>
  "pot2 e = (if 0 \<le> e then 2 ^ nat e else 1 / 2 ^ nat (- e))"

fun sobe :: "nat \<Rightarrow> real \<Rightarrow> int" where
  \<comment> \<open>the binary exponent of \<open>x \<ge> 1\<close>, up to \<open>n\<close>\<close>
  "sobe 0 x = 0"
| "sobe (Suc n) x = (if x < 2 then 0 else 1 + sobe n (x / 2))"

fun desce :: "nat \<Rightarrow> real \<Rightarrow> int" where
  \<comment> \<open>the binary exponent of \<open>x < 1\<close>, down to \<open>- n\<close>\<close>
  "desce 0 x = 0"
| "desce (Suc n) x = (if 1 \<le> x then 0 else desce n (2 * x) - 1)"

definition expoente :: "real \<Rightarrow> int" where
  \<comment> \<open>the exponent \<open>e\<close> with \<open>2 ^ e \<le> \<bar>x\<bar> < 2 ^ (e + 1)\<close>, kept from \<open>-1022\<close> to \<open>1023\<close>\<close>
  "expoente x = (if 1 \<le> \<bar>x\<bar> then sobe 1023 \<bar>x\<bar> else desce 1022 \<bar>x\<bar>)"

definition round_even :: "real \<Rightarrow> int" where
  \<comment> \<open>the nearest integer, a half going to the even one\<close>
  "round_even y =
     (let n = \<lfloor>y\<rfloor>; r = y - of_int n in
      if r < 1 / 2 then n else if 1 / 2 < r then n + 1 else if even n then n else n + 1)"

definition dbl :: "real \<Rightarrow> real" where
  \<comment> \<open>the binary64 number nearest to \<open>x\<close>\<close>
  "dbl x = (let q = pot2 (expoente x - 52) in of_int (round_even (x / q)) * q)"

definition sql_sub :: "real \<Rightarrow> real \<Rightarrow> real" where
  \<comment> \<open>\<^verbatim>\<open>x - y\<close>: the operands as binary64 numbers, the result rounded\<close>
  "sql_sub x y = dbl (dbl x - dbl y)"

definition sql_add :: "real \<Rightarrow> real \<Rightarrow> real" where
  \<comment> \<open>\<^verbatim>\<open>x + y\<close>\<close>
  "sql_add x y = dbl (dbl x + dbl y)"

definition sql_mul :: "real \<Rightarrow> real \<Rightarrow> real" where
  \<comment> \<open>\<^verbatim>\<open>x * y\<close>\<close>
  "sql_mul x y = dbl (dbl x * dbl y)"

definition sql_003 :: real where
  \<comment> \<open>the literal \<^verbatim>\<open>0.03\<close>\<close>
  "sql_003 = dbl (3 / 100)"

text \<open>
  \<^verbatim>\<open>ROUND(x, 2)\<close> is the parameter \<open>rnd\<close> of the definitions that use it.  SQLite prints
  the number with two decimals and reads the text back; what it returns for a number
  half-way between two such texts, or nearer to that point than its printing resolves,
  depends on the version of the engine.
\<close>

definition round2_meio :: "real \<Rightarrow> real" where
  \<comment> \<open>a \<^verbatim>\<open>ROUND(x, 2)\<close> for the samples: the nearest number with two decimals, a half
      going away from zero, as a binary64 number\<close>
  "round2_meio x = dbl (sgn x * of_int \<lfloor>\<bar>x\<bar> * 100 + 1 / 2\<rfloor> / 100)"

subsection \<open>Tables\<close>

datatype status = Conferido | Divergente | Pendente

text \<open>Table \<^verbatim>\<open>resultado\<close> (\<^verbatim>\<open>TABLE_RESULTADO\<close>), one row per supplier group.\<close>

record resultado =
  codigo_fornecedor :: "string option"
  descricao_fornecedor :: "string option"
  saldo_contabil :: "real option"
  saldo_financeiro :: "real option"
  diferenca :: "real option"
  status :: status
  detalhes :: "string option"
  ordem_importancia :: "nat option"

text \<open>Table \<^verbatim>\<open>contas_itens\<close> (\<^verbatim>\<open>TABLE_CONTAS_ITENS\<close>), alias \<^verbatim>\<open>ci\<close> in the queries.\<close>

record contas_itens =
  ci_conta_contabil :: "string option"
  ci_descricao_item :: "string option"
  ci_codigo_fornecedor :: "string option"
  ci_descricao_fornecedor :: "string option"
  ci_saldo_atual :: "real option"

text \<open>Table \<^verbatim>\<open>resultado_adiantamento\<close> (\<^verbatim>\<open>TABLE_RESULTADO_ADIANTAMENTO\<close>).\<close>

record resultado_adiantamento =
  ra_codigo_fornecedor :: "string option"
  ra_descricao_fornecedor :: "string option"
  total_financeiro :: "real option"
  total_contabil :: "real option"
  ra_diferenca :: "real option"
  ra_status :: status
  ra_detalhes :: "string option"

subsection \<open>\<^verbatim>\<open>process_data\<close>: difference and status of the supplier groups\<close>

definition status_fornecedor :: "real option \<Rightarrow> real option \<Rightarrow> status" where
  \<comment> \<open>the \<^verbatim>\<open>CASE\<close> of \<^verbatim>\<open>query_diferenca\<close>, branches in the order of the source\<close>
  "status_fornecedor sc sf =
     (if sc = None \<and> sf = None then Pendente
      else if \<bar>sql_sub (coalesce0 sf) (coalesce0 sc)\<bar> \<le>
              sql_mul sql_003 (if \<bar>coalesce0 sc\<bar> > \<bar>coalesce0 sf\<bar>
                               then \<bar>coalesce0 sc\<bar> else \<bar>coalesce0 sf\<bar>)
      then Conferido
      else Divergente)"

definition query_diferenca_row :: "(real \<Rightarrow> real) \<Rightarrow> resultado \<Rightarrow> resultado" where
  "query_diferenca_row rnd r =
     r\<lparr>diferenca :=
          Some (rnd (sql_sub (coalesce0 (saldo_contabil r)) (coalesce0 (saldo_financeiro r)))),
       status := status_fornecedor (saldo_contabil r) (saldo_financeiro r)\<rparr>"

definition query_diferenca :: "(real \<Rightarrow> real) \<Rightarrow> resultado list \<Rightarrow> resultado list" where
  "query_diferenca rnd rows = map (query_diferenca_row rnd) rows"

subsection \<open>\<^verbatim>\<open>process_data\<close>: evidence of the divergent groups\<close>

definition conta_fornecedores :: string where
  \<comment> \<open>the account filter \<^verbatim>\<open>LIKE '2.01.02.01.0001%'\<close>\<close>
  "conta_fornecedores = ''2.01.02.01.0001''"

definition msg_divergencia :: string where
  \<comment> \<open>\<^verbatim>\<open>'Divergencia: R$ '\<close>\<close>
  "msg_divergencia = ''Diverg'' @ [CHR 0xC3, CHR 0xAA] @ ''ncia: R$ ''"

definition msg_itens_encontrados :: string where
  \<comment> \<open>\<^verbatim>\<open>'. Itens Contabeis encontrados: '\<close>\<close>
  "msg_itens_encontrados =
     ''. Itens Cont'' @ [CHR 0xC3, CHR 0xA1] @ ''beis encontrados: ''"

definition msg_investigar :: string where
  \<comment> \<open>\<^verbatim>\<open>'. Investigar manualmente no sistema. Nenhum item contabil especifico
      encontrado para analise automatica.'\<close>\<close>
  "msg_investigar =
     ''. Investigar manualmente no sistema. Nenhum item cont'' @ [CHR 0xC3, CHR 0xA1]
     @ ''bil espec'' @ [CHR 0xC3, CHR 0xAD] @ ''fico encontrado para an''
     @ [CHR 0xC3, CHR 0xA1] @ ''lise autom'' @ [CHR 0xC3, CHR 0xA1] @ ''tica.''"

definition msg_conferido :: string where
  \<comment> \<open>\<^verbatim>\<open>'Conciliacao dentro da tolerancia'\<close>\<close>
  "msg_conferido =
     ''Concilia'' @ [CHR 0xC3, CHR 0xA7, CHR 0xC3, CHR 0xA3] @ ''o dentro da toler''
     @ [CHR 0xC3, CHR 0xA2] @ ''ncia''"

definition itens_encontrados :: "contas_itens list \<Rightarrow> resultado \<Rightarrow> nat" where
  \<comment> \<open>the \<^verbatim>\<open>SELECT COUNT(*)\<close> of \<^verbatim>\<open>query_investigacao\<close>\<close>
  "itens_encontrados itens r =
     length (filter (\<lambda>ci.
        (sql_eq (ci_codigo_fornecedor ci) (codigo_fornecedor r)
         \<or> sql_eq (ci_descricao_fornecedor ci) (descricao_fornecedor r))
        \<and> sql_like_prefix conta_fornecedores (ci_conta_contabil ci)) itens)"

text \<open>
  The parameter \<open>txt\<close> of the following definitions is SQLite's conversion of a
  \<^verbatim>\<open>REAL\<close> to text, which the operator \<^verbatim>\<open>||\<close> applies.  A \<^verbatim>\<open>NULL\<close> operand makes
  the whole concatenation \<^verbatim>\<open>NULL\<close>.
\<close>

definition query_investigacao_row ::
  "(real \<Rightarrow> string) \<Rightarrow> contas_itens list \<Rightarrow> resultado \<Rightarrow> resultado" where
  "query_investigacao_row txt itens r =
     (if status r = Divergente
      then r\<lparr>detalhes :=
        (case diferenca r of
           None \<Rightarrow> None
         | Some d \<Rightarrow>
             Some ((case detalhes r of None \<Rightarrow> [] | Some e \<Rightarrow> e)
                   @ '' | '' @ msg_divergencia @ txt \<bar>d\<bar> @ msg_itens_encontrados
                   @ dec_of_nat (itens_encontrados itens r) @ '' itens''))\<rparr>
      else r)"

definition query_investigacao ::
  "(real \<Rightarrow> string) \<Rightarrow> contas_itens list \<Rightarrow> resultado list \<Rightarrow> resultado list" where
  "query_investigacao txt itens rows = map (query_investigacao_row txt itens) rows"

definition divergentes_sem_itens_row :: "(real \<Rightarrow> string) \<Rightarrow> resultado \<Rightarrow> resultado" where
  \<comment> \<open>the update commented \<^verbatim>\<open>Para fornecedores divergentes sem itens especificos\<close>\<close>
  "divergentes_sem_itens_row txt r =
     (if status r = Divergente \<and> sql_null_or_empty (detalhes r)
      then r\<lparr>detalhes :=
        (case diferenca r of
           None \<Rightarrow> None
         | Some d \<Rightarrow> Some (msg_divergencia @ txt \<bar>d\<bar> @ msg_investigar))\<rparr>
      else r)"

definition divergentes_sem_itens :: "(real \<Rightarrow> string) \<Rightarrow> resultado list \<Rightarrow> resultado list" where
  "divergentes_sem_itens txt rows = map (divergentes_sem_itens_row txt) rows"

subsection \<open>\<^verbatim>\<open>process_data\<close>: order of importance\<close>

definition conta_maiores :: "resultado list \<Rightarrow> resultado \<Rightarrow> nat" where
  \<comment> \<open>the correlated \<^verbatim>\<open>SELECT COUNT(*) FROM resultado r2 WHERE ABS(..) >= ABS(..)\<close>\<close>
  "conta_maiores rows r =
     length (filter (\<lambda>r2. \<bar>coalesce0 (diferenca r2)\<bar> \<ge> \<bar>coalesce0 (diferenca r)\<bar>) rows)"

definition query_ordem_importancia :: "resultado list \<Rightarrow> resultado list" where
  "query_ordem_importancia rows =
     map (\<lambda>r. r\<lparr>ordem_importancia := Some (conta_maiores rows r)\<rparr>) rows"

subsection \<open>\<^verbatim>\<open>process_data\<close>: evidence of the other groups\<close>

definition txt_coalesce0 :: "(real \<Rightarrow> string) \<Rightarrow> real option \<Rightarrow> string" where
  \<comment> \<open>\<^verbatim>\<open>COALESCE(x, 0)\<close> as text: the integer literal \<^verbatim>\<open>0\<close> when \<open>x\<close> is \<^verbatim>\<open>NULL\<close>\<close>
  "txt_coalesce0 txt x = (case x of None \<Rightarrow> ''0'' | Some v \<Rightarrow> txt v)"

definition detalhes_nao_divergentes_row :: "(real \<Rightarrow> string) \<Rightarrow> resultado \<Rightarrow> resultado" where
  "detalhes_nao_divergentes_row txt r =
     (if sql_null_or_empty (detalhes r)
      then r\<lparr>detalhes :=
        (case status r of
           Conferido \<Rightarrow> Some msg_conferido
         | Pendente \<Rightarrow>
             Some (''Financeiro: R$ '' @ txt_coalesce0 txt (saldo_financeiro r)
                   @ '' | Cont'' @ [CHR 0xC3, CHR 0xA1] @ ''bil: R$ ''
                   @ txt_coalesce0 txt (saldo_contabil r)
                   @ '' | Diferen'' @ [CHR 0xC3, CHR 0xA7] @ ''a: R$ ''
                   @ txt_coalesce0 txt (diferenca r))
         | Divergente \<Rightarrow> detalhes r)\<rparr>
      else r)"

definition detalhes_nao_divergentes ::
  "(real \<Rightarrow> string) \<Rightarrow> resultado list \<Rightarrow> resultado list" where
  "detalhes_nao_divergentes txt rows = map (detalhes_nao_divergentes_row txt) rows"

text \<open>
  The statements of \<^verbatim>\<open>process_data\<close> from \<^verbatim>\<open>query_diferenca\<close> to the last update of
  \<^verbatim>\<open>resultado\<close>, in the order of the source.
\<close>

definition anotacao ::
  "(real \<Rightarrow> string) \<Rightarrow> contas_itens list \<Rightarrow> resultado list \<Rightarrow> resultado list" where
  \<comment> \<open>the statements after \<^verbatim>\<open>query_diferenca\<close>\<close>
  "anotacao txt itens rows =
     detalhes_nao_divergentes txt
       (query_ordem_importancia
         (divergentes_sem_itens txt
           (query_investigacao txt itens rows)))"

definition classificacao ::
  "(real \<Rightarrow> real) \<Rightarrow> (real \<Rightarrow> string) \<Rightarrow> contas_itens list \<Rightarrow> resultado list
     \<Rightarrow> resultado list" where
  "classificacao rnd txt itens rows = anotacao txt itens (query_diferenca rnd rows)"

subsection \<open>A sample of table \<^verbatim>\<open>resultado\<close>\<close>

definition exemplo_resultado :: "resultado list" where
  "exemplo_resultado =
     [\<lparr>codigo_fornecedor = Some ''1001'', descricao_fornecedor = Some ''ACME'',
       saldo_contabil = Some 1200, saldo_financeiro = Some 1000, diferenca = None,
       status = Pendente, detalhes = None, ordem_importancia = None\<rparr>,
      \<lparr>codigo_fornecedor = Some ''1002'', descricao_fornecedor = Some ''BETA'',
       saldo_contabil = Some 100, saldo_financeiro = Some 97, diferenca = None,
       status = Pendente, detalhes = None, ordem_importancia = None\<rparr>,
      \<lparr>codigo_fornecedor = Some ''1003'', descricao_fornecedor = Some ''GAMA'',
       saldo_contabil = None, saldo_financeiro = None, diferenca = None,
       status = Pendente, detalhes = Some ''Conta: 2.01.02.01.000199'',
       ordem_importancia = None\<rparr>]"

definition exemplo_tolerancia :: "resultado list" where
  \<comment> \<open>groups within the tolerance, on its boundary, beyond it, and without totals\<close>
  "exemplo_tolerancia =
     [\<lparr>codigo_fornecedor = Some ''1005'', descricao_fornecedor = Some ''ALFA'',
       saldo_contabil = Some 1000, saldo_financeiro = Some 990, diferenca = None,
       status = Pendente, detalhes = None, ordem_importancia = None\<rparr>,
      \<lparr>codigo_fornecedor = Some ''1002'', descricao_fornecedor = Some ''BETA'',
       saldo_contabil = Some 100, saldo_financeiro = Some 97, diferenca = None,
       status = Pendente, detalhes = None, ordem_importancia = None\<rparr>,
      \<lparr>codigo_fornecedor = Some ''1001'', descricao_fornecedor = Some ''ACME'',
       saldo_contabil = Some 1200, saldo_financeiro = Some 1000, diferenca = None,
       status = Pendente, detalhes = None, ordem_importancia = None\<rparr>,
      \<lparr>codigo_fornecedor = Some ''1003'', descricao_fornecedor = Some ''GAMA'',
       saldo_contabil = None, saldo_financeiro = None, diferenca = None,
       status = Pendente, detalhes = None, ordem_importancia = None\<rparr>]"

definition exemplo_limite :: "resultado list" where
  \<comment> \<open>two groups next to the boundary of the tolerance: the binary64 numbers
      \<^verbatim>\<open>1.0449999999999922\<close> and \<^verbatim>\<open>1.0136499999999924\<close>; the amounts \<^verbatim>\<open>10.00\<close> and
      \<^verbatim>\<open>9.70\<close> as binary64 numbers\<close>
  "exemplo_limite =
     [\<lparr>codigo_fornecedor = Some ''1006'', descricao_fornecedor = Some ''IOTA'',
       saldo_contabil = Some (4706261610602133 / 4503599627370496),
       saldo_financeiro = Some (4565073762284069 / 4503599627370496), diferenca = None,
       status = Pendente, detalhes = None, ordem_importancia = None\<rparr>,
      \<lparr>codigo_fornecedor = Some ''1007'', descricao_fornecedor = Some ''KAPA'',
       saldo_contabil = Some 10, saldo_financeiro = Some (dbl (97 / 10)), diferenca = None,
       status = Pendente, detalhes = None, ordem_importancia = None\<rparr>]"

subsection \<open>\<^verbatim>\<open>_process_adiantamentos\<close>: difference, status and evidence of the advances\<close>

definition status_adiantamento :: "real option \<Rightarrow> real option \<Rightarrow> status" where
  \<comment> \<open>the \<^verbatim>\<open>CASE\<close> of \<^verbatim>\<open>query_diferenca\<close> in \<^verbatim>\<open>_process_adiantamentos\<close>\<close>
  "status_adiantamento tc tf =
     (if tc = None \<and> tf = None then Pendente
      else if tc = None \<and> tf \<noteq> None then Divergente
      else if tf = None \<and> tc \<noteq> None then Divergente
      else if \<bar>sql_add (coalesce0 tf) (coalesce0 tc)\<bar> \<le>
              sql_mul sql_003 (if \<bar>coalesce0 tc\<bar> > \<bar>coalesce0 tf\<bar>
                               then \<bar>coalesce0 tc\<bar> else \<bar>coalesce0 tf\<bar>)
      then Conferido
      else Divergente)"

definition query_diferenca_adiantamento_row ::
  "(real \<Rightarrow> real) \<Rightarrow> resultado_adiantamento \<Rightarrow> resultado_adiantamento" where
  "query_diferenca_adiantamento_row rnd r =
     r\<lparr>ra_diferenca :=
          Some (rnd (sql_add (coalesce0 (total_financeiro r)) (coalesce0 (total_contabil r)))),
       ra_status := status_adiantamento (total_contabil r) (total_financeiro r)\<rparr>"

definition query_diferenca_adiantamento ::
  "(real \<Rightarrow> real) \<Rightarrow> resultado_adiantamento list \<Rightarrow> resultado_adiantamento list" where
  "query_diferenca_adiantamento rnd rows = map (query_diferenca_adiantamento_row rnd) rows"

definition detalhes_adiantamento_row ::
  "(real \<Rightarrow> string) \<Rightarrow> resultado_adiantamento \<Rightarrow> resultado_adiantamento" where
  \<comment> \<open>the last update of \<^verbatim>\<open>_process_adiantamentos\<close>; the accented letters of the texts
      are UTF-8 bytes\<close>
  "detalhes_adiantamento_row txt r =
     (if sql_null_or_empty (ra_detalhes r)
      then r\<lparr>ra_detalhes :=
        (if ra_status r = Conferido then Some ''Adiantamento conciliado''
         else if ra_status r = Divergente \<and> total_financeiro r = None
         then Some (''Adiantamento cont'' @ [CHR 0xC3, CHR 0xA1] @ ''bil sem lan''
                    @ [CHR 0xC3, CHR 0xA7] @ ''amento financeiro: R$ ''
                    @ txt_coalesce0 txt (total_contabil r))
         else if ra_status r = Divergente \<and> total_contabil r = None
         then Some (''Adiantamento financeiro sem lan'' @ [CHR 0xC3, CHR 0xA7]
                    @ ''amento cont'' @ [CHR 0xC3, CHR 0xA1] @ ''bil: R$ ''
                    @ txt_coalesce0 txt (total_financeiro r))
         else Some (''Diferen'' @ [CHR 0xC3, CHR 0xA7] @ ''a: R$ ''
                    @ (case ra_diferenca r of None \<Rightarrow> ''0'' | Some d \<Rightarrow> txt \<bar>d\<bar>)
                    @ '' | Financeiro: R$ '' @ txt_coalesce0 txt (total_financeiro r)
                    @ '' | Cont'' @ [CHR 0xC3, CHR 0xA1] @ ''bil: R$ ''
                    @ txt_coalesce0 txt (total_contabil r)))\<rparr>
      else r)"

definition detalhes_adiantamento ::
  "(real \<Rightarrow> string) \<Rightarrow> resultado_adiantamento list \<Rightarrow> resultado_adiantamento list" where
  "detalhes_adiantamento txt rows = map (detalhes_adiantamento_row txt) rows"

definition classificacao_adiantamento ::
  "(real \<Rightarrow> real) \<Rightarrow> (real \<Rightarrow> string) \<Rightarrow> resultado_adiantamento list
     \<Rightarrow> resultado_adiantamento list" where
  \<comment> \<open>\<^verbatim>\<open>query_diferenca\<close>, then the update of \<^verbatim>\<open>detalhes\<close>\<close>
  "classificacao_adiantamento rnd txt rows =
     detalhes_adiantamento txt (query_diferenca_adiantamento rnd rows)"

definition exemplo_adiantamento :: "resultado_adiantamento list" where
  "exemplo_adiantamento =
     [\<lparr>ra_codigo_fornecedor = Some ''2001'', ra_descricao_fornecedor = Some ''DELTA'',
       total_financeiro = Some (- 500), total_contabil = Some 500, ra_diferenca = None,
       ra_status = Pendente, ra_detalhes = None\<rparr>,
      \<lparr>ra_codigo_fornecedor = Some ''2002'', ra_descricao_fornecedor = Some ''OMEGA'',
       total_financeiro = Some (- 500), total_contabil = Some 700, ra_diferenca = None,
       ra_status = Pendente, ra_detalhes = None\<rparr>,
      \<lparr>ra_codigo_fornecedor = Some ''2003'', ra_descricao_fornecedor = Some ''SIGMA'',
       total_financeiro = Some (- 97), total_contabil = Some 100, ra_diferenca = None,
       ra_status = Pendente, ra_detalhes = None\<rparr>]"

definition exemplo_adiantamento_limite :: "resultado_adiantamento list" where
  \<comment> \<open>two advances next to the boundary of the tolerance, as in \<open>exemplo_limite\<close>\<close>
  "exemplo_adiantamento_limite =
     [\<lparr>ra_codigo_fornecedor = Some ''2006'', ra_descricao_fornecedor = Some ''IOTA'',
       total_financeiro = Some (- (4565073762284069 / 4503599627370496)),
       total_contabil = Some (4706261610602133 / 4503599627370496), ra_diferenca = None,
       ra_status = Pendente, ra_detalhes = None\<rparr>,
      \<lparr>ra_codigo_fornecedor = Some ''2007'', ra_descricao_fornecedor = Some ''KAPA'',
       total_financeiro = Some (- 10), total_contabil = Some (dbl (97 / 10)),
       ra_diferenca = None, ra_status = Pendente, ra_detalhes = None\<rparr>]"

definition exemplo_divergente :: "resultado list" where
  \<comment> \<open>rows as \<^verbatim>\<open>query_diferenca\<close> leaves them: one with the evidence of the accounting
      items, one without\<close>
  "exemplo_divergente =
     [\<lparr>codigo_fornecedor = Some ''1001'', descricao_fornecedor = Some ''ACME'',
       saldo_contabil = Some 1200, saldo_financeiro = Some 1000, diferenca = Some 200,
       status = Divergente, detalhes = Some ''Conta: 2.01.02.01.000199'',
       ordem_importancia = None\<rparr>,
      \<lparr>codigo_fornecedor = Some ''1004'', descricao_fornecedor = Some ''ZETA'',
       saldo_contabil = Some 0, saldo_financeiro = Some 50, diferenca = Some (- 50),
       status = Divergente, detalhes = None, ordem_importancia = None\<rparr>,
      \<lparr>codigo_fornecedor = Some ''1002'', descricao_fornecedor = Some ''BETA'',
       saldo_contabil = Some 100, saldo_financeiro = Some 97, diferenca = Some 3,
       status = Conferido, detalhes = Some ''Conta: 2.01.02.01.000150'',
       ordem_importancia = None\<rparr>]"

section \<open>Cleaning of the imported cells\<close>

text \<open>
  A Python string is the list of its characters, a character being its code point, here
  below 256 (the text exports are read as Latin-1); characters beyond \<^verbatim>\<open>U+00FF\<close> are
  outside the model.  In that range the decimal digits are \<^verbatim>\<open>0\<close> to \<^verbatim>\<open>9\<close>, and the
  whitespace of \<^verbatim>\<open>str.strip()\<close> and of the class \<^verbatim>\<open>\s\<close> is the same twelve characters:
  \<^verbatim>\<open>U+0009\<close> to \<^verbatim>\<open>U+000D\<close>, \<^verbatim>\<open>U+001C\<close> to \<^verbatim>\<open>U+001F\<close>, the space, \<^verbatim>\<open>U+0085\<close> and the
  no-break space \<^verbatim>\<open>U+00A0\<close>.
\<close>

definition is_digit :: "char \<Rightarrow> bool" where
  \<comment> \<open>the class \<^verbatim>\<open>\d\<close>\<close>
  "is_digit c = (c \<in> set ''0123456789'')"

definition is_space :: "char \<Rightarrow> bool" where
  \<comment> \<open>what \<^verbatim>\<open>str.strip()\<close> removes and \<^verbatim>\<open>\s\<close> matches\<close>
  "is_space c =
     (c \<in> set [CHR 0x09, CHR 0x0A, CHR 0x0B, CHR 0x0C, CHR 0x0D,
                CHR 0x1C, CHR 0x1D, CHR 0x1E, CHR 0x1F, CHR '' '', CHR 0x85, CHR 0xA0])"

definition is_sep :: "char \<Rightarrow> bool" where
  \<comment> \<open>the class \<^verbatim>\<open>[\s\-\.\/]\<close>\<close>
  "is_sep c = (is_space c \<or> c \<in> set ''-./'')"

definition py_strip :: "string \<Rightarrow> string" where
  "py_strip s = rev (dropWhile is_space (rev (dropWhile is_space s)))"

definition digit_val :: "char \<Rightarrow> nat" where
  "digit_val c = of_char c - 48"

definition digits_value :: "string \<Rightarrow> nat" where
  \<comment> \<open>the number written by a string of decimal digits\<close>
  "digits_value ds = foldl (\<lambda>n c. 10 * n + digit_val c) 0 ds"

subsection \<open>\<^verbatim>\<open>formatar_credito\<close>\<close>

definition py_float :: "string \<Rightarrow> real option" where
  \<comment> \<open>\<^verbatim>\<open>float(s)\<close> on a string of digits and dots, the only strings \<^verbatim>\<open>formatar_credito\<close>
      passes to it; \<open>None\<close> is \<^verbatim>\<open>ValueError\<close>\<close>
  "py_float s =
     (let ip = takeWhile is_digit s; rest = dropWhile is_digit s in
      case rest of
        [] \<Rightarrow> if ip = [] then None else Some (real (digits_value ip))
      | c # fr \<Rightarrow>
          if c = CHR ''.'' \<and> list_all is_digit fr \<and> (ip \<noteq> [] \<or> fr \<noteq> [])
          then Some (real (digits_value ip) + real (digits_value fr) / 10 ^ length fr)
          else None)"

definition formatar_credito :: "string option \<Rightarrow> real option" where
  \<comment> \<open>the argument \<open>None\<close> is a missing cell (\<^verbatim>\<open>pd.isna\<close>); the \<^verbatim>\<open>except\<close> branch
      is the case \<open>None\<close> of \<open>py_float\<close>\<close>
  "formatar_credito valor =
     (case valor of
        None \<Rightarrow> None
      | Some v \<Rightarrow>
          let valor_str = py_strip v;
              is_credito = suffix ''C'' valor_str;
              is_debito = suffix ''D'' valor_str;
              limpo = filter (\<lambda>c. is_digit c \<or> c = CHR '','') valor_str;
              sem_pontos = filter (\<lambda>c. c \<noteq> CHR ''.'') limpo;
              numero = (if CHR '','' \<in> set limpo
                        then map (\<lambda>c. if c = CHR '','' then CHR ''.'' else c) sem_pontos
                        else sem_pontos)
          in Some (case py_float numero of
                     None \<Rightarrow> 0
                   | Some x \<Rightarrow> if is_credito then - \<bar>x\<bar> else if is_debito then \<bar>x\<bar> else x))"

subsection \<open>\<^verbatim>\<open>separar_codigo_descricao\<close>\<close>

definition match_codigo :: "string \<Rightarrow> string option" where
  \<comment> \<open>group 1 of \<^verbatim>\<open>re.match(r'^(\d+[\s\-\.\/]*\d*)', s)\<close>: each part is greedy and
      nothing follows the group, so no backtracking takes place\<close>
  "match_codigo s =
     (let d1 = takeWhile is_digit s; r1 = dropWhile is_digit s;
          sp = takeWhile is_sep r1; r2 = dropWhile is_sep r1;
          d2 = takeWhile is_digit r2
      in if d1 = [] then None else Some (d1 @ sp @ d2))"

definition separar_valor :: "string option \<Rightarrow> string \<times> string" where
  \<comment> \<open>the body of the loop: the pair written to the columns \<^verbatim>\<open>col_codigo\<close> and
      \<^verbatim>\<open>col_descricao\<close> for one cell of \<^verbatim>\<open>coluna_origem\<close>\<close>
  "separar_valor valor =
     (case valor of
        None \<Rightarrow> ([], [])
      | Some v \<Rightarrow>
          if py_strip v = [] then ([], [])
          else
            let valor_str = py_strip v in
            case match_codigo valor_str of
              Some m \<Rightarrow>
                let codigo = py_strip m;
                    codigo_limpo = filter is_digit codigo;
                    descricao = py_strip (drop (length codigo) valor_str)
                in (codigo_limpo, dropWhile is_sep descricao)
            | None \<Rightarrow> ([], valor_str))"

definition separar_codigo_descricao :: "string option list \<Rightarrow> (string \<times> string) list" where
  "separar_codigo_descricao coluna = map separar_valor coluna"

definition leading_run :: "string \<Rightarrow> string" where
  \<comment> \<open>the words of the specification and of the docstring, for comparison: the leading
      run of digits, optionally containing internal separators, is the longest prefix
      of digits and separators that begins and ends with a digit\<close>
  "leading_run s =
     (let p = takeWhile (\<lambda>c. is_digit c \<or> is_sep c) s in
      if p = [] \<or> \<not> is_digit (hd p) then [] else rev (dropWhile is_sep (rev p)))"

section \<open>The join of the supplier groups with the accounting items\<close>

subsection \<open>SQL text functions\<close>

definition sql_trim :: "string \<Rightarrow> string" where
  \<comment> \<open>\<^verbatim>\<open>TRIM(x)\<close>: SQLite removes the spaces of both ends, and nothing else\<close>
  "sql_trim s =
     rev (dropWhile (\<lambda>c. c = CHR '' '') (rev (dropWhile (\<lambda>c. c = CHR '' '') s)))"

definition sql_upper :: "string \<Rightarrow> string" where
  \<comment> \<open>\<^verbatim>\<open>UPPER(x)\<close>: the ASCII letters only\<close>
  "sql_upper s =
     map (\<lambda>c. case map_of (zip ''abcdefghijklmnopqrstuvwxyz'' ''ABCDEFGHIJKLMNOPQRSTUVWXYZ'') c of
                 Some u \<Rightarrow> u | None \<Rightarrow> c) s"

function sql_remove :: "string \<Rightarrow> string \<Rightarrow> string" where
  \<comment> \<open>\<^verbatim>\<open>REPLACE(s, pat, '')\<close>: every occurrence of \<open>pat\<close> is deleted, from left to right\<close>
  "sql_remove pat s =
     (if s = [] then []
      else if pat \<noteq> [] \<and> prefix pat s then sql_remove pat (drop (length pat) s)
      else hd s # sql_remove pat (tl s))"
  by pat_completeness auto
termination
  by (relation "measure (\<lambda>(pat, s). length s)") auto

declare sql_remove.simps [simp del]

definition chave_juncao :: "string \<Rightarrow> string" where
  \<comment> \<open>\<^verbatim>\<open>REPLACE(REPLACE(UPPER(TRIM(x)), 'AF', ''), 'F', '')\<close>, applied to both sides of the
      comparison in \<^verbatim>\<open>query_atualiza_contabil\<close>\<close>
  "chave_juncao x = sql_remove ''F'' (sql_remove ''AF'' (sql_upper (sql_trim x)))"

definition limpa_codigo_fornecedor :: "string \<Rightarrow> string" where
  \<comment> \<open>the cleaning of the column at import (\<^verbatim>\<open>_clean_modelo1_data\<close> and its siblings):
      \<^verbatim>\<open>.str.strip()\<close>, then \<^verbatim>\<open>.str.replace(r'^(AF|F)', '', regex=True)\<close>\<close>
  "limpa_codigo_fornecedor x =
     (let s = py_strip x in
      if prefix ''AF'' s then drop 2 s else if prefix ''F'' s then drop 1 s else s)"

subsection \<open>\<^verbatim>\<open>query_atualiza_contabil\<close>\<close>

definition casa_fornecedor :: "contas_itens \<Rightarrow> resultado \<Rightarrow> bool" where
  \<comment> \<open>the \<^verbatim>\<open>WHERE\<close> clause shared by the three subqueries\<close>
  "casa_fornecedor ci r =
     (sql_like_prefix conta_fornecedores (ci_conta_contabil ci)
      \<and> (case (ci_codigo_fornecedor ci, codigo_fornecedor r) of
            (Some a, Some b) \<Rightarrow> chave_juncao a = chave_juncao b \<and> a \<noteq> []
          | _ \<Rightarrow> False))"

definition linha_detalhe ::
  "(real \<Rightarrow> real) \<Rightarrow> (real \<Rightarrow> string) \<Rightarrow> contas_itens \<Rightarrow> string option" where
  \<comment> \<open>the text concatenated for one accounting item\<close>
  "linha_detalhe rnd txt ci =
     (case (ci_conta_contabil ci, ci_descricao_item ci) of
        (Some c, Some d) \<Rightarrow>
          Some (''Conta: '' @ c @ '' | Item: '' @ d @ '' | Valor: R$ ''
                @ txt (rnd (coalesce0 (ci_saldo_atual ci))))
      | _ \<Rightarrow> None)"

fun junta :: "string \<Rightarrow> string list \<Rightarrow> string" where
  "junta sep [] = []"
| "junta sep [x] = x"
| "junta sep (x # y # ys) = x @ sep @ junta sep (y # ys)"

definition group_concat :: "string \<Rightarrow> string option list \<Rightarrow> string option" where
  \<comment> \<open>\<^verbatim>\<open>GROUP_CONCAT(x, sep)\<close>: the values that are not \<^verbatim>\<open>NULL\<close>, or \<^verbatim>\<open>NULL\<close> when there is none\<close>
  "group_concat sep xs =
     (case List.map_filter id xs of [] \<Rightarrow> None | ys \<Rightarrow> Some (junta sep ys))"

definition query_atualiza_contabil_row ::
  "(real \<Rightarrow> real) \<Rightarrow> (real \<Rightarrow> string) \<Rightarrow> contas_itens list \<Rightarrow> resultado \<Rightarrow> resultado" where
  "query_atualiza_contabil_row rnd txt itens r =
     (let casados = filter (\<lambda>ci. casa_fornecedor ci r) itens in
      if casados = [] then r
      else r\<lparr>saldo_contabil :=
                Some (sum_list (map (\<lambda>ci. coalesce0 (ci_saldo_atual ci)) casados)),
              detalhes := group_concat '' | '' (map (linha_detalhe rnd txt) casados)\<rparr>)"

definition query_atualiza_contabil ::
  "(real \<Rightarrow> real) \<Rightarrow> (real \<Rightarrow> string) \<Rightarrow> contas_itens list \<Rightarrow> resultado list
     \<Rightarrow> resultado list" where
  "query_atualiza_contabil rnd txt itens rows =
     map (query_atualiza_contabil_row rnd txt itens) rows"

definition exemplo_itens :: "contas_itens list" where
  "exemplo_itens =
     [\<lparr>ci_conta_contabil = Some ''2.01.02.01.000199'', ci_descricao_item = Some ''123 ACME'',
       ci_codigo_fornecedor = Some ''123'', ci_descricao_fornecedor = Some ''ACME'',
       ci_saldo_atual = Some 100\<rparr>,
      \<lparr>ci_conta_contabil = Some ''2.01.02.01.000199'', ci_descricao_item = Some ''12F3 BETA'',
       ci_codigo_fornecedor = Some ''12F3'', ci_descricao_fornecedor = Some ''BETA'',
       ci_saldo_atual = Some 50\<rparr>]"

definition exemplo_grupo :: resultado where
  "exemplo_grupo =
     \<lparr>codigo_fornecedor = Some ''123'', descricao_fornecedor = Some ''ACME'',
      saldo_contabil = Some 0, saldo_financeiro = Some 100, diferenca = None,
      status = Pendente, detalhes = None, ordem_importancia = None\<rparr>"

section \<open>\<^verbatim>\<open>import_from_excel\<close>\<close>

subsection \<open>The destination table\<close>

definition TABLE_FINANCEIRO :: string where "TABLE_FINANCEIRO = ''financeiro''"
definition TABLE_MODELO1 :: string where "TABLE_MODELO1 = ''modelo1''"
definition TABLE_CONTAS_ITENS :: string where "TABLE_CONTAS_ITENS = ''contas_itens''"
definition TABLE_ADIANTAMENTO :: string where "TABLE_ADIANTAMENTO = ''adiantamento''"

definition py_lower :: "string \<Rightarrow> string" where
  \<comment> \<open>\<^verbatim>\<open>str.lower()\<close> on ASCII text\<close>
  "py_lower s =
     map (\<lambda>c. case map_of (zip ''ABCDEFGHIJKLMNOPQRSTUVWXYZ'' ''abcdefghijklmnopqrstuvwxyz'') c of
                 Some l \<Rightarrow> l | None \<Rightarrow> c) s"

fun contem :: "string \<Rightarrow> string \<Rightarrow> bool" where
  \<comment> \<open>\<^verbatim>\<open>t in s\<close>\<close>
  "contem t [] = (t = [])"
| "contem t (c # cs) = (prefix t (c # cs) \<or> contem t cs)"

fun split_barra :: "string \<Rightarrow> string list" where
  "split_barra [] = [[]]"
| "split_barra (c # cs) =
     (if c = CHR ''/'' then [] # split_barra cs
      else case split_barra cs of x # xs \<Rightarrow> (c # x) # xs | [] \<Rightarrow> [[c]])"

definition path_name :: "string \<Rightarrow> string" where
  \<comment> \<open>\<^verbatim>\<open>Path(p).name\<close> of a POSIX path: the last component\<close>
  "path_name p =
     (let partes = filter (\<lambda>x. x \<noteq> [] \<and> x \<noteq> ''.'') (split_barra p) in
      if partes = [] then [] else last partes)"

definition path_stem :: "string \<Rightarrow> string" where
  \<comment> \<open>\<^verbatim>\<open>Path(p).stem\<close>: the name without its last suffix; a dot that opens or closes
      the name starts no suffix\<close>
  "path_stem p =
     (let name = path_name p;
          depois = takeWhile (\<lambda>c. c \<noteq> CHR ''.'') (rev name);
          i = length name - length depois - 1
      in if CHR ''.'' \<in> set name \<and> 0 < i \<and> i < length name - 1 then take i name else name)"

definition tabela_destino :: "string \<Rightarrow> string \<Rightarrow> string" where
  \<comment> \<open>the table \<^verbatim>\<open>import_from_excel\<close> writes, from the file name and the argument\<close>
  "tabela_destino file_path table_name =
     (let filename = py_lower (path_stem file_path) in
      if contem ''ctbr100'' filename then TABLE_ADIANTAMENTO
      else if contem ''ctbr140'' filename then TABLE_CONTAS_ITENS
      else if contem ''ctbr040'' filename then TABLE_MODELO1
      else if contem ''finr150'' filename then TABLE_FINANCEIRO
      else table_name)"

subsection \<open>The store as \<^verbatim>\<open>import_from_excel\<close> sees it\<close>

datatype cell = Nulo | Numero real | Texto string

record dataframe =
  colunas :: "string list"
  linhas :: "cell list list"

type_synonym banco = "string \<Rightarrow> dataframe option"

datatype leitura = Lido dataframe | Invalido | Inesperado

datatype excecao = ExcecaoNaoMapeadaError

text \<open>
  Reading the file, mapping its columns, checking the expected ones and cleaning the
  cells (the body of \<^verbatim>\<open>import_from_excel\<close> down to the cleaning) use the file and the
  destination table's name, not the store.  They are the parameter \<open>ler\<close>:
  \<open>Lido df\<close> is the cleaned frame (its column names are distinct), \<open>Invalido\<close> the exceptions
  \<^verbatim>\<open>PlanilhaFormatacaoErradaError\<close> and \<^verbatim>\<open>InvalidDataFormat\<close>, for which the function
  returns \<^verbatim>\<open>False\<close>, and \<open>Inesperado\<close> any other exception, raised again as
  \<^verbatim>\<open>ExcecaoNaoMapeadaError\<close>.
\<close>

definition table_info :: "banco \<Rightarrow> string \<Rightarrow> string list" where
  \<comment> \<open>the column names of \<^verbatim>\<open>PRAGMA table_info(t)\<close>: none for a table that does not exist\<close>
  "table_info db t = (case db t of None \<Rightarrow> [] | Some tb \<Rightarrow> colunas tb)"

definition valor_celula :: "string list \<Rightarrow> cell list \<Rightarrow> string \<Rightarrow> cell" where
  "valor_celula cols linha c = (case map_of (zip cols linha) c of Some x \<Rightarrow> x | None \<Rightarrow> Nulo)"

definition seleciona :: "string list \<Rightarrow> dataframe \<Rightarrow> dataframe" where
  \<comment> \<open>\<^verbatim>\<open>df[keep]\<close>\<close>
  "seleciona keep df =
     \<lparr>colunas = keep, linhas = map (\<lambda>l. map (valor_celula (colunas df) l) keep) (linhas df)\<rparr>"

definition padrao :: "string \<Rightarrow> cell" where
  \<comment> \<open>the value of a column the table has and the frame lacks\<close>
  "padrao c = (if c = ''excluido'' then Numero 0 else Nulo)"

definition acrescenta :: "string \<Rightarrow> dataframe \<Rightarrow> dataframe" where
  \<comment> \<open>\<^verbatim>\<open>df[col] = v\<close> for a new column\<close>
  "acrescenta c df = \<lparr>colunas = colunas df @ [c], linhas = map (\<lambda>l. l @ [padrao c]) (linhas df)\<rparr>"

definition completa :: "string list \<Rightarrow> dataframe \<Rightarrow> dataframe" where
  \<comment> \<open>the loop \<^verbatim>\<open>for col in table_columns: if col not in df.columns: ...\<close>\<close>
  "completa table_columns df =
     foldl (\<lambda>d c. if c \<in> set (colunas d) then d else acrescenta c d) df table_columns"

definition import_from_excel ::
  "(string \<Rightarrow> string \<Rightarrow> leitura) \<Rightarrow> banco \<Rightarrow> string \<Rightarrow> string \<Rightarrow> (excecao + bool) \<times> banco" where
  \<comment> \<open>the result and the store afterwards; \<^verbatim>\<open>to_sql(..., if_exists='replace')\<close> puts
      the frame in the place of the table.  A frame without columns cannot be written
      (\<^verbatim>\<open>CREATE TABLE\<close> needs a column): \<^verbatim>\<open>to_sql\<close> raises, the last \<^verbatim>\<open>except\<close> raises
      \<^verbatim>\<open>ExcecaoNaoMapeadaError\<close> and the store is as it was.  That is the import into a
      table that does not exist: \<^verbatim>\<open>PRAGMA table_info\<close> lists no column, so none is kept
      and none is added\<close>
  "import_from_excel ler db file_path table_name =
     (let tabela = tabela_destino file_path table_name in
      case ler file_path tabela of
        Invalido \<Rightarrow> (Inr False, db)
      | Inesperado \<Rightarrow> (Inl ExcecaoNaoMapeadaError, db)
      | Lido df \<Rightarrow>
          let table_columns = table_info db tabela;
              keep = filter (\<lambda>c. c \<in> set table_columns) (colunas df);
              df1 = completa table_columns (seleciona keep df)
          in if colunas df1 = [] then (Inl ExcecaoNaoMapeadaError, db)
             else (Inr True, db(tabela \<mapsto> df1)))"

fun novas :: "string list \<Rightarrow> string list \<Rightarrow> string list" where
  \<comment> \<open>the columns the loop of \<open>completa\<close> adds to a frame with columns \<open>pres\<close>, in order\<close>
  "novas pres [] = []"
| "novas pres (c # cs) = (if c \<in> set pres then novas pres cs else c # novas (pres @ [c]) cs)"

definition exemplo_banco :: banco where
  "exemplo_banco =
     Map.empty(''financeiro'' \<mapsto>
       \<lparr>colunas = [''id'', ''fornecedor'', ''valor_original'', ''excluido''],
        linhas = [[Numero 1, Texto ''1001 ACME'', Numero 10, Numero 0],
                  [Numero 2, Texto ''1002 BETA'', Numero 20, Numero 0]]\<rparr>)"

definition exemplo_banco_itens :: banco where
  \<comment> \<open>the same store with a table \<^verbatim>\<open>contas_itens\<close>\<close>
  "exemplo_banco_itens =
     exemplo_banco(''contas_itens'' \<mapsto>
       \<lparr>colunas = [''id'', ''conta_contabil'', ''codigo_fornecedor'', ''excluido''],
        linhas = [[Numero 1, Texto ''2.01.02.01.000199'', Texto ''1003'', Numero 0]]\<rparr>)"

definition exemplo_leitor :: "string \<Rightarrow> string \<Rightarrow> leitura" where
  "exemplo_leitor file_path tabela =
     Lido \<lparr>colunas = [''fornecedor'', ''valor_original'', ''codigo_fornecedor''],
           linhas = [[Texto ''1001 ACME'', Numero 1000, Texto ''1001'']]\<rparr>"

section \<open>\<^verbatim>\<open>process_data\<close> as one transaction\<close>

subsection \<open>The store as \<^verbatim>\<open>process_data\<close> sees it\<close>

text \<open>Table \<^verbatim>\<open>financeiro\<close>, alias \<^verbatim>\<open>f\<close>: the columns the queries read or write.\<close>

record financeiro =
  f_fornecedor :: "string option"
  f_tipo_titulo :: "string option"
  f_valor_original :: "real option"
  f_tit_vencidos_valor_nominal :: "real option"
  f_titulos_a_vencer_valor_nominal :: "real option"
  f_excluido :: "int option"
  f_codigo_fornecedor :: "string option"
  f_descricao_fornecedor :: "string option"

text \<open>Table \<^verbatim>\<open>adiantamento\<close>, alias \<^verbatim>\<open>a\<close>.\<close>

record adiantamento =
  a_conta_contabil :: "string option"
  a_codigo_fornecedor :: "string option"
  a_descricao_fornecedor :: "string option"
  a_saldo_atual :: "real option"

record db =
  tb_financeiro :: "financeiro list"
  tb_contas_itens :: "contas_itens list"
  tb_adiantamento :: "adiantamento list"
  tb_resultado :: "resultado list"
  tb_resultado_adiantamento :: "resultado_adiantamento list"

text \<open>
  The four \<^verbatim>\<open>INSERT ... SELECT ... GROUP BY\<close> statements are parameters of the model:
  the properties of the transaction hold whatever rows they insert.
\<close>

record insercoes =
  query_consolidada :: "db \<Rightarrow> db"
  query_contabeis_faltantes :: "db \<Rightarrow> db"
  query_adiantamento_financeiro :: "db \<Rightarrow> db"
  query_contabeis_sem_match :: "db \<Rightarrow> db"

subsection \<open>The other statements\<close>

definition conta_adiantamentos :: string where
  \<comment> \<open>the account filter \<^verbatim>\<open>LIKE '1.01.06.02.0001%'\<close>\<close>
  "conta_adiantamentos = ''1.01.06.02.0001''"

definition query_adiantamento_row :: "adiantamento list \<Rightarrow> resultado \<Rightarrow> resultado" where
  \<comment> \<open>\<^verbatim>\<open>query_adiantamento\<close> of \<^verbatim>\<open>process_data\<close>: the advances are added to the accounting
      balance; a \<^verbatim>\<open>NULL\<close> balance stays \<^verbatim>\<open>NULL\<close>\<close>
  "query_adiantamento_row ads r =
     (let casados = filter (\<lambda>a. sql_like_prefix conta_adiantamentos (a_conta_contabil a)
                                 \<and> sql_eq (a_codigo_fornecedor a) (codigo_fornecedor r)) ads in
      if casados = [] then r
      else r\<lparr>saldo_contabil :=
        (case saldo_contabil r of
           None \<Rightarrow> None
         | Some s \<Rightarrow>
             Some (sql_add s (sum_list (map (\<lambda>a. coalesce0 (a_saldo_atual a)) casados))))\<rparr>)"

definition atualiza_codigo_financeiro :: "financeiro \<Rightarrow> financeiro" where
  \<comment> \<open>\<^verbatim>\<open>UPDATE financeiro SET codigo_fornecedor = fornecedor WHERE codigo_fornecedor IS NULL\<close>\<close>
  "atualiza_codigo_financeiro f =
     (if f_codigo_fornecedor f = None then f\<lparr>f_codigo_fornecedor := f_fornecedor f\<rparr> else f)"

definition atualiza_descricao_financeiro :: "financeiro \<Rightarrow> financeiro" where
  "atualiza_descricao_financeiro f =
     (if f_descricao_fornecedor f = None then f\<lparr>f_descricao_fornecedor := f_fornecedor f\<rparr>
      else f)"

definition casa_adiantamento :: "adiantamento \<Rightarrow> resultado_adiantamento \<Rightarrow> bool" where
  \<comment> \<open>the \<^verbatim>\<open>WHERE\<close> clause of the subqueries of \<^verbatim>\<open>query_contabil_update\<close>\<close>
  "casa_adiantamento a r =
     (sql_eq (a_codigo_fornecedor a) (ra_codigo_fornecedor r)
      \<or> sql_eq (map_option sql_trim (a_descricao_fornecedor a)) (ra_descricao_fornecedor r))"

definition linha_adiantamento :: "(real \<Rightarrow> string) \<Rightarrow> adiantamento \<Rightarrow> string option" where
  "linha_adiantamento txt a =
     (case (a_descricao_fornecedor a, a_saldo_atual a) of
        (Some d, Some s) \<Rightarrow> Some (d @ '': R$ '' @ txt s)
      | _ \<Rightarrow> None)"

definition query_contabil_update_row ::
  "(real \<Rightarrow> string) \<Rightarrow> adiantamento list \<Rightarrow> resultado_adiantamento \<Rightarrow> resultado_adiantamento"
  where
  "query_contabil_update_row txt ads r =
     (let casados = filter (\<lambda>a. casa_adiantamento a r) ads in
      if casados = [] then r
      else r\<lparr>total_contabil := Some (sum_list (map (\<lambda>a. coalesce0 (a_saldo_atual a)) casados)),
              ra_detalhes :=
                Some (''Adiantamento: ''
                      @ (case group_concat '' | '' (map (linha_adiantamento txt) casados) of
                           None \<Rightarrow> ''Nenhum registro cont'' @ [CHR 0xC3, CHR 0xA1] @ ''bil''
                         | Some g \<Rightarrow> g))\<rparr>)"

subsection \<open>The sequence of statements\<close>

definition em_resultado :: "(db \<Rightarrow> resultado list \<Rightarrow> resultado list) \<Rightarrow> db \<Rightarrow> db" where
  "em_resultado f d = d\<lparr>tb_resultado := f d (tb_resultado d)\<rparr>"

definition em_resultado_adiantamento ::
  "(db \<Rightarrow> resultado_adiantamento list \<Rightarrow> resultado_adiantamento list) \<Rightarrow> db \<Rightarrow> db" where
  "em_resultado_adiantamento f d =
     d\<lparr>tb_resultado_adiantamento := f d (tb_resultado_adiantamento d)\<rparr>"

definition comandos_antes ::
  "(real \<Rightarrow> real) \<Rightarrow> (real \<Rightarrow> string) \<Rightarrow> insercoes \<Rightarrow> (db \<Rightarrow> db) list" where
  \<comment> \<open>from \<^verbatim>\<open>BEGIN TRANSACTION\<close> to the statement before the order of importance; the
      first two, \<^verbatim>\<open>BEGIN\<close> and \<^verbatim>\<open>_get_datas_referencia\<close>, change no table\<close>
  "comandos_antes rnd txt ins =
     [\<lambda>d. d,
      \<lambda>d. d,
      em_resultado (\<lambda>d rows. []),
      em_resultado_adiantamento (\<lambda>d rows. []),
      query_consolidada ins,
      em_resultado (\<lambda>d. query_atualiza_contabil rnd txt (tb_contas_itens d)),
      em_resultado (\<lambda>d. map (query_adiantamento_row (tb_adiantamento d))),
      query_contabeis_faltantes ins,
      em_resultado (\<lambda>d. query_diferenca rnd),
      em_resultado (\<lambda>d. query_investigacao txt (tb_contas_itens d)),
      em_resultado (\<lambda>d. divergentes_sem_itens txt)]"

definition comandos_depois ::
  "(real \<Rightarrow> real) \<Rightarrow> (real \<Rightarrow> string) \<Rightarrow> insercoes \<Rightarrow> (db \<Rightarrow> db) list" where
  \<comment> \<open>after the order of importance: the last update of \<^verbatim>\<open>resultado\<close>, the statements of
      \<^verbatim>\<open>_process_adiantamentos\<close> (its \<^verbatim>\<open>PRAGMA\<close> changes no table, and the columns its
      \<^verbatim>\<open>ALTER TABLE\<close> would add are there in the model) and \<^verbatim>\<open>commit\<close>\<close>
  "comandos_depois rnd txt ins =
     [em_resultado (\<lambda>d. detalhes_nao_divergentes txt),
      em_resultado_adiantamento (\<lambda>d rows. []),
      \<lambda>d. d,
      \<lambda>d. d\<lparr>tb_financeiro := map atualiza_codigo_financeiro (tb_financeiro d)\<rparr>,
      \<lambda>d. d\<lparr>tb_financeiro := map atualiza_descricao_financeiro (tb_financeiro d)\<rparr>,
      query_adiantamento_financeiro ins,
      em_resultado_adiantamento (\<lambda>d. map (query_contabil_update_row txt (tb_adiantamento d))),
      query_contabeis_sem_match ins,
      em_resultado_adiantamento (\<lambda>d. query_diferenca_adiantamento rnd),
      em_resultado_adiantamento (\<lambda>d. detalhes_adiantamento txt),
      \<lambda>d. d]"

text \<open>
  Whether a statement raises is decided outside the program (the engine, the disk, the
  schema of the file on disk): \<open>falha n\<close> says that the statement number \<open>n\<close> of the run
  raises.  A statement that raises changes nothing.
\<close>

fun executa :: "(nat \<Rightarrow> bool) \<Rightarrow> nat \<Rightarrow> (db \<Rightarrow> db) list \<Rightarrow> db \<Rightarrow> db option" where
  "executa falha n [] d = Some d"
| "executa falha n (c # cs) d = (if falha n then None else executa falha (Suc n) cs (c d))"

definition process_data ::
  "(nat \<Rightarrow> bool) \<Rightarrow> (real \<Rightarrow> real) \<Rightarrow> (real \<Rightarrow> string) \<Rightarrow> insercoes \<Rightarrow> db
     \<Rightarrow> (excecao + bool) \<times> db" where
  \<comment> \<open>the result, and the store as committed afterwards; \<^verbatim>\<open>rollback\<close> gives back the store
      of \<^verbatim>\<open>BEGIN\<close>; the \<^verbatim>\<open>try\<close> around the order of importance logs the error and goes on\<close>
  "process_data falha rnd txt ins d0 =
     (let antes = comandos_antes rnd txt ins; k = length antes in
      case executa falha 0 antes d0 of
        None \<Rightarrow> (Inl ExcecaoNaoMapeadaError, d0)
      | Some d1 \<Rightarrow>
          let d2 = (if falha k then d1 else em_resultado (\<lambda>d. query_ordem_importancia) d1) in
          case executa falha (Suc k) (comandos_depois rnd txt ins) d2 of
            None \<Rightarrow> (Inl ExcecaoNaoMapeadaError, d0)
          | Some d3 \<Rightarrow> (Inr True, d3))"

definition exemplo_insercoes :: insercoes where
  \<comment> \<open>insertions for a sample run: three supplier groups, no advance\<close>
  "exemplo_insercoes =
     \<lparr>query_consolidada = (\<lambda>d. d\<lparr>tb_resultado := exemplo_resultado\<rparr>),
      query_contabeis_faltantes = (\<lambda>d. d),
      query_adiantamento_financeiro = (\<lambda>d. d),
      query_contabeis_sem_match = (\<lambda>d. d)\<rparr>"

definition exemplo_db :: db where
  \<comment> \<open>a store whose result tables are empty\<close>
  "exemplo_db =
     \<lparr>tb_financeiro = [], tb_contas_itens = [], tb_adiantamento = [],
      tb_resultado = [], tb_resultado_adiantamento = []\<rparr>"

definition texto_fixo :: "string \<Rightarrow> real \<Rightarrow> string" where
  \<comment> \<open>a conversion to text for the samples: the same text for every number\<close>
  "texto_fixo s x = s"

definition falha_em :: "nat \<Rightarrow> nat \<Rightarrow> bool" where
  \<comment> \<open>a run in which the statement number \<open>n\<close> raises, and no other\<close>
  "falha_em n i = (i = n)"

section \<open>Verified properties\<close>

subsection \<open>Rounding to the nearest binary64 number\<close>

lemma pot2_powi: "pot2 e = 2 powi e"
  by (simp add: pot2_def power_int_def inverse_eq_divide power_one_over)

lemma pot2_pos [simp]: "0 < pot2 e"
  by (simp add: pot2_powi)

lemma pot2_nz [simp]: "pot2 e \<noteq> 0"
  using pot2_pos [of e] by (metis less_irrefl)

lemma pot2_ge0 [simp]: "0 \<le> pot2 e"
  using pot2_pos [of e] by (rule less_imp_le)

lemma pot2_add: "pot2 (a + b) = pot2 a * pot2 b"
  by (simp add: pot2_powi power_int_add)

lemma pot2_0 [simp]: "pot2 0 = 1"
  by (simp add: pot2_def)

lemma pot2_1 [simp]: "pot2 1 = 2"
  by (simp add: pot2_def)

lemma pot2_Suc: "pot2 (1 + e) = 2 * pot2 e"
  by (simp add: pot2_add)

lemma pot2_pred: "pot2 (e - 1) = pot2 e / 2"
  using pot2_add [of "e - 1" 1] by simp

lemma pot2_mono: "a \<le> b \<Longrightarrow> pot2 a \<le> pot2 b"
  by (simp add: pot2_powi power_int_increasing)

lemma pot2_nat: "pot2 (int n) = 2 ^ n"
  by (simp add: pot2_def)

lemma pot2_neg_nat: "pot2 (- int n) = 1 / 2 ^ n"
  by (simp add: pot2_powi power_int_minus inverse_eq_divide)

lemma pot2_small: "pot2 (- 1022) \<le> 1 / 2 ^ 20"
proof -
  have "pot2 (- 1022) \<le> pot2 (- 20)"
    by (rule pot2_mono) simp
  also have "\<dots> = 1 / 2 ^ 20"
    using pot2_neg_nat [of 20] by simp
  finally show ?thesis .
qed

text \<open>The exponent found is a lower bound of a number that is not subnormal.\<close>

lemma sobe_le: "1 \<le> x \<Longrightarrow> pot2 (sobe n x) \<le> x"
proof (induction n arbitrary: x)
  case 0
  then show ?case by simp
next
  case (Suc n)
  show ?case
  proof (cases "x < 2")
    case True
    with Suc.prems show ?thesis by simp
  next
    case False
    then have "1 \<le> x / 2" by simp
    from Suc.IH [OF this] have "2 * pot2 (sobe n (x / 2)) \<le> x"
      by simp
    with False show ?thesis
      by (simp add: pot2_Suc)
  qed
qed

lemma desce_le: "pot2 (- int n) \<le> x \<Longrightarrow> pot2 (desce n x) \<le> x"
proof (induction n arbitrary: x)
  case 0
  then show ?case by simp
next
  case (Suc n)
  show ?case
  proof (cases "1 \<le> x")
    case True
    then show ?thesis by simp
  next
    case False
    have "pot2 (- int n) = 2 * pot2 (- int (Suc n))"
      using pot2_Suc [of "- int (Suc n)"] by simp
    with Suc.prems have "pot2 (- int n) \<le> 2 * x"
      by simp
    from Suc.IH [OF this] have "pot2 (desce n (2 * x)) / 2 \<le> x"
      by simp
    with False show ?thesis
      by (simp add: pot2_pred)
  qed
qed

lemma desce_sub: "x * 2 ^ n \<le> 1 \<Longrightarrow> desce n x = - int n"
proof (induction n arbitrary: x)
  case 0
  then show ?case by simp
next
  case (Suc n)
  have "x * 2 ^ Suc n = (2 * x) * 2 ^ n" by simp
  with Suc.prems have a: "(2 * x) * 2 ^ n \<le> 1" by simp
  have p: "(1::real) \<le> 2 ^ n" by simp
  have "\<not> 1 \<le> x"
  proof
    assume "1 \<le> x"
    then have "2 * 1 * 1 \<le> (2 * x) * 2 ^ n"
      using p by (intro mult_mono) simp_all
    with a show False by simp
  qed
  then show ?case
    using Suc.IH [OF a] by simp
qed

lemma expoente_le: "pot2 (- 1022) \<le> \<bar>x\<bar> \<Longrightarrow> pot2 (expoente x) \<le> \<bar>x\<bar>"
  using desce_le [of 1022 "\<bar>x\<bar>"] sobe_le [of "\<bar>x\<bar>" 1023]
  by (simp add: expoente_def)

lemma expoente_sub:
  assumes "\<bar>x\<bar> \<le> pot2 (- 1022)"
  shows "expoente x = - 1022"
proof -
  have p: "pot2 (- 1022) = 1 / 2 ^ 1022"
    using pot2_neg_nat [of 1022] by simp
  have "pot2 (- 1022) < 1"
    unfolding p by simp
  with assms have "\<not> 1 \<le> \<bar>x\<bar>" by simp
  moreover have "\<bar>x\<bar> * 2 ^ 1022 \<le> 1"
    using assms unfolding p by (simp add: field_simps)
  ultimately show ?thesis
    using desce_sub [of "\<bar>x\<bar>" 1022] by (simp add: expoente_def)
qed

text \<open>The error of the rounding: half a unit of the last place.\<close>

lemma round_even_err: "\<bar>of_int (round_even y) - y\<bar> \<le> 1 / 2"
  unfolding round_even_def Let_def by (auto; linarith)

lemma round_even_bound:
  assumes "\<bar>y\<bar> \<le> of_int n"
  shows "\<bar>round_even y\<bar> \<le> n"
proof -
  have "\<bar>of_int (round_even y) - y\<bar> \<le> 1 / 2"
    by (rule round_even_err)
  with assms have "of_int (round_even y) \<le> (of_int n :: real) + 1 / 2"
    and "- (of_int n :: real) - 1 / 2 \<le> of_int (round_even y)"
    by linarith+
  then have "round_even y \<le> n" "- n \<le> round_even y"
    by linarith+
  then show ?thesis by simp
qed

lemma round_even_nonneg: "0 \<le> y \<Longrightarrow> 0 \<le> round_even y"
  unfolding round_even_def Let_def by (auto; linarith)

lemma dbl_nonneg: "0 \<le> x \<Longrightarrow> 0 \<le> dbl x"
  by (simp add: dbl_def Let_def round_even_nonneg)

lemma floor_neg:
  "\<lfloor>- y :: real\<rfloor> = (if y = of_int \<lfloor>y\<rfloor> then - \<lfloor>y\<rfloor> else - \<lfloor>y\<rfloor> - 1)"
  using ceiling_altdef [of y] unfolding ceiling_def by (auto split: if_splits; linarith)

lemma round_even_neg: "round_even (- y) = - round_even y"
proof (cases "y = of_int \<lfloor>y\<rfloor>")
  case True
  then have "\<lfloor>- y\<rfloor> = - \<lfloor>y\<rfloor>"
    by (simp add: floor_neg)
  with True show ?thesis
    by (simp add: round_even_def Let_def)
next
  case False
  then have f: "\<lfloor>- y\<rfloor> = - \<lfloor>y\<rfloor> - 1"
    by (simp add: floor_neg)
  have r: "0 < y - of_int \<lfloor>y\<rfloor>" "y - of_int \<lfloor>y\<rfloor> < 1"
    using False by linarith+
  have e: "even (- \<lfloor>y\<rfloor> - 1) \<longleftrightarrow> odd \<lfloor>y\<rfloor>"
    by simp
  show ?thesis
    unfolding round_even_def Let_def f e using r
    by (auto; linarith)
qed

lemma dbl_neg: "dbl (- x) = - dbl x"
  by (simp add: dbl_def Let_def expoente_def round_even_neg)

lemma dbl_abs: "dbl \<bar>x\<bar> = \<bar>dbl x\<bar>"
proof (cases "0 \<le> x")
  case True
  then show ?thesis
    using dbl_nonneg [of x] by simp
next
  case False
  then have "0 \<le> - x" by simp
  from dbl_nonneg [OF this] have "dbl x \<le> 0"
    by (simp add: dbl_neg)
  with False show ?thesis
    by (simp add: dbl_neg)
qed

lemma dbl_max_abs:
  assumes "dbl c = c" "dbl f = f"
  shows "dbl (max \<bar>c\<bar> \<bar>f\<bar>) = max \<bar>c\<bar> \<bar>f\<bar>"
  using assms by (simp add: max_def dbl_abs)

lemma dbl_err_q: "\<bar>dbl x - x\<bar> \<le> pot2 (expoente x - 52) / 2"
proof -
  let ?q = "pot2 (expoente x - 52)"
  have q: "0 < ?q" by simp
  have q0: "?q \<noteq> 0" by simp
  have "dbl x - x = (of_int (round_even (x / ?q)) - x / ?q) * ?q"
    using q0 by (simp add: dbl_def Let_def left_diff_distrib)
  then have "\<bar>dbl x - x\<bar> = \<bar>of_int (round_even (x / ?q)) - x / ?q\<bar> * ?q"
    using q by (simp add: abs_mult)
  also have "\<dots> \<le> 1 / 2 * ?q"
    using q round_even_err [of "x / ?q"] by (intro mult_right_mono) simp_all
  finally show ?thesis by simp
qed

lemma dbl_err:
  assumes "pot2 (- 1022) \<le> \<bar>x\<bar>"
  shows "\<bar>dbl x - x\<bar> \<le> \<bar>x\<bar> / 2 ^ 53"
proof -
  have m53: "pot2 (- 53) = 1 / 2 ^ 53"
    using pot2_neg_nat [of 53] by simp
  have "pot2 (expoente x - 52) / 2 = pot2 (expoente x + (- 53))"
    using pot2_pred [of "expoente x - 52"] by simp
  also have "\<dots> = pot2 (expoente x) * pot2 (- 53)"
    by (rule pot2_add)
  also have "\<dots> = pot2 (expoente x) / 2 ^ 53"
    by (simp only: m53 times_divide_eq_right mult_1_right)
  also have "\<dots> \<le> \<bar>x\<bar> / 2 ^ 53"
    using expoente_le [OF assms] by (simp add: divide_right_mono)
  finally show ?thesis
    using dbl_err_q [of x] by linarith
qed

lemma dbl_rel:
  assumes "pot2 (- 1022) \<le> \<bar>x\<bar>"
  shows "\<bar>dbl x\<bar> \<le> (1 + 1 / 2 ^ 53) * \<bar>x\<bar>" and "(1 - 1 / 2 ^ 53) * \<bar>x\<bar> \<le> \<bar>dbl x\<bar>"
proof -
  have e: "\<bar>dbl x - x\<bar> \<le> \<bar>x\<bar> / 2 ^ 53"
    using assms by (rule dbl_err)
  have a: "(1 + 1 / 2 ^ 53) * \<bar>x\<bar> = \<bar>x\<bar> + \<bar>x\<bar> / 2 ^ 53"
    by (simp only: distrib_right mult_1 times_divide_eq_left)
  have b: "(1 - 1 / 2 ^ 53) * \<bar>x\<bar> = \<bar>x\<bar> - \<bar>x\<bar> / 2 ^ 53"
    by (simp only: left_diff_distrib mult_1 times_divide_eq_left)
  show "\<bar>dbl x\<bar> \<le> (1 + 1 / 2 ^ 53) * \<bar>x\<bar>"
    unfolding a using e by linarith
  show "(1 - 1 / 2 ^ 53) * \<bar>x\<bar> \<le> \<bar>dbl x\<bar>"
    unfolding b using e by linarith
qed

lemma dbl_sub:
  assumes "\<bar>x\<bar> \<le> pot2 (- 1022)"
  shows "\<bar>dbl x\<bar> \<le> pot2 (- 1022)"
proof -
  let ?q = "pot2 (- 1074)"
  have q: "0 < ?q" by simp
  have e: "expoente x - 52 = - 1074"
    using expoente_sub [OF assms] by simp
  have pq: "pot2 (- 1022) = 2 ^ 52 * ?q"
    using pot2_add [of 52 "- 1074"] pot2_nat [of 52] by simp
  have "\<bar>x / ?q\<bar> \<le> 2 ^ 52"
    using assms q unfolding pq by (simp add: field_simps abs_mult)
  then have "\<bar>x / ?q\<bar> \<le> of_int (2 ^ 52)"
    by simp
  then have "\<bar>round_even (x / ?q)\<bar> \<le> 2 ^ 52"
    by (rule round_even_bound)
  then have "\<bar>of_int (round_even (x / ?q)) :: real\<bar> \<le> 2 ^ 52"
    by (metis of_int_abs of_int_le_iff of_int_numeral of_int_power)
  then have "\<bar>of_int (round_even (x / ?q)) :: real\<bar> * ?q \<le> 2 ^ 52 * ?q"
    using q by (intro mult_right_mono) simp_all
  then have "\<bar>of_int (round_even (x / ?q)) * ?q\<bar> \<le> 2 ^ 52 * ?q"
    using q by (simp only: abs_mult abs_of_pos)
  then show ?thesis
    by (simp add: dbl_def Let_def e pq)
qed

text \<open>Evaluation of the rounding at a given number.\<close>

lemma sobe_numeral:
  "sobe (numeral k) x = (if x < 2 then 0 else 1 + sobe (pred_numeral k) (x / 2))"
  by (simp add: numeral_eq_Suc)

lemma desce_numeral:
  "desce (numeral k) x = (if 1 \<le> x then 0 else desce (pred_numeral k) (2 * x) - 1)"
  by (simp add: numeral_eq_Suc)

lemmas dbl_eval =
  dbl_def expoente_def sobe_numeral desce_numeral pot2_def round_even_def Let_def

lemma sql_003_eq: "sql_003 = 1080863910568919 / 36028797018963968"
  unfolding sql_003_def by (simp add: dbl_eval)

lemma sql_003_dbl: "dbl sql_003 = sql_003"
  by (simp add: sql_003_eq dbl_eval)

lemma dbl_samples:
  "dbl 0 = 0" "dbl 3 = 3" "dbl 10 = 10" "dbl 97 = 97" "dbl 100 = 100" "dbl 200 = 200"
  "dbl 500 = 500" "dbl 700 = 700" "dbl 990 = 990" "dbl 1000 = 1000" "dbl 1200 = 1200"
  "dbl (97 / 10) = 2730307274093363 / 281474976710656"
  by (simp_all add: dbl_eval)

lemma sql_sub_binary64: "dbl x = x \<Longrightarrow> dbl y = y \<Longrightarrow> sql_sub x y = dbl (x - y)"
  by (simp add: sql_sub_def)

lemma sql_add_binary64: "dbl x = x \<Longrightarrow> dbl y = y \<Longrightarrow> sql_add x y = dbl (x + y)"
  by (simp add: sql_add_def)

lemma tolerancia_binary64:
  "dbl c = c \<Longrightarrow> dbl f = f \<Longrightarrow>
     sql_mul sql_003 (max \<bar>c\<bar> \<bar>f\<bar>) = dbl (sql_003 * max \<bar>c\<bar> \<bar>f\<bar>)"
  by (simp add: sql_mul_def sql_003_dbl dbl_max_abs)

lemma round2_meio_samples: "round2_meio 0 = 0" "round2_meio 3 = 3" "round2_meio 200 = 200"
  by (simp_all add: round2_meio_def dbl_samples)

text \<open>
  The tolerance as the engine computes it, \<open>dbl (sql_003 * m)\<close>, against the exact
  \<open>3 / 100 * m\<close>, and the test on a difference \<open>d\<close>: outside a band of relative width
  \<open>1 / 2 ^ 50\<close> around the exact tolerance, the rounded test and the exact one agree.
\<close>

lemma tolerancia_normal:
  assumes "1 / 100 \<le> m"
  shows "pot2 (- 1022) \<le> \<bar>sql_003 * m\<bar>"
proof -
  have "(1::real) / 2 ^ 20 \<le> sql_003 * (1 / 100)"
    by (simp add: sql_003_eq)
  also have "\<dots> \<le> sql_003 * m"
    using assms by (intro mult_left_mono) (simp_all add: sql_003_eq)
  also have "\<dots> \<le> \<bar>sql_003 * m\<bar>"
    by simp
  finally show ?thesis
    using pot2_small by linarith
qed

lemma tolerancia_bounds:
  assumes "1 / 100 \<le> m"
  shows "(1 - 1 / 2 ^ 52) * (3 / 100 * m) \<le> dbl (sql_003 * m)"
    and "dbl (sql_003 * m) \<le> (1 + 1 / 2 ^ 53) * (3 / 100 * m)"
proof -
  let ?p = "sql_003 * m"
  have m: "0 \<le> m" using assms by simp
  have p: "0 \<le> ?p" using m by (simp add: sql_003_eq)
  then have ap: "\<bar>?p\<bar> = ?p" by simp
  note r = dbl_rel [OF tolerancia_normal [OF assms], unfolded ap]
  have lo: "(1 - 1 / 2 ^ 52) * (3 / 100 * m) \<le> (1 - 1 / 2 ^ 53) * ?p"
  proof -
    have "(1 - 1 / 2 ^ 52) * (3 / 100) \<le> (1 - 1 / 2 ^ 53) * sql_003"
      by (simp add: sql_003_eq)
    then have "(1 - 1 / 2 ^ 52) * (3 / 100) * m \<le> (1 - 1 / 2 ^ 53) * sql_003 * m"
      using m by (rule mult_right_mono)
    then show ?thesis
      by (simp only: mult.assoc)
  qed
  have hi: "(1 + 1 / 2 ^ 53) * ?p \<le> (1 + 1 / 2 ^ 53) * (3 / 100 * m)"
  proof -
    have "sql_003 * m \<le> 3 / 100 * m"
      using m by (intro mult_right_mono) (simp_all add: sql_003_eq)
    then show ?thesis
      by (intro mult_left_mono) simp_all
  qed
  have "dbl ?p \<le> \<bar>dbl ?p\<bar>" by simp
  with r(1) hi show "dbl ?p \<le> (1 + 1 / 2 ^ 53) * (3 / 100 * m)"
    by linarith
  have "0 \<le> dbl ?p"
    using p by (rule dbl_nonneg)
  then have "\<bar>dbl ?p\<bar> = dbl ?p" by simp
  with r(2) lo show "(1 - 1 / 2 ^ 52) * (3 / 100 * m) \<le> dbl ?p"
    by linarith
qed

lemma tolerancia_dentro:
  assumes m: "1 / 100 \<le> m" and d: "\<bar>d\<bar> \<le> (1 - 1 / 2 ^ 50) * (3 / 100 * m)"
  shows "\<bar>dbl d\<bar> \<le> dbl (sql_003 * m)"
proof -
  let ?t = "3 / 100 * m"
  have t: "3 / 10000 \<le> ?t" using m by simp
  note r = tolerancia_bounds(1) [OF m]
  show ?thesis
  proof (cases "pot2 (- 1022) \<le> \<bar>d\<bar>")
    case True
    have "\<bar>dbl d\<bar> \<le> (1 + 1 / 2 ^ 53) * \<bar>d\<bar>"
      by (rule dbl_rel(1) [OF True])
    also have "\<dots> \<le> (1 + 1 / 2 ^ 53) * ((1 - 1 / 2 ^ 50) * ?t)"
      using d by (intro mult_left_mono) simp_all
    also have "\<dots> = ((1 + 1 / 2 ^ 53) * (1 - 1 / 2 ^ 50)) * ?t"
      by (simp only: mult.assoc)
    also have "\<dots> \<le> (1 - 1 / 2 ^ 52) * ?t"
      using t by (intro mult_right_mono) simp_all
    finally show ?thesis
      using r by linarith
  next
    case False
    then have "\<bar>dbl d\<bar> \<le> pot2 (- 1022)"
      by (intro dbl_sub) simp
    also have "\<dots> \<le> 1 / 2 ^ 20"
      by (rule pot2_small)
    also have "\<dots> \<le> (1 - 1 / 2 ^ 52) * (3 / 10000)"
      by simp
    also have "\<dots> \<le> (1 - 1 / 2 ^ 52) * ?t"
      using t by (intro mult_left_mono) simp_all
    finally show ?thesis
      using r by linarith
  qed
qed

lemma tolerancia_fora:
  assumes m: "1 / 100 \<le> m" and d: "(1 + 1 / 2 ^ 50) * (3 / 100 * m) < \<bar>d\<bar>"
  shows "dbl (sql_003 * m) < \<bar>dbl d\<bar>"
proof -
  let ?t = "3 / 100 * m"
  have t: "3 / 10000 \<le> ?t" using m by simp
  note r = tolerancia_bounds(2) [OF m]
  have "1 / 2 ^ 20 \<le> (1 + 1 / 2 ^ 50) * (3 / 10000 :: real)"
    by simp
  also have "\<dots> \<le> (1 + 1 / 2 ^ 50) * ?t"
    using t by (intro mult_left_mono) simp_all
  finally have "pot2 (- 1022) \<le> \<bar>d\<bar>"
    using d pot2_small by linarith
  then have l: "(1 - 1 / 2 ^ 53) * \<bar>d\<bar> \<le> \<bar>dbl d\<bar>"
    by (rule dbl_rel(2))
  have "(1 + 1 / 2 ^ 53) * ?t \<le> ((1 - 1 / 2 ^ 53) * (1 + 1 / 2 ^ 50)) * ?t"
    using t by (intro mult_right_mono) simp_all
  also have "\<dots> = (1 - 1 / 2 ^ 53) * ((1 + 1 / 2 ^ 50) * ?t)"
    by (simp only: mult.assoc)
  also have "\<dots> < (1 - 1 / 2 ^ 53) * \<bar>d\<bar>"
    using d by (intro mult_strict_left_mono) simp_all
  finally show ?thesis
    using r l by linarith
qed

subsection \<open>The statements after \<^verbatim>\<open>query_diferenca\<close> row by row\<close>

lemma anotacao_nth:
  assumes "i < length rows"
  shows "anotacao txt itens rows ! i =
     detalhes_nao_divergentes_row txt
       ((divergentes_sem_itens_row txt (query_investigacao_row txt itens (rows ! i)))
          \<lparr>ordem_importancia :=
             Some (conta_maiores (divergentes_sem_itens txt (query_investigacao txt itens rows))
                    (divergentes_sem_itens_row txt (query_investigacao_row txt itens (rows ! i))))\<rparr>)"
  using assms
  by (simp add: anotacao_def detalhes_nao_divergentes_def query_ordem_importancia_def
      divergentes_sem_itens_def query_investigacao_def)

lemma length_anotacao [simp]: "length (anotacao txt itens rows) = length rows"
  by (simp add: anotacao_def detalhes_nao_divergentes_def query_ordem_importancia_def
      divergentes_sem_itens_def query_investigacao_def)

lemma query_investigacao_row_frame [simp]:
  "status (query_investigacao_row txt itens r) = status r"
  "saldo_contabil (query_investigacao_row txt itens r) = saldo_contabil r"
  "saldo_financeiro (query_investigacao_row txt itens r) = saldo_financeiro r"
  "diferenca (query_investigacao_row txt itens r) = diferenca r"
  "codigo_fornecedor (query_investigacao_row txt itens r) = codigo_fornecedor r"
  "ordem_importancia (query_investigacao_row txt itens r) = ordem_importancia r"
  by (simp_all add: query_investigacao_row_def)

lemma divergentes_sem_itens_row_frame [simp]:
  "status (divergentes_sem_itens_row txt r) = status r"
  "saldo_contabil (divergentes_sem_itens_row txt r) = saldo_contabil r"
  "saldo_financeiro (divergentes_sem_itens_row txt r) = saldo_financeiro r"
  "diferenca (divergentes_sem_itens_row txt r) = diferenca r"
  "codigo_fornecedor (divergentes_sem_itens_row txt r) = codigo_fornecedor r"
  "ordem_importancia (divergentes_sem_itens_row txt r) = ordem_importancia r"
  by (simp_all add: divergentes_sem_itens_row_def)

lemma detalhes_nao_divergentes_row_frame [simp]:
  "status (detalhes_nao_divergentes_row txt r) = status r"
  "saldo_contabil (detalhes_nao_divergentes_row txt r) = saldo_contabil r"
  "saldo_financeiro (detalhes_nao_divergentes_row txt r) = saldo_financeiro r"
  "diferenca (detalhes_nao_divergentes_row txt r) = diferenca r"
  "codigo_fornecedor (detalhes_nao_divergentes_row txt r) = codigo_fornecedor r"
  "ordem_importancia (detalhes_nao_divergentes_row txt r) = ordem_importancia r"
  by (simp_all add: detalhes_nao_divergentes_row_def)

lemma length_classificacao: "length (classificacao rnd txt itens rows) = length rows"
  by (simp add: classificacao_def query_diferenca_def)

lemma classificacao_nth_fields:
  assumes "i < length rows"
  shows "status (classificacao rnd txt itens rows ! i) =
           status_fornecedor (saldo_contabil (rows ! i)) (saldo_financeiro (rows ! i))"
    and "saldo_contabil (classificacao rnd txt itens rows ! i) = saldo_contabil (rows ! i)"
    and "saldo_financeiro (classificacao rnd txt itens rows ! i) = saldo_financeiro (rows ! i)"
    and "codigo_fornecedor (classificacao rnd txt itens rows ! i) = codigo_fornecedor (rows ! i)"
  using assms
  by (simp_all add: classificacao_def anotacao_nth query_diferenca_def query_diferenca_row_def)

lemma anotacao_diferenca: "map diferenca (anotacao txt itens rows) = map diferenca rows"
  by (rule nth_equalityI) (simp_all add: anotacao_nth)

lemma classificacao_diferenca:
  "map diferenca (classificacao rnd txt itens rows) =
     map (\<lambda>r. Some (rnd (sql_sub (coalesce0 (saldo_contabil r)) (coalesce0 (saldo_financeiro r)))))
       rows"
  by (simp add: classificacao_def anotacao_diferenca query_diferenca_def query_diferenca_row_def)

lemma exemplo_diferenca:
  "map diferenca (classificacao round2_meio txt itens exemplo_resultado)
     = [Some 200, Some 3, Some 0]"
  by (simp add: classificacao_diferenca exemplo_resultado_def coalesce0_def sql_sub_def
      dbl_samples round2_meio_samples)

subsection \<open>Status of the supplier groups\<close>

lemma status_fornecedor_max:
  "status_fornecedor sc sf =
     (if sf = None \<and> sc = None then Pendente
      else if \<bar>sql_sub (coalesce0 sf) (coalesce0 sc)\<bar>
                \<le> sql_mul sql_003 (max \<bar>coalesce0 sc\<bar> \<bar>coalesce0 sf\<bar>)
      then Conferido else Divergente)"
  by (simp add: status_fornecedor_def max_def)

lemma status_fornecedor_dentro:
  assumes "\<not> (sf = None \<and> sc = None)"
    and "dbl (coalesce0 sf) = coalesce0 sf" "dbl (coalesce0 sc) = coalesce0 sc"
    and "1 / 100 \<le> max \<bar>coalesce0 sc\<bar> \<bar>coalesce0 sf\<bar>"
    and "\<bar>coalesce0 sf - coalesce0 sc\<bar>
           \<le> (1 - 1 / 2 ^ 50) * (3 / 100 * max \<bar>coalesce0 sc\<bar> \<bar>coalesce0 sf\<bar>)"
  shows "status_fornecedor sc sf = Conferido"
  using assms(1) tolerancia_dentro [OF assms(4) assms(5)]
  by (simp add: status_fornecedor_max sql_sub_binary64 [OF assms(2) assms(3)]
      tolerancia_binary64 [OF assms(3) assms(2)])

lemma status_fornecedor_fora:
  assumes "\<not> (sf = None \<and> sc = None)"
    and "dbl (coalesce0 sf) = coalesce0 sf" "dbl (coalesce0 sc) = coalesce0 sc"
    and "1 / 100 \<le> max \<bar>coalesce0 sc\<bar> \<bar>coalesce0 sf\<bar>"
    and "(1 + 1 / 2 ^ 50) * (3 / 100 * max \<bar>coalesce0 sc\<bar> \<bar>coalesce0 sf\<bar>)
           < \<bar>coalesce0 sf - coalesce0 sc\<bar>"
  shows "status_fornecedor sc sf = Divergente"
  using assms(1) tolerancia_fora [OF assms(4) assms(5)]
  by (simp add: status_fornecedor_max sql_sub_binary64 [OF assms(2) assms(3)]
      tolerancia_binary64 [OF assms(3) assms(2)])

text \<open>
  Claim C1, as amended.  After \<^verbatim>\<open>process_data\<close> has run \<^verbatim>\<open>query_diferenca\<close> and the
  statements that follow it, every row of \<^verbatim>\<open>resultado\<close> keeps its supplier code and its
  two totals, and its status is \<open>Pendente\<close> when both totals are \<^verbatim>\<open>NULL\<close>, otherwise
  \<open>Conferido\<close> when the test \<open>\<bar>financial - accounting\<bar> \<le> 0.03 * max \<bar>accounting\<bar> \<bar>financial\<bar>\<close>
  holds as the engine evaluates it, the difference and the product each rounded to the
  nearest binary64 number and \<^verbatim>\<open>0.03\<close> read as one (the boundary of that test is
  \<open>Conferido\<close>), otherwise \<open>Divergente\<close>.  A single \<^verbatim>\<open>NULL\<close> total counts as zero, as
  \<^verbatim>\<open>COALESCE\<close> makes it.  For totals that are binary64 numbers, as the table holds
  them, one at least not below \<open>0.01\<close> in absolute value, the status is that of the
  exact test whenever the exact difference is not within the relative distance
  \<open>1 / 2 ^ 50\<close> of the exact tolerance.
\<close>

theorem status_fornecedor_classification:
  "length (classificacao rnd txt itens rows) = length rows \<and>
   (\<forall>i < length rows.
      let r = classificacao rnd txt itens rows ! i;
          f = coalesce0 (saldo_financeiro r); c = coalesce0 (saldo_contabil r);
          m = max \<bar>c\<bar> \<bar>f\<bar>
      in codigo_fornecedor r = codigo_fornecedor (rows ! i)
         \<and> saldo_financeiro r = saldo_financeiro (rows ! i)
         \<and> saldo_contabil r = saldo_contabil (rows ! i)
         \<and> status r =
            (if saldo_financeiro r = None \<and> saldo_contabil r = None then Pendente
             else if \<bar>sql_sub f c\<bar> \<le> sql_mul sql_003 m then Conferido
             else Divergente)
         \<and> (\<not> (saldo_financeiro r = None \<and> saldo_contabil r = None)
              \<and> dbl f = f \<and> dbl c = c \<and> 1 / 100 \<le> m \<longrightarrow>
              (\<bar>f - c\<bar> \<le> (1 - 1 / 2 ^ 50) * (3 / 100 * m) \<longrightarrow> status r = Conferido)
              \<and> ((1 + 1 / 2 ^ 50) * (3 / 100 * m) < \<bar>f - c\<bar> \<longrightarrow> status r = Divergente)))"
proof (intro conjI allI impI)
  show "length (classificacao rnd txt itens rows) = length rows"
    by (rule length_classificacao)
next
  fix i assume i: "i < length rows"
  let ?r = "classificacao rnd txt itens rows ! i"
  let ?sf = "saldo_financeiro (rows ! i)" and ?sc = "saldo_contabil (rows ! i)"
  note fields = classificacao_nth_fields [OF i, of rnd "txt" itens]
  show "let r = ?r; f = coalesce0 (saldo_financeiro r); c = coalesce0 (saldo_contabil r);
          m = max \<bar>c\<bar> \<bar>f\<bar>
      in codigo_fornecedor r = codigo_fornecedor (rows ! i)
         \<and> saldo_financeiro r = saldo_financeiro (rows ! i)
         \<and> saldo_contabil r = saldo_contabil (rows ! i)
         \<and> status r =
            (if saldo_financeiro r = None \<and> saldo_contabil r = None then Pendente
             else if \<bar>sql_sub f c\<bar> \<le> sql_mul sql_003 m then Conferido
             else Divergente)
         \<and> (\<not> (saldo_financeiro r = None \<and> saldo_contabil r = None)
              \<and> dbl f = f \<and> dbl c = c \<and> 1 / 100 \<le> m \<longrightarrow>
              (\<bar>f - c\<bar> \<le> (1 - 1 / 2 ^ 50) * (3 / 100 * m) \<longrightarrow> status r = Conferido)
              \<and> ((1 + 1 / 2 ^ 50) * (3 / 100 * m) < \<bar>f - c\<bar> \<longrightarrow> status r = Divergente))"
    unfolding Let_def fields
  proof (intro conjI impI)
    show "status_fornecedor ?sc ?sf =
        (if ?sf = None \<and> ?sc = None then Pendente
         else if \<bar>sql_sub (coalesce0 ?sf) (coalesce0 ?sc)\<bar>
                   \<le> sql_mul sql_003 (max \<bar>coalesce0 ?sc\<bar> \<bar>coalesce0 ?sf\<bar>)
         then Conferido else Divergente)"
      by (rule status_fornecedor_max)
  next
    assume h: "\<not> (?sf = None \<and> ?sc = None)
      \<and> dbl (coalesce0 ?sf) = coalesce0 ?sf \<and> dbl (coalesce0 ?sc) = coalesce0 ?sc
      \<and> 1 / 100 \<le> max \<bar>coalesce0 ?sc\<bar> \<bar>coalesce0 ?sf\<bar>"
    then have h1: "\<not> (?sf = None \<and> ?sc = None)"
      and h2: "dbl (coalesce0 ?sf) = coalesce0 ?sf"
      and h3: "dbl (coalesce0 ?sc) = coalesce0 ?sc"
      and h4: "1 / 100 \<le> max \<bar>coalesce0 ?sc\<bar> \<bar>coalesce0 ?sf\<bar>"
      by simp_all
    {
      assume "\<bar>coalesce0 ?sf - coalesce0 ?sc\<bar>
         \<le> (1 - 1 / 2 ^ 50) * (3 / 100 * max \<bar>coalesce0 ?sc\<bar> \<bar>coalesce0 ?sf\<bar>)"
      with h1 h2 h3 h4 show "status_fornecedor ?sc ?sf = Conferido"
        by (rule status_fornecedor_dentro)
    }
    assume "(1 + 1 / 2 ^ 50) * (3 / 100 * max \<bar>coalesce0 ?sc\<bar> \<bar>coalesce0 ?sf\<bar>)
         < \<bar>coalesce0 ?sf - coalesce0 ?sc\<bar>"
    with h1 h2 h3 h4 show "status_fornecedor ?sc ?sf = Divergente"
      by (rule status_fornecedor_fora)
  qed (rule refl)+
qed

theorem status_fornecedor_classification_witness:
  "(3::nat) < length exemplo_tolerancia
   \<and> saldo_financeiro (exemplo_tolerancia ! 0) = Some 990
   \<and> saldo_contabil (exemplo_tolerancia ! 0) = Some 1000
   \<and> dbl 990 = 990 \<and> dbl 1000 = 1000 \<and> (1::real) / 100 \<le> max \<bar>1000\<bar> \<bar>990\<bar>
   \<and> \<bar>990 - 1000 :: real\<bar> \<le> (1 - 1 / 2 ^ 50) * (3 / 100 * max \<bar>1000\<bar> \<bar>990\<bar>)
   \<and> status (classificacao round2_meio (\<lambda>x. []) [] exemplo_tolerancia ! 0) = Conferido
   \<and> saldo_financeiro (exemplo_tolerancia ! 1) = Some 97
   \<and> saldo_contabil (exemplo_tolerancia ! 1) = Some 100
   \<and> \<bar>sql_sub 97 100\<bar> = 3 \<and> sql_mul sql_003 (max \<bar>100\<bar> \<bar>97\<bar>) = 3
   \<and> status (classificacao round2_meio (\<lambda>x. []) [] exemplo_tolerancia ! 1) = Conferido
   \<and> saldo_financeiro (exemplo_tolerancia ! 2) = Some 1000
   \<and> saldo_contabil (exemplo_tolerancia ! 2) = Some 1200
   \<and> dbl 1200 = 1200
   \<and> (1 + 1 / 2 ^ 50) * (3 / 100 * max \<bar>1200\<bar> \<bar>1000\<bar>) < \<bar>1000 - 1200 :: real\<bar>
   \<and> status (classificacao round2_meio (\<lambda>x. []) [] exemplo_tolerancia ! 2) = Divergente
   \<and> status (classificacao round2_meio (\<lambda>x. []) [] exemplo_tolerancia ! 3) = Pendente"
proof -
  note w = status_fornecedor_classification [of round2_meio "\<lambda>x. []" "[]" exemplo_tolerancia,
      THEN conjunct2, unfolded Let_def]
  have len: "(3::nat) < length exemplo_tolerancia"
    by (simp add: exemplo_tolerancia_def)
  have r0: "saldo_financeiro (exemplo_tolerancia ! 0) = Some 990"
    "saldo_contabil (exemplo_tolerancia ! 0) = Some 1000"
    and r1: "saldo_financeiro (exemplo_tolerancia ! 1) = Some 97"
    "saldo_contabil (exemplo_tolerancia ! 1) = Some 100"
    and r2: "saldo_financeiro (exemplo_tolerancia ! 2) = Some 1000"
    "saldo_contabil (exemplo_tolerancia ! 2) = Some 1200"
    and r3: "saldo_financeiro (exemplo_tolerancia ! 3) = None"
    "saldo_contabil (exemplo_tolerancia ! 3) = None"
    by (simp_all add: exemplo_tolerancia_def)
  have n0: "(1::real) / 100 \<le> max \<bar>1000\<bar> \<bar>990\<bar>"
    "\<bar>990 - 1000 :: real\<bar> \<le> (1 - 1 / 2 ^ 50) * (3 / 100 * max \<bar>1000\<bar> \<bar>990\<bar>)"
    and n2: "(1::real) / 100 \<le> max \<bar>1200\<bar> \<bar>1000\<bar>"
    "(1 + 1 / 2 ^ 50) * (3 / 100 * max \<bar>1200\<bar> \<bar>1000\<bar>) < \<bar>1000 - 1200 :: real\<bar>"
    by simp_all
  have e1: "\<bar>sql_sub 97 100\<bar> = 3" "sql_mul sql_003 (max \<bar>100\<bar> \<bar>97\<bar>) = 3"
    by (simp_all add: sql_sub_def sql_mul_def sql_003_eq dbl_eval)
  let ?out = "classificacao round2_meio (\<lambda>x. []) [] exemplo_tolerancia"
  have len': "(0::nat) < length exemplo_tolerancia" "(1::nat) < length exemplo_tolerancia"
    "(2::nat) < length exemplo_tolerancia"
    by (simp_all add: exemplo_tolerancia_def)
  note w0 = w [THEN spec, of 0, THEN mp, OF len'(1)]
  note w1 = w [THEN spec, of 1, THEN mp, OF len'(2)]
  note w2 = w [THEN spec, of 2, THEN mp, OF len'(3)]
  note w3 = w [THEN spec, of 3, THEN mp, OF len]
  note t0 = w0 [THEN conjunct2, THEN conjunct1, unfolded r0]
    w0 [THEN conjunct2, THEN conjunct2, THEN conjunct1, unfolded r0]
  note t1 = w1 [THEN conjunct2, THEN conjunct1, unfolded r1]
    w1 [THEN conjunct2, THEN conjunct2, THEN conjunct1, unfolded r1]
  note t2 = w2 [THEN conjunct2, THEN conjunct1, unfolded r2]
    w2 [THEN conjunct2, THEN conjunct2, THEN conjunct1, unfolded r2]
  note t3 = w3 [THEN conjunct2, THEN conjunct1, unfolded r3]
    w3 [THEN conjunct2, THEN conjunct2, THEN conjunct1, unfolded r3]
  note b0 = w0 [THEN conjunct2, THEN conjunct2, THEN conjunct2, THEN conjunct2,
      unfolded t0 coalesce0_def option.case]
  note b2 = w2 [THEN conjunct2, THEN conjunct2, THEN conjunct2, THEN conjunct2,
      unfolded t2 coalesce0_def option.case]
  have h0: "\<not> (Some (990::real) = None \<and> Some (1000::real) = None)
      \<and> dbl 990 = 990 \<and> dbl 1000 = 1000 \<and> (1::real) / 100 \<le> max \<bar>1000\<bar> \<bar>990\<bar>"
    and h2: "\<not> (Some (1000::real) = None \<and> Some (1200::real) = None)
      \<and> dbl 1000 = 1000 \<and> dbl 1200 = 1200 \<and> (1::real) / 100 \<le> max \<bar>1200\<bar> \<bar>1000\<bar>"
    by (simp_all add: dbl_samples)
  have s0: "status (?out ! 0) = Conferido"
    using b0 [THEN mp, OF h0, THEN conjunct1, THEN mp, OF n0(2)] .
  have s2: "status (?out ! 2) = Divergente"
    using b2 [THEN mp, OF h2, THEN conjunct2, THEN mp, OF n2(2)] .
  have s1: "status (?out ! 1) = Conferido"
    using w1 [THEN conjunct2, THEN conjunct2, THEN conjunct2, THEN conjunct1,
        unfolded t1 coalesce0_def option.case e1]
    by simp
  have s3: "status (?out ! 3) = Pendente"
    using w3 [THEN conjunct2, THEN conjunct2, THEN conjunct2, THEN conjunct1, unfolded t3]
    by simp
  show ?thesis
    by (intro conjI) (rule len r0 r1 r2 n0 n2 e1 s0 s1 s2 s3 dbl_samples)+
qed

text \<open>
  Amounts with two decimals whose difference is exactly 3\% of the larger one: the
  status depends on the binary64 numbers that hold them.
\<close>

lemma status_fornecedor_decimais:
  "status_fornecedor (Some 100) (Some 97) = Conferido"
  "status_fornecedor (Some 50) (Some (485 / 10)) = Conferido"
  "status_fornecedor (Some 10) (Some (97 / 10)) = Divergente"
  "status_fornecedor (Some 1) (Some (97 / 100)) = Divergente"
  "status_fornecedor (Some 2219) (Some (215243 / 100)) = Divergente"
  by (simp_all add: status_fornecedor_def coalesce0_def sql_sub_def sql_mul_def sql_003_eq
      dbl_eval)

text \<open>
  The claim as first stated takes the test in exact arithmetic.  In the first row of
  the sample the exact difference of the two totals is above 3\% of the larger one, and
  the row is \<open>Conferido\<close>: the product \<^verbatim>\<open>0.03 * 1.0449999999999922\<close> is rounded up to the
  difference.  In the second row the totals are the amounts \<^verbatim>\<open>10.00\<close> and \<^verbatim>\<open>9.70\<close>, the
  second as the binary64 number the table holds for it.  The amounts are exactly on the
  boundary (\<^verbatim>\<open>0.30\<close> is 3\% of \<^verbatim>\<open>10.00\<close>), and the row is \<open>Divergente\<close>: the number held
  for \<^verbatim>\<open>9.70\<close> is below it, and the difference computed is above the tolerance.
\<close>

theorem status_fornecedor_boundary_counterexample:
  "saldo_contabil (exemplo_limite ! 0) = Some (4706261610602133 / 4503599627370496)
   \<and> saldo_financeiro (exemplo_limite ! 0) = Some (4565073762284069 / 4503599627370496)
   \<and> \<not> \<bar>4565073762284069 / 4503599627370496 - 4706261610602133 / 4503599627370496 :: real\<bar>
         \<le> 3 / 100 * max \<bar>4706261610602133 / 4503599627370496\<bar>
                          \<bar>4565073762284069 / 4503599627370496\<bar>
   \<and> status (classificacao round2_meio (texto_fixo []) [] exemplo_limite ! 0) = Conferido
   \<and> saldo_contabil (exemplo_limite ! 1) = Some 10
   \<and> saldo_financeiro (exemplo_limite ! 1) = Some (dbl (97 / 10))
   \<and> \<bar>97 / 10 - 10 :: real\<bar> = 3 / 100 * max \<bar>10\<bar> \<bar>97 / 10\<bar>
   \<and> status (classificacao round2_meio (texto_fixo []) [] exemplo_limite ! 1) = Divergente"
proof -
  have len: "0 < length exemplo_limite" "1 < length exemplo_limite"
    by (simp_all add: exemplo_limite_def)
  have r0: "saldo_contabil (exemplo_limite ! 0) = Some (4706261610602133 / 4503599627370496)"
    "saldo_financeiro (exemplo_limite ! 0) = Some (4565073762284069 / 4503599627370496)"
    and r1: "saldo_contabil (exemplo_limite ! 1) = Some 10"
    "saldo_financeiro (exemplo_limite ! 1) = Some (dbl (97 / 10))"
    by (simp_all add: exemplo_limite_def)
  have x: "\<not> \<bar>4565073762284069 / 4503599627370496 - 4706261610602133 / 4503599627370496 :: real\<bar>
         \<le> 3 / 100 * max \<bar>4706261610602133 / 4503599627370496\<bar>
                          \<bar>4565073762284069 / 4503599627370496\<bar>"
    and y: "\<bar>97 / 10 - 10 :: real\<bar> = 3 / 100 * max \<bar>10\<bar> \<bar>97 / 10\<bar>"
    by simp_all
  have s0: "status_fornecedor (Some (4706261610602133 / 4503599627370496))
      (Some (4565073762284069 / 4503599627370496)) = Conferido"
    by (simp add: status_fornecedor_def coalesce0_def sql_sub_def sql_mul_def sql_003_eq dbl_eval)
  have s1: "status_fornecedor (Some 10) (Some (dbl (97 / 10))) = Divergente"
    unfolding dbl_samples
    by (simp add: status_fornecedor_def coalesce0_def sql_sub_def sql_mul_def sql_003_eq dbl_eval)
  have c0: "status (classificacao round2_meio (texto_fixo []) [] exemplo_limite ! 0) = Conferido"
    using classificacao_nth_fields(1) [OF len(1), of round2_meio "texto_fixo []" "[]"]
    by (simp only: r0 s0)
  have c1: "status (classificacao round2_meio (texto_fixo []) [] exemplo_limite ! 1) = Divergente"
    using classificacao_nth_fields(1) [OF len(2), of round2_meio "texto_fixo []" "[]"]
    by (simp only: r1 s1)
  show ?thesis
    by (intro conjI) (rule r0 r1 x y c0 c1)+
qed

subsection \<open>Order of importance\<close>

lemma length_filter_mono:
  "(\<And>x. x \<in> set xs \<Longrightarrow> P x \<Longrightarrow> Q x) \<Longrightarrow> length (filter P xs) \<le> length (filter Q xs)"
  by (induction xs) auto

lemma conta_maiores_map:
  "conta_maiores zs a =
     length (filter (\<lambda>d. \<bar>coalesce0 d\<bar> \<ge> \<bar>coalesce0 (diferenca a)\<bar>) (map diferenca zs))"
  by (simp add: conta_maiores_def filter_map comp_def)

lemma conta_maiores_cong:
  assumes "map diferenca xs = map diferenca ys" "diferenca a = diferenca b"
  shows "conta_maiores xs a = conta_maiores ys b"
  unfolding conta_maiores_map using assms by simp

lemma anotacao_ordem:
  assumes "i < length rows"
  shows "ordem_importancia (anotacao txt itens rows ! i) =
           Some (conta_maiores (anotacao txt itens rows) (anotacao txt itens rows ! i))"
proof -
  let ?L = "divergentes_sem_itens txt (query_investigacao txt itens rows)"
  let ?x = "divergentes_sem_itens_row txt (query_investigacao_row txt itens (rows ! i))"
  have "map diferenca ?L = map diferenca rows"
    by (rule nth_equalityI)
       (simp_all add: divergentes_sem_itens_def query_investigacao_def)
  then have "map diferenca ?L = map diferenca (anotacao txt itens rows)"
    by (simp add: anotacao_diferenca)
  moreover have "diferenca ?x = diferenca (anotacao txt itens rows ! i)"
    using assms by (simp add: anotacao_nth)
  ultimately have "conta_maiores ?L ?x
      = conta_maiores (anotacao txt itens rows) (anotacao txt itens rows ! i)"
    by (rule conta_maiores_cong)
  moreover have "ordem_importancia (anotacao txt itens rows ! i) = Some (conta_maiores ?L ?x)"
    using assms by (simp add: anotacao_nth)
  ultimately show ?thesis
    by simp
qed

text \<open>
  Claim C6.  In the table left by \<^verbatim>\<open>process_data\<close>, the order of importance of a group
  is the number of groups of the table, itself included, whose absolute difference is
  at least its own; hence it is at least 1, and a group with a strictly larger absolute
  difference has an order less than or equal to that of a group with a smaller one.
\<close>

theorem ordem_importancia_rank:
  "\<forall>a \<in> set (classificacao rnd txt itens rows).
     ordem_importancia a =
       Some (length (filter (\<lambda>r2. \<bar>coalesce0 (diferenca r2)\<bar> \<ge> \<bar>coalesce0 (diferenca a)\<bar>)
                      (classificacao rnd txt itens rows)))
     \<and> (\<forall>b \<in> set (classificacao rnd txt itens rows).
           \<bar>coalesce0 (diferenca a)\<bar> > \<bar>coalesce0 (diferenca b)\<bar> \<longrightarrow>
           (\<forall>ka kb. ordem_importancia a = Some ka \<and> ordem_importancia b = Some kb
              \<longrightarrow> 1 \<le> ka \<and> ka \<le> kb))"
proof (intro ballI conjI impI allI)
  let ?out = "classificacao rnd txt itens rows"
  have ord: "ordem_importancia r = Some (conta_maiores ?out r)" if "r \<in> set ?out" for r
  proof -
    from that obtain i where i: "i < length ?out" "r = ?out ! i"
      by (auto simp: in_set_conv_nth)
    then have "i < length (query_diferenca rnd rows)"
      by (simp add: classificacao_def)
    from anotacao_ordem [OF this] i show ?thesis
      by (simp add: classificacao_def)
  qed
  fix a assume a: "a \<in> set ?out"
  show "ordem_importancia a =
       Some (length (filter (\<lambda>r2. \<bar>coalesce0 (diferenca r2)\<bar> \<ge> \<bar>coalesce0 (diferenca a)\<bar>) ?out))"
    using ord [OF a] by (simp add: conta_maiores_def)
  fix b ka kb
  assume b: "b \<in> set ?out"
    and gt: "\<bar>coalesce0 (diferenca a)\<bar> > \<bar>coalesce0 (diferenca b)\<bar>"
    and k: "ordem_importancia a = Some ka \<and> ordem_importancia b = Some kb"
  have ka: "ka = conta_maiores ?out a" and kb: "kb = conta_maiores ?out b"
    using ord [OF a] ord [OF b] k by simp_all
  have "a \<in> set (filter (\<lambda>r2. \<bar>coalesce0 (diferenca r2)\<bar> \<ge> \<bar>coalesce0 (diferenca a)\<bar>) ?out)"
    using a by simp
  then have "0 < conta_maiores ?out a"
    unfolding conta_maiores_def by (metis length_pos_if_in_set)
  then show "1 \<le> ka"
    by (simp add: ka)
  have "conta_maiores ?out a \<le> conta_maiores ?out b"
    unfolding conta_maiores_def
  proof (rule length_filter_mono)
    fix x assume "\<bar>coalesce0 (diferenca a)\<bar> \<le> \<bar>coalesce0 (diferenca x)\<bar>"
    with gt show "\<bar>coalesce0 (diferenca b)\<bar> \<le> \<bar>coalesce0 (diferenca x)\<bar>"
      by linarith
  qed
  then show "ka \<le> kb"
    by (simp add: ka kb)
qed

theorem ordem_importancia_rank_witness:
  "classificacao round2_meio (\<lambda>x. []) [] exemplo_resultado ! 0
     \<in> set (classificacao round2_meio (\<lambda>x. []) [] exemplo_resultado)
   \<and> classificacao round2_meio (\<lambda>x. []) [] exemplo_resultado ! 1
     \<in> set (classificacao round2_meio (\<lambda>x. []) [] exemplo_resultado)
   \<and> \<bar>coalesce0 (diferenca (classificacao round2_meio (\<lambda>x. []) [] exemplo_resultado ! 0))\<bar>
       > \<bar>coalesce0 (diferenca (classificacao round2_meio (\<lambda>x. []) [] exemplo_resultado ! 1))\<bar>
   \<and> ordem_importancia (classificacao round2_meio (\<lambda>x. []) [] exemplo_resultado ! 0) = Some 1
   \<and> ordem_importancia (classificacao round2_meio (\<lambda>x. []) [] exemplo_resultado ! 1) = Some 2"
proof -
  let ?out = "classificacao round2_meio (\<lambda>x. []) [] exemplo_resultado"
  have len: "length ?out = 3"
    by (simp add: length_classificacao exemplo_resultado_def)
  have m0: "?out ! 0 \<in> set ?out" and m1: "?out ! 1 \<in> set ?out"
    using len by simp_all
  have d: "map diferenca ?out = [Some 200, Some 3, Some 0]"
    by (rule exemplo_diferenca)
  have d0: "diferenca (?out ! 0) = Some 200"
    using arg_cong [OF d, of "\<lambda>xs. xs ! 0"] len by simp
  have d1: "diferenca (?out ! 1) = Some 3"
    using arg_cong [OF d, of "\<lambda>xs. xs ! 1"] len by simp
  have cnt: "length (filter (\<lambda>r2. m \<le> \<bar>coalesce0 (diferenca r2)\<bar>) ?out)
      = length (filter (\<lambda>x. m \<le> \<bar>coalesce0 x\<bar>) (map diferenca ?out))" for m
    by (simp add: filter_map comp_def)
  have o0: "ordem_importancia (?out ! 0) = Some 1"
    using ordem_importancia_rank [of round2_meio "\<lambda>x. []" "[]" exemplo_resultado,
        THEN bspec, OF m0, THEN conjunct1]
    unfolding d0 cnt d by (simp add: coalesce0_def)
  have o1: "ordem_importancia (?out ! 1) = Some 2"
    using ordem_importancia_rank [of round2_meio "\<lambda>x. []" "[]" exemplo_resultado,
        THEN bspec, OF m1, THEN conjunct1]
    unfolding d1 cnt d by (simp add: coalesce0_def)
  show ?thesis
    using m0 m1 o0 o1 d0 d1
      ordem_importancia_rank [of round2_meio "\<lambda>x. []" "[]" exemplo_resultado,
        THEN bspec, OF m0, THEN conjunct2, THEN bspec, OF m1]
    by (simp add: coalesce0_def)
qed

subsection \<open>Difference and status of the advances\<close>

lemma detalhes_adiantamento_row_frame [simp]:
  "ra_status (detalhes_adiantamento_row txt r) = ra_status r"
  "total_contabil (detalhes_adiantamento_row txt r) = total_contabil r"
  "total_financeiro (detalhes_adiantamento_row txt r) = total_financeiro r"
  "ra_diferenca (detalhes_adiantamento_row txt r) = ra_diferenca r"
  "ra_codigo_fornecedor (detalhes_adiantamento_row txt r) = ra_codigo_fornecedor r"
  by (simp_all add: detalhes_adiantamento_row_def)

lemma length_classificacao_adiantamento:
  "length (classificacao_adiantamento rnd txt rows) = length rows"
  by (simp add: classificacao_adiantamento_def detalhes_adiantamento_def
      query_diferenca_adiantamento_def)

lemma classificacao_adiantamento_nth_fields:
  assumes "i < length rows"
  shows "ra_status (classificacao_adiantamento rnd txt rows ! i) =
           status_adiantamento (total_contabil (rows ! i)) (total_financeiro (rows ! i))"
    and "ra_diferenca (classificacao_adiantamento rnd txt rows ! i) =
           Some (rnd (sql_add (coalesce0 (total_financeiro (rows ! i)))
                              (coalesce0 (total_contabil (rows ! i)))))"
    and "total_contabil (classificacao_adiantamento rnd txt rows ! i) = total_contabil (rows ! i)"
    and "total_financeiro (classificacao_adiantamento rnd txt rows ! i)
           = total_financeiro (rows ! i)"
    and "ra_codigo_fornecedor (classificacao_adiantamento rnd txt rows ! i) =
           ra_codigo_fornecedor (rows ! i)"
  using assms
  by (simp_all add: classificacao_adiantamento_def detalhes_adiantamento_def
      query_diferenca_adiantamento_def query_diferenca_adiantamento_row_def)

lemma status_adiantamento_max:
  "status_adiantamento (Some c) (Some f) =
     (if \<bar>sql_add f c\<bar> \<le> sql_mul sql_003 (max \<bar>c\<bar> \<bar>f\<bar>) then Conferido else Divergente)"
  by (simp add: status_adiantamento_def coalesce0_def max_def)

lemma status_adiantamento_dentro:
  assumes "dbl f = f" "dbl c = c" "1 / 100 \<le> max \<bar>c\<bar> \<bar>f\<bar>"
    and "\<bar>f + c\<bar> \<le> (1 - 1 / 2 ^ 50) * (3 / 100 * max \<bar>c\<bar> \<bar>f\<bar>)"
  shows "status_adiantamento (Some c) (Some f) = Conferido"
  using tolerancia_dentro [OF assms(3) assms(4)]
  by (simp add: status_adiantamento_max sql_add_binary64 [OF assms(1) assms(2)]
      tolerancia_binary64 [OF assms(2) assms(1)])

lemma status_adiantamento_fora:
  assumes "dbl f = f" "dbl c = c" "1 / 100 \<le> max \<bar>c\<bar> \<bar>f\<bar>"
    and "(1 + 1 / 2 ^ 50) * (3 / 100 * max \<bar>c\<bar> \<bar>f\<bar>) < \<bar>f + c\<bar>"
  shows "status_adiantamento (Some c) (Some f) = Divergente"
  using tolerancia_fora [OF assms(3) assms(4)]
  by (simp add: status_adiantamento_max sql_add_binary64 [OF assms(1) assms(2)]
      tolerancia_binary64 [OF assms(2) assms(1)])

text \<open>
  Claim C2, as amended.  In the table \<^verbatim>\<open>resultado_adiantamento\<close> left by
  \<^verbatim>\<open>_process_adiantamentos\<close>, every row keeps its code and totals, and its difference is
  \<^verbatim>\<open>ROUND(financial + accounting, 2)\<close>: a sum (with \<^verbatim>\<open>NULL\<close> as zero), not the accounting
  total minus the financial one, rounded to a binary64 number and then by the engine's
  \<^verbatim>\<open>ROUND\<close>.  A row whose two totals are both present is \<open>Conferido\<close> exactly when the test
  \<open>\<bar>financial + accounting\<bar> \<le> 0.03 * max \<bar>accounting\<bar> \<bar>financial\<bar>\<close> holds as the engine
  evaluates it, the sum and the product each rounded to the nearest binary64 number and
  \<^verbatim>\<open>0.03\<close> read as one, and \<open>Divergente\<close> otherwise.  For totals that are binary64
  numbers, as the table holds them, one at least not below \<open>0.01\<close> in absolute value,
  the status is that of the exact test whenever the exact sum is not within the
  relative distance \<open>1 / 2 ^ 50\<close> of the exact tolerance.
\<close>

theorem adiantamento_difference_and_status:
  "length (classificacao_adiantamento rnd txt rows) = length rows \<and>
   (\<forall>i < length rows.
      let r = classificacao_adiantamento rnd txt rows ! i in
        ra_codigo_fornecedor r = ra_codigo_fornecedor (rows ! i)
        \<and> total_financeiro r = total_financeiro (rows ! i)
        \<and> total_contabil r = total_contabil (rows ! i)
        \<and> ra_diferenca r =
            Some (rnd (sql_add (coalesce0 (total_financeiro r)) (coalesce0 (total_contabil r))))
        \<and> (\<forall>f c. total_financeiro r = Some f \<and> total_contabil r = Some c \<longrightarrow>
              (ra_status r = Conferido \<longleftrightarrow> \<bar>sql_add f c\<bar> \<le> sql_mul sql_003 (max \<bar>c\<bar> \<bar>f\<bar>))
              \<and> (ra_status r \<noteq> Conferido \<longrightarrow> ra_status r = Divergente)
              \<and> (dbl f = f \<and> dbl c = c \<and> 1 / 100 \<le> max \<bar>c\<bar> \<bar>f\<bar> \<longrightarrow>
                   (\<bar>f + c\<bar> \<le> (1 - 1 / 2 ^ 50) * (3 / 100 * max \<bar>c\<bar> \<bar>f\<bar>)
                      \<longrightarrow> ra_status r = Conferido)
                   \<and> ((1 + 1 / 2 ^ 50) * (3 / 100 * max \<bar>c\<bar> \<bar>f\<bar>) < \<bar>f + c\<bar>
                      \<longrightarrow> ra_status r = Divergente))))"
proof (intro conjI allI impI)
  show "length (classificacao_adiantamento rnd txt rows) = length rows"
    by (rule length_classificacao_adiantamento)
next
  fix i assume i: "i < length rows"
  note fields = classificacao_adiantamento_nth_fields [OF i, of rnd "txt"]
  show "let r = classificacao_adiantamento rnd txt rows ! i in
        ra_codigo_fornecedor r = ra_codigo_fornecedor (rows ! i)
        \<and> total_financeiro r = total_financeiro (rows ! i)
        \<and> total_contabil r = total_contabil (rows ! i)
        \<and> ra_diferenca r =
            Some (rnd (sql_add (coalesce0 (total_financeiro r)) (coalesce0 (total_contabil r))))
        \<and> (\<forall>f c. total_financeiro r = Some f \<and> total_contabil r = Some c \<longrightarrow>
              (ra_status r = Conferido \<longleftrightarrow> \<bar>sql_add f c\<bar> \<le> sql_mul sql_003 (max \<bar>c\<bar> \<bar>f\<bar>))
              \<and> (ra_status r \<noteq> Conferido \<longrightarrow> ra_status r = Divergente)
              \<and> (dbl f = f \<and> dbl c = c \<and> 1 / 100 \<le> max \<bar>c\<bar> \<bar>f\<bar> \<longrightarrow>
                   (\<bar>f + c\<bar> \<le> (1 - 1 / 2 ^ 50) * (3 / 100 * max \<bar>c\<bar> \<bar>f\<bar>)
                      \<longrightarrow> ra_status r = Conferido)
                   \<and> ((1 + 1 / 2 ^ 50) * (3 / 100 * max \<bar>c\<bar> \<bar>f\<bar>) < \<bar>f + c\<bar>
                      \<longrightarrow> ra_status r = Divergente)))"
    unfolding Let_def fields
  proof (intro conjI allI impI)
    fix f c
    assume h: "total_financeiro (rows ! i) = Some f \<and> total_contabil (rows ! i) = Some c"
    then have st: "status_adiantamento (total_contabil (rows ! i)) (total_financeiro (rows ! i))
        = (if \<bar>sql_add f c\<bar> \<le> sql_mul sql_003 (max \<bar>c\<bar> \<bar>f\<bar>) then Conferido else Divergente)"
      by (simp only: status_adiantamento_max)
    show "(status_adiantamento (total_contabil (rows ! i)) (total_financeiro (rows ! i))
            = Conferido) = (\<bar>sql_add f c\<bar> \<le> sql_mul sql_003 (max \<bar>c\<bar> \<bar>f\<bar>))"
      unfolding st by simp
    show "status_adiantamento (total_contabil (rows ! i)) (total_financeiro (rows ! i))
            = Divergente"
      if "status_adiantamento (total_contabil (rows ! i)) (total_financeiro (rows ! i))
            \<noteq> Conferido"
      using that unfolding st by (simp split: if_splits)
    assume "dbl f = f \<and> dbl c = c \<and> 1 / 100 \<le> max \<bar>c\<bar> \<bar>f\<bar>"
    then have m: "dbl f = f" "dbl c = c" "1 / 100 \<le> max \<bar>c\<bar> \<bar>f\<bar>"
      by simp_all
    {
      assume "\<bar>f + c\<bar> \<le> (1 - 1 / 2 ^ 50) * (3 / 100 * max \<bar>c\<bar> \<bar>f\<bar>)"
      with m have "status_adiantamento (Some c) (Some f) = Conferido"
        by (rule status_adiantamento_dentro)
      with h show "status_adiantamento (total_contabil (rows ! i)) (total_financeiro (rows ! i))
            = Conferido"
        by simp
    }
    assume "(1 + 1 / 2 ^ 50) * (3 / 100 * max \<bar>c\<bar> \<bar>f\<bar>) < \<bar>f + c\<bar>"
    with m have "status_adiantamento (Some c) (Some f) = Divergente"
      by (rule status_adiantamento_fora)
    with h show "status_adiantamento (total_contabil (rows ! i)) (total_financeiro (rows ! i))
            = Divergente"
      by simp
  qed (rule refl)+
qed

theorem adiantamento_difference_and_status_witness:
  "(2::nat) < length exemplo_adiantamento
   \<and> total_financeiro (exemplo_adiantamento ! 0) = Some (- 500)
   \<and> total_contabil (exemplo_adiantamento ! 0) = Some 500
   \<and> dbl (- 500) = - 500 \<and> dbl 500 = 500 \<and> (1::real) / 100 \<le> max \<bar>500\<bar> \<bar>- 500\<bar>
   \<and> \<bar>- 500 + 500 :: real\<bar> \<le> (1 - 1 / 2 ^ 50) * (3 / 100 * max \<bar>500\<bar> \<bar>- 500\<bar>)
   \<and> ra_diferenca (classificacao_adiantamento round2_meio (\<lambda>x. []) exemplo_adiantamento ! 0)
        = Some 0
   \<and> ra_status (classificacao_adiantamento round2_meio (\<lambda>x. []) exemplo_adiantamento ! 0)
        = Conferido
   \<and> total_financeiro (exemplo_adiantamento ! 1) = Some (- 500)
   \<and> total_contabil (exemplo_adiantamento ! 1) = Some 700
   \<and> dbl 700 = 700
   \<and> (1 + 1 / 2 ^ 50) * (3 / 100 * max \<bar>700\<bar> \<bar>- 500\<bar>) < \<bar>- 500 + 700 :: real\<bar>
   \<and> ra_diferenca (classificacao_adiantamento round2_meio (\<lambda>x. []) exemplo_adiantamento ! 1)
        = Some 200
   \<and> ra_status (classificacao_adiantamento round2_meio (\<lambda>x. []) exemplo_adiantamento ! 1)
        = Divergente
   \<and> total_financeiro (exemplo_adiantamento ! 2) = Some (- 97)
   \<and> total_contabil (exemplo_adiantamento ! 2) = Some 100
   \<and> \<bar>sql_add (- 97) 100\<bar> = 3 \<and> sql_mul sql_003 (max \<bar>100\<bar> \<bar>- 97\<bar>) = 3
   \<and> ra_diferenca (classificacao_adiantamento round2_meio (\<lambda>x. []) exemplo_adiantamento ! 2)
        = Some 3
   \<and> ra_status (classificacao_adiantamento round2_meio (\<lambda>x. []) exemplo_adiantamento ! 2)
        = Conferido"
proof -
  let ?out = "classificacao_adiantamento round2_meio (\<lambda>x. []) exemplo_adiantamento"
  note w = adiantamento_difference_and_status [of round2_meio "\<lambda>x. []" exemplo_adiantamento,
      THEN conjunct2, unfolded Let_def]
  have len: "(2::nat) < length exemplo_adiantamento"
    by (simp add: exemplo_adiantamento_def)
  have len': "(0::nat) < length exemplo_adiantamento" "(1::nat) < length exemplo_adiantamento"
    by (simp_all add: exemplo_adiantamento_def)
  have r0: "total_financeiro (exemplo_adiantamento ! 0) = Some (- 500)"
    "total_contabil (exemplo_adiantamento ! 0) = Some 500"
    and r1: "total_financeiro (exemplo_adiantamento ! 1) = Some (- 500)"
    "total_contabil (exemplo_adiantamento ! 1) = Some 700"
    and r2: "total_financeiro (exemplo_adiantamento ! 2) = Some (- 97)"
    "total_contabil (exemplo_adiantamento ! 2) = Some 100"
    by (simp_all add: exemplo_adiantamento_def)
  have n0: "(1::real) / 100 \<le> max \<bar>500\<bar> \<bar>- 500\<bar>"
    "\<bar>- 500 + 500 :: real\<bar> \<le> (1 - 1 / 2 ^ 50) * (3 / 100 * max \<bar>500\<bar> \<bar>- 500\<bar>)"
    and n1: "(1::real) / 100 \<le> max \<bar>700\<bar> \<bar>- 500\<bar>"
    "(1 + 1 / 2 ^ 50) * (3 / 100 * max \<bar>700\<bar> \<bar>- 500\<bar>) < \<bar>- 500 + 700 :: real\<bar>"
    by simp_all
  have b64: "dbl (- 500) = - 500" "dbl 500 = 500" "dbl 700 = 700" "dbl (- 97) = - 97"
    "dbl 100 = 100"
    by (simp_all add: dbl_neg dbl_samples)
  have h0: "dbl (- 500) = - 500 \<and> dbl 500 = 500 \<and> (1::real) / 100 \<le> max \<bar>500\<bar> \<bar>- 500\<bar>"
    and h1: "dbl (- 500) = - 500 \<and> dbl 700 = 700 \<and> (1::real) / 100 \<le> max \<bar>700\<bar> \<bar>- 500\<bar>"
    by (intro conjI; rule b64 n0 n1)+
  have e2: "\<bar>sql_add (- 97) 100\<bar> = 3" "sql_mul sql_003 (max \<bar>100\<bar> \<bar>- 97\<bar>) = 3"
    by (simp_all add: sql_add_def sql_mul_def b64 sql_003_dbl dbl_samples)
      (simp_all add: sql_003_eq dbl_eval)
  have a: "sql_add (- 500) 500 = 0" "sql_add (- 500) 700 = 200" "sql_add (- 97) 100 = 3"
    by (simp_all add: sql_add_def b64 dbl_samples)
  note w0 = w [THEN spec, of 0, THEN mp, OF len'(1)]
  note w1 = w [THEN spec, of 1, THEN mp, OF len'(2)]
  note w2 = w [THEN spec, of 2, THEN mp, OF len]
  note f0 = w0 [THEN conjunct2, THEN conjunct1, unfolded r0]
    w0 [THEN conjunct2, THEN conjunct2, THEN conjunct1, unfolded r0]
  note f1 = w1 [THEN conjunct2, THEN conjunct1, unfolded r1]
    w1 [THEN conjunct2, THEN conjunct2, THEN conjunct1, unfolded r1]
  note f2 = w2 [THEN conjunct2, THEN conjunct1, unfolded r2]
    w2 [THEN conjunct2, THEN conjunct2, THEN conjunct1, unfolded r2]
  have d0: "ra_diferenca (?out ! 0) = Some 0"
    using w0 [THEN conjunct2, THEN conjunct2, THEN conjunct2, THEN conjunct1,
        unfolded f0 coalesce0_def option.case a round2_meio_samples] .
  have d1: "ra_diferenca (?out ! 1) = Some 200"
    using w1 [THEN conjunct2, THEN conjunct2, THEN conjunct2, THEN conjunct1,
        unfolded f1 coalesce0_def option.case a round2_meio_samples] .
  have d2: "ra_diferenca (?out ! 2) = Some 3"
    using w2 [THEN conjunct2, THEN conjunct2, THEN conjunct2, THEN conjunct1,
        unfolded f2 coalesce0_def option.case a round2_meio_samples] .
  have t0: "total_financeiro (?out ! 0) = Some (- 500) \<and> total_contabil (?out ! 0) = Some 500"
    by (intro conjI) (rule f0)+
  have t1: "total_financeiro (?out ! 1) = Some (- 500) \<and> total_contabil (?out ! 1) = Some 700"
    by (intro conjI) (rule f1)+
  have t2: "total_financeiro (?out ! 2) = Some (- 97) \<and> total_contabil (?out ! 2) = Some 100"
    by (intro conjI) (rule f2)+
  note b0 = w0 [THEN conjunct2, THEN conjunct2, THEN conjunct2, THEN conjunct2,
      THEN spec, THEN spec, THEN mp, OF t0]
  note b1 = w1 [THEN conjunct2, THEN conjunct2, THEN conjunct2, THEN conjunct2,
      THEN spec, THEN spec, THEN mp, OF t1]
  note b2 = w2 [THEN conjunct2, THEN conjunct2, THEN conjunct2, THEN conjunct2,
      THEN spec, THEN spec, THEN mp, OF t2]
  have s0: "ra_status (?out ! 0) = Conferido"
    using b0 [THEN conjunct2, THEN conjunct2, THEN mp, OF h0, THEN conjunct1, THEN mp, OF n0(2)] .
  have s1: "ra_status (?out ! 1) = Divergente"
    using b1 [THEN conjunct2, THEN conjunct2, THEN mp, OF h1, THEN conjunct2, THEN mp, OF n1(2)] .
  have s2: "ra_status (?out ! 2) = Conferido"
    using b2 [THEN conjunct1] e2 by simp
  show ?thesis
    by (intro conjI) (rule len r0 r1 r2 n0 n1 e2 d0 d1 d2 s0 s1 s2 b64)+
qed

lemma status_adiantamento_decimais:
  "status_adiantamento (Some 100) (Some (- 97)) = Conferido"
  "status_adiantamento (Some (97 / 10)) (Some (- 10)) = Divergente"
  "status_adiantamento (Some 1) (Some (- (97 / 100))) = Divergente"
  by (simp_all add: status_adiantamento_def coalesce0_def sql_add_def sql_mul_def sql_003_eq
      dbl_eval)

text \<open>
  The claim as first stated takes the test in exact arithmetic.  In the first row of
  the sample the exact sum of the two totals is above 3\% of the larger one in absolute
  value, and the row is \<open>Conferido\<close>.  In the second row the totals are the amounts
  \<^verbatim>\<open>-10.00\<close> and \<^verbatim>\<open>9.70\<close>, the second as the binary64 number the table holds for it.
  The amounts are exactly on the boundary, and the row is \<open>Divergente\<close>.
\<close>

theorem adiantamento_boundary_counterexample:
  "total_contabil (exemplo_adiantamento_limite ! 0)
     = Some (4706261610602133 / 4503599627370496)
   \<and> total_financeiro (exemplo_adiantamento_limite ! 0)
     = Some (- (4565073762284069 / 4503599627370496))
   \<and> \<not> \<bar>- (4565073762284069 / 4503599627370496) + 4706261610602133 / 4503599627370496 :: real\<bar>
         \<le> 3 / 100 * max \<bar>4706261610602133 / 4503599627370496\<bar>
                          \<bar>- (4565073762284069 / 4503599627370496)\<bar>
   \<and> ra_status (classificacao_adiantamento round2_meio (texto_fixo []) exemplo_adiantamento_limite ! 0)
       = Conferido
   \<and> total_contabil (exemplo_adiantamento_limite ! 1) = Some (dbl (97 / 10))
   \<and> total_financeiro (exemplo_adiantamento_limite ! 1) = Some (- 10)
   \<and> \<bar>- 10 + 97 / 10 :: real\<bar> = 3 / 100 * max \<bar>97 / 10\<bar> \<bar>- 10\<bar>
   \<and> ra_status (classificacao_adiantamento round2_meio (texto_fixo []) exemplo_adiantamento_limite ! 1)
       = Divergente"
proof -
  have len: "0 < length exemplo_adiantamento_limite" "1 < length exemplo_adiantamento_limite"
    by (simp_all add: exemplo_adiantamento_limite_def)
  have r0: "total_contabil (exemplo_adiantamento_limite ! 0)
     = Some (4706261610602133 / 4503599627370496)"
    "total_financeiro (exemplo_adiantamento_limite ! 0)
     = Some (- (4565073762284069 / 4503599627370496))"
    and r1: "total_contabil (exemplo_adiantamento_limite ! 1) = Some (dbl (97 / 10))"
    "total_financeiro (exemplo_adiantamento_limite ! 1) = Some (- 10)"
    by (simp_all add: exemplo_adiantamento_limite_def)
  have x: "\<not> \<bar>- (4565073762284069 / 4503599627370496) + 4706261610602133 / 4503599627370496 :: real\<bar>
         \<le> 3 / 100 * max \<bar>4706261610602133 / 4503599627370496\<bar>
                          \<bar>- (4565073762284069 / 4503599627370496)\<bar>"
    and y: "\<bar>- 10 + 97 / 10 :: real\<bar> = 3 / 100 * max \<bar>97 / 10\<bar> \<bar>- 10\<bar>"
    by simp_all
  have s0: "status_adiantamento (Some (4706261610602133 / 4503599627370496))
      (Some (- (4565073762284069 / 4503599627370496))) = Conferido"
    by (simp add: status_adiantamento_def coalesce0_def sql_add_def sql_mul_def sql_003_eq
        dbl_eval)
  have s1: "status_adiantamento (Some (dbl (97 / 10))) (Some (- 10)) = Divergente"
    unfolding dbl_samples
    by (simp add: status_adiantamento_def coalesce0_def sql_add_def sql_mul_def sql_003_eq
        dbl_eval)
  have c0: "ra_status (classificacao_adiantamento round2_meio (texto_fixo [])
      exemplo_adiantamento_limite ! 0) = Conferido"
    using classificacao_adiantamento_nth_fields(1) [OF len(1), of round2_meio "texto_fixo []"]
    by (simp only: r0 s0)
  have c1: "ra_status (classificacao_adiantamento round2_meio (texto_fixo [])
      exemplo_adiantamento_limite ! 1) = Divergente"
    using classificacao_adiantamento_nth_fields(1) [OF len(2), of round2_meio "texto_fixo []"]
    by (simp only: r1 s1)
  show ?thesis
    by (intro conjI) (rule r0 r1 x y c0 c1)+
qed

subsection \<open>Evidence: what the annotation writes\<close>

lemma divergentes_sem_itens_noop:
  "divergentes_sem_itens txt (query_investigacao txt itens rows) = query_investigacao txt itens rows"
  by (simp add: divergentes_sem_itens_def query_investigacao_def divergentes_sem_itens_row_def
      query_investigacao_row_def sql_null_or_empty_def split: option.splits)

lemma anotacao_status:
  "i < length rows \<Longrightarrow> status (anotacao txt itens rows ! i) = status (rows ! i)"
  by (simp add: anotacao_nth)

lemma anotacao_detalhes_divergente:
  assumes "i < length rows" "status (rows ! i) = Divergente" "diferenca (rows ! i) = Some d"
    "detalhes (rows ! i) = Some e"
  shows "detalhes (anotacao txt itens rows ! i) =
     Some (e @ '' | '' @ msg_divergencia @ txt \<bar>d\<bar> @ msg_itens_encontrados
           @ dec_of_nat (itens_encontrados itens (rows ! i)) @ '' itens'')"
  using assms
  by (simp add: anotacao_nth detalhes_nao_divergentes_row_def divergentes_sem_itens_row_def
      query_investigacao_row_def sql_null_or_empty_def)

lemma anotacao_detalhes_nao_divergente:
  assumes "i < length rows" "status (rows ! i) \<noteq> Divergente"
    "detalhes (rows ! i) = Some e" "e \<noteq> []"
  shows "detalhes (anotacao txt itens rows ! i) = Some e"
  using assms
  by (simp add: anotacao_nth detalhes_nao_divergentes_row_def divergentes_sem_itens_row_def
      query_investigacao_row_def sql_null_or_empty_def)

text \<open>
  Claim C9, as amended.  The statements of \<^verbatim>\<open>process_data\<close> after \<^verbatim>\<open>query_diferenca\<close>
  never change the status of a group.  A group that has a non-empty evidence text and
  is not \<open>Divergente\<close> keeps it unchanged.  For a \<open>Divergente\<close> group that has a
  non-empty evidence text (and a difference), \<^verbatim>\<open>query_investigacao\<close> keeps that text
  and appends to it a note with the absolute difference and the number of accounting
  items found.  Nothing is stated of a \<open>Divergente\<close> group without evidence.
\<close>

theorem anotacao_frame:
  "length (anotacao txt itens rows) = length rows \<and>
   (\<forall>i < length rows.
      status (anotacao txt itens rows ! i) = status (rows ! i)
      \<and> (\<forall>e. detalhes (rows ! i) = Some e \<and> e \<noteq> [] \<longrightarrow>
             (status (rows ! i) \<noteq> Divergente \<longrightarrow>
                detalhes (anotacao txt itens rows ! i) = Some e)
           \<and> (status (rows ! i) = Divergente \<longrightarrow>
                (\<forall>d. diferenca (rows ! i) = Some d \<longrightarrow>
                   detalhes (anotacao txt itens rows ! i) =
                     Some (e @ '' | '' @ msg_divergencia @ txt \<bar>d\<bar> @ msg_itens_encontrados
                           @ dec_of_nat (itens_encontrados itens (rows ! i)) @ '' itens'')))))"
  by (simp add: anotacao_status anotacao_detalhes_divergente anotacao_detalhes_nao_divergente)

lemma dec_of_nat_0: "dec_of_nat 0 = ''0''"
  by (simp add: dec_of_nat.simps digit_char_def)

theorem anotacao_frame_witness:
  "(2::nat) < length exemplo_divergente
   \<and> status (exemplo_divergente ! 2) \<noteq> Divergente
   \<and> detalhes (exemplo_divergente ! 2) = Some ''Conta: 2.01.02.01.000150''
   \<and> status (exemplo_divergente ! 0) = Divergente
   \<and> detalhes (exemplo_divergente ! 0) = Some ''Conta: 2.01.02.01.000199''
   \<and> diferenca (exemplo_divergente ! 0) = Some 200
   \<and> status (anotacao (\<lambda>x. ''200.0'') [] exemplo_divergente ! 2) = Conferido
   \<and> detalhes (anotacao (\<lambda>x. ''200.0'') [] exemplo_divergente ! 2)
       = Some ''Conta: 2.01.02.01.000150''
   \<and> status (anotacao (\<lambda>x. ''200.0'') [] exemplo_divergente ! 0) = Divergente
   \<and> detalhes (anotacao (\<lambda>x. ''200.0'') [] exemplo_divergente ! 0)
       = Some (''Conta: 2.01.02.01.000199 | '' @ msg_divergencia @ ''200.0''
               @ msg_itens_encontrados @ ''0 itens'')"
  using anotacao_frame [of "\<lambda>x. ''200.0''" "[]" exemplo_divergente,
      THEN conjunct2, THEN spec, of 2]
    anotacao_frame [of "\<lambda>x. ''200.0''" "[]" exemplo_divergente,
      THEN conjunct2, THEN spec, of 0]
  by (simp add: exemplo_divergente_def itens_encontrados_def dec_of_nat_0)

text \<open>
  The claim as first stated fails on a \<open>Divergente\<close> group that already has evidence:
  \<^verbatim>\<open>query_investigacao\<close> sets \<^verbatim>\<open>detalhes = COALESCE(detalhes, '') || ...\<close>, so the text is
  extended, not kept as it was.
\<close>

theorem anotacao_overwrites_counterexample:
  "status (exemplo_divergente ! 0) = Divergente
   \<and> detalhes (exemplo_divergente ! 0) = Some ''Conta: 2.01.02.01.000199''
   \<and> detalhes (anotacao (texto_fixo ''200.0'') [] exemplo_divergente ! 0)
       = Some (''Conta: 2.01.02.01.000199'' @ '' | '' @ msg_divergencia @ ''200.0''
               @ msg_itens_encontrados @ ''0 itens'')
   \<and> detalhes (anotacao (texto_fixo ''200.0'') [] exemplo_divergente ! 0)
       \<noteq> detalhes (exemplo_divergente ! 0)"
proof -
  have len: "0 < length exemplo_divergente"
    by (simp add: exemplo_divergente_def)
  have r0: "status (exemplo_divergente ! 0) = Divergente"
    "diferenca (exemplo_divergente ! 0) = Some 200"
    "detalhes (exemplo_divergente ! 0) = Some ''Conta: 2.01.02.01.000199''"
    by (simp_all add: exemplo_divergente_def)
  have n0: "itens_encontrados [] r = 0" for r
    by (simp add: itens_encontrados_def)
  show ?thesis
    using anotacao_detalhes_divergente [OF len r0, of "texto_fixo ''200.0''" "[]"]
    by (simp add: r0 n0 dec_of_nat_0 texto_fixo_def)
qed

text \<open>
  The update that follows \<^verbatim>\<open>query_investigacao\<close>, commented
  \<^verbatim>\<open>Para fornecedores divergentes sem itens especificos\<close>, finds no row to fill: every
  \<open>Divergente\<close> row has received a text or \<^verbatim>\<open>NULL\<close> from a \<^verbatim>\<open>NULL\<close> difference, which
  the update keeps \<^verbatim>\<open>NULL\<close> (\<open>divergentes_sem_itens_noop\<close>).
\<close>

subsection \<open>Amounts with a credit or debit letter\<close>

lemma is_digit_simps [simp]:
  "\<not> is_digit (CHR '','')" "\<not> is_digit (CHR ''.'')" "\<not> is_digit (CHR ''C'')"
  "\<not> is_digit (CHR ''D'')"
  by (simp_all add: is_digit_def)

lemma is_space_simps [simp]:
  "\<not> is_space (CHR ''C'')" "\<not> is_space (CHR ''D'')" "\<not> is_space (CHR ''.'')"
  by (simp_all add: is_space_def)

lemma is_digit_not_space: "is_digit c \<Longrightarrow> \<not> is_space c"
  by (auto simp: is_digit_def is_space_def)

lemma py_strip_id:
  assumes "s \<noteq> []" "\<not> is_space (hd s)" "\<not> is_space (last s)"
  shows "py_strip s = s"
proof -
  have "dropWhile is_space s = s"
    using assms by (cases s) simp_all
  moreover have "dropWhile is_space (rev s) = rev s"
    using assms by (cases "rev s") (simp_all add: last_rev [symmetric] hd_rev)
  ultimately show ?thesis
    by (simp add: py_strip_def)
qed

lemma py_float_fraction:
  assumes "ds \<noteq> []" "\<forall>c\<in>set ds. is_digit c" "\<forall>c\<in>set fr. is_digit c"
  shows "py_float (ds @ CHR ''.'' # fr) =
           Some (real (digits_value ds) + real (digits_value fr) / 10 ^ length fr)"
proof -
  have "takeWhile is_digit (ds @ CHR ''.'' # fr) = ds"
    using assms by (simp add: takeWhile_append2)
  moreover have "dropWhile is_digit (ds @ CHR ''.'' # fr) = CHR ''.'' # fr"
    using assms by (simp add: dropWhile_append2)
  ultimately show ?thesis
    using assms by (simp add: py_float_def list_all_iff)
qed

lemma py_float_integer:
  assumes "ds \<noteq> []" "\<forall>c\<in>set ds. is_digit c"
  shows "py_float ds = Some (real (digits_value ds))"
proof -
  have tk: "takeWhile is_digit ds = ds" and dr: "dropWhile is_digit ds = []"
    using assms by simp_all
  show ?thesis
    using assms(1) by (simp add: py_float_def tk dr)
qed

lemma py_float_no_digit:
  assumes "\<forall>c\<in>set s. \<not> is_digit c"
  shows "py_float s = None"
proof (cases s)
  case Nil
  then show ?thesis by (simp add: py_float_def)
next
  case (Cons c cs)
  then have "takeWhile is_digit s = []" "dropWhile is_digit s = c # cs"
    using assms by simp_all
  then show ?thesis
    using assms Cons by (auto simp add: py_float_def list_all_iff)
qed


lemma suffix_single: "suffix [x] (ys @ [y]) \<longleftrightarrow> x = y"
  using snoc_suffix_snoc [of "[]" x ys y] by simp

lemma map_comma_digits:
  "\<forall>c\<in>set xs. is_digit c \<Longrightarrow> map (\<lambda>c. if c = CHR '','' then CHR ''.'' else c) xs = xs"
  by (induction xs) auto

lemma filter_dot_digits:
  "\<forall>c\<in>set xs. is_digit c \<Longrightarrow> filter (\<lambda>c. c \<noteq> CHR ''.'') xs = xs"
  by (induction xs) auto

lemma filter_digit_or_comma_digits:
  "\<forall>c\<in>set xs. is_digit c \<Longrightarrow> filter (\<lambda>c. is_digit c \<or> c = CHR '','') xs = xs"
  by (induction xs) auto

lemma sem_pontos_digits:
  assumes "\<forall>c\<in>set ds. is_digit c" "\<forall>c\<in>set fr. is_digit c"
  shows "filter (\<lambda>c. c \<noteq> CHR ''.'') (ds @ '','' @ fr) = ds @ '','' @ fr"
  using assms by (simp add: filter_dot_digits)

lemma numero_digits:
  assumes "\<forall>c\<in>set ds. is_digit c" "\<forall>c\<in>set fr. is_digit c"
  shows "map (\<lambda>c. if c = CHR '','' then CHR ''.'' else c) (ds @ '','' @ fr) = ds @ CHR ''.'' # fr"
  using assms by (simp add: map_comma_digits)

lemma filter_digit_or_comma:
  assumes "\<forall>c\<in>set ip. is_digit c \<or> c = CHR ''.''"
  shows "filter (\<lambda>c. is_digit c \<or> c = CHR '','') ip = filter is_digit ip"
  using assms by (intro filter_cong) auto

lemma formatar_credito_comma:
  assumes ip: "\<forall>c\<in>set ip. is_digit c \<or> c = CHR ''.''" "\<exists>c\<in>set ip. is_digit c"
    and fr: "\<forall>c\<in>set fr. is_digit c"
    and sfx: "s = CHR ''C'' \<or> s = CHR ''D''"
  shows "formatar_credito (Some (ip @ '','' @ fr @ [s])) =
     Some ((if s = CHR ''C'' then - 1 else 1) *
           (real (digits_value (filter is_digit ip)) + real (digits_value fr) / 10 ^ length fr))"
proof -
  let ?v = "ip @ '','' @ fr @ [s]"
  let ?ds = "filter is_digit ip"
  from ip obtain c0 cs where ipc: "ip = c0 # cs"
    by (cases ip) auto
  have "\<not> is_space c0"
    using ip(1) ipc by (auto dest: is_digit_not_space)
  then have strip: "py_strip ?v = ?v"
    using sfx ipc by (intro py_strip_id) auto
  have ds: "?ds \<noteq> []" "\<forall>c\<in>set ?ds. is_digit c"
    using ip(2) by (auto simp: filter_empty_conv)
  have limpo: "filter (\<lambda>c. is_digit c \<or> c = CHR '','') ?v = ?ds @ '','' @ fr"
  proof -
    have "filter (\<lambda>c. is_digit c \<or> c = CHR '','') [s] = []"
      using sfx by auto
    then show ?thesis
      by (simp add: filter_digit_or_comma [OF ip(1)] filter_digit_or_comma_digits [OF fr])
  qed
  have sem: "filter (\<lambda>c. c \<noteq> CHR ''.'') (?ds @ '','' @ fr) = ?ds @ '','' @ fr"
    by (rule sem_pontos_digits [OF ds(2) fr])
  have num: "map (\<lambda>c. if c = CHR '','' then CHR ''.'' else c) (?ds @ '','' @ fr)
      = ?ds @ CHR ''.'' # fr"
    by (rule numero_digits [OF ds(2) fr])
  have fl: "py_float (?ds @ CHR ''.'' # fr)
      = Some (real (digits_value ?ds) + real (digits_value fr) / 10 ^ length fr)"
    by (rule py_float_fraction [OF ds fr])
  have sfxC: "suffix ''C'' ?v \<longleftrightarrow> s = CHR ''C''" and sfxD: "suffix ''D'' ?v \<longleftrightarrow> s = CHR ''D''"
    using suffix_single [of "CHR ''C''" "ip @ '','' @ fr" s]
      suffix_single [of "CHR ''D''" "ip @ '','' @ fr" s] by auto
  have nonneg: "0 \<le> real (digits_value ?ds) + real (digits_value fr) / 10 ^ length fr"
    by simp
  show ?thesis
    unfolding formatar_credito_def option.case Let_def strip limpo sem num fl sfxC sfxD
    using sfx nonneg by (auto simp: fl)
qed


lemma formatar_credito_no_comma:
  assumes ip: "\<forall>c\<in>set ip. is_digit c \<or> c = CHR ''.''" "\<exists>c\<in>set ip. is_digit c"
    and sfx: "s = CHR ''C'' \<or> s = CHR ''D''"
  shows "formatar_credito (Some (ip @ [s])) =
     Some ((if s = CHR ''C'' then - 1 else 1) * real (digits_value (filter is_digit ip)))"
proof -
  let ?v = "ip @ [s]"
  let ?ds = "filter is_digit ip"
  from ip obtain c0 cs where ipc: "ip = c0 # cs"
    by (cases ip) auto
  have "\<not> is_space c0"
    using ip(1) ipc by (auto dest: is_digit_not_space)
  then have strip: "py_strip ?v = ?v"
    using sfx ipc by (intro py_strip_id) auto
  have ds: "?ds \<noteq> []" "\<forall>c\<in>set ?ds. is_digit c"
    using ip(2) by (auto simp: filter_empty_conv)
  have limpo: "filter (\<lambda>c. is_digit c \<or> c = CHR '','') ?v = ?ds"
  proof -
    have "filter (\<lambda>c. is_digit c \<or> c = CHR '','') [s] = []"
      using sfx by auto
    then show ?thesis
      by (simp add: filter_digit_or_comma [OF ip(1)])
  qed
  have nocomma: "CHR '','' \<notin> set ?ds"
    by auto
  have sem: "filter (\<lambda>c. c \<noteq> CHR ''.'') ?ds = ?ds"
    by (rule filter_dot_digits [OF ds(2)])
  have fl: "py_float ?ds = Some (real (digits_value ?ds))"
    by (rule py_float_integer [OF ds])
  have sfxC: "suffix ''C'' ?v \<longleftrightarrow> s = CHR ''C''" and sfxD: "suffix ''D'' ?v \<longleftrightarrow> s = CHR ''D''"
    using suffix_single [of "CHR ''C''" ip s] suffix_single [of "CHR ''D''" ip s] by auto
  show ?thesis
    unfolding formatar_credito_def option.case Let_def strip limpo sfxC sfxD
    using sfx nocomma by (auto simp: fl sem simp del: filter_filter)
qed

lemma formatar_credito_no_digit:
  assumes "\<forall>c\<in>set v. \<not> is_digit c"
  shows "formatar_credito (Some v) = Some 0"
proof -
  let ?limpo = "filter (\<lambda>c. is_digit c \<or> c = CHR '','') (py_strip v)"
  let ?sem = "filter (\<lambda>c. c \<noteq> CHR ''.'') ?limpo"
  have sub: "set (py_strip v) \<subseteq> set v"
    by (auto simp: py_strip_def dest!: set_dropWhileD)
  have nd: "\<forall>c\<in>set ?limpo. \<not> is_digit c"
    using assms sub by auto
  then have sd: "\<forall>c\<in>set ?sem. \<not> is_digit c"
    by auto
  then have md: "\<forall>c\<in>set (map (\<lambda>c. if c = CHR '','' then CHR ''.'' else c) ?sem). \<not> is_digit c"
    by auto
  have p1: "py_float ?sem = None"
    using sd by (rule py_float_no_digit)
  have p2: "py_float (map (\<lambda>c. if c = CHR '','' then CHR ''.'' else c) ?sem) = None"
    using md by (rule py_float_no_digit)
  show ?thesis
  proof (cases "CHR '','' \<in> set ?limpo")
    case True
    then show ?thesis
      by (simp only: formatar_credito_def option.case Let_def p2 if_True)
  next
    case False
    then show ?thesis
      by (simp only: formatar_credito_def option.case Let_def p1 if_False)
  qed
qed

lemma digits_value_samples:
  "digits_value ''1234'' = 1234" "digits_value ''56'' = 56" "digits_value ''12345'' = 12345"
  "digits_value ''6'' = 6"
  by (simp_all add: digits_value_def digit_val_def)

text \<open>
  Claim C4.  For an amount written as an integer part of digits and thousands dots (at
  least one digit), optionally a comma and decimal digits, and then the letter \<open>C\<close> or
  \<open>D\<close>, \<^verbatim>\<open>formatar_credito\<close> returns the number whose integer part is the digits without
  the dots and whose decimals are the digits after the comma, negated for \<open>C\<close> and
  as it is for \<open>D\<close>: \<^verbatim>\<open>"1.234,56C"\<close> gives \<open>-1234.56\<close> and \<^verbatim>\<open>"1.234,56D"\<close> gives
  \<open>1234.56\<close>.  A string with no digit gives zero, and every string gives a number:
  the conversion error is caught.
\<close>

theorem formatar_credito_sign_and_magnitude:
  "(\<forall>ip fr s.
      (\<forall>c\<in>set ip. is_digit c \<or> c = CHR ''.'') \<and> (\<exists>c\<in>set ip. is_digit c)
      \<and> (\<forall>c\<in>set fr. is_digit c) \<and> (s = CHR ''C'' \<or> s = CHR ''D'') \<longrightarrow>
      formatar_credito (Some (ip @ '','' @ fr @ [s])) =
        Some ((if s = CHR ''C'' then - 1 else 1) *
              (real (digits_value (filter is_digit ip)) + real (digits_value fr) / 10 ^ length fr))
      \<and> formatar_credito (Some (ip @ [s])) =
        Some ((if s = CHR ''C'' then - 1 else 1) * real (digits_value (filter is_digit ip))))
   \<and> formatar_credito (Some ''1.234,56C'') = Some (- 1234.56)
   \<and> formatar_credito (Some ''1.234,56D'') = Some 1234.56
   \<and> (\<forall>v. (\<forall>c\<in>set v. \<not> is_digit c) \<longrightarrow> formatar_credito (Some v) = Some 0)
   \<and> (\<forall>v. \<exists>x. formatar_credito (Some v) = Some x)"
proof (intro conjI allI impI)
  fix ip fr s
  assume h: "(\<forall>c\<in>set ip. is_digit c \<or> c = CHR ''.'') \<and> (\<exists>c\<in>set ip. is_digit c)
      \<and> (\<forall>c\<in>set fr. is_digit c) \<and> (s = CHR ''C'' \<or> s = CHR ''D'')"
  then show "formatar_credito (Some (ip @ '','' @ fr @ [s])) =
        Some ((if s = CHR ''C'' then - 1 else 1) *
              (real (digits_value (filter is_digit ip)) + real (digits_value fr) / 10 ^ length fr))"
    by (intro formatar_credito_comma) simp_all
  from h show "formatar_credito (Some (ip @ [s])) =
        Some ((if s = CHR ''C'' then - 1 else 1) * real (digits_value (filter is_digit ip)))"
    by (intro formatar_credito_no_comma) simp_all
next
  show "formatar_credito (Some ''1.234,56C'') = Some (- 1234.56)"
    using formatar_credito_comma [of "''1.234''" "''56''" "CHR ''C''"]
    by (simp add: is_digit_def digits_value_samples)
  show "formatar_credito (Some ''1.234,56D'') = Some 1234.56"
    using formatar_credito_comma [of "''1.234''" "''56''" "CHR ''D''"]
    by (simp add: is_digit_def digits_value_samples)
next
  fix v assume "\<forall>c\<in>set v. \<not> is_digit c"
  then show "formatar_credito (Some v) = Some 0"
    by (rule formatar_credito_no_digit)
next
  fix v show "\<exists>x. formatar_credito (Some v) = Some x"
    by (simp add: formatar_credito_def Let_def)
qed

theorem formatar_credito_sign_and_magnitude_witness:
  "list_all (\<lambda>c. is_digit c \<or> c = CHR ''.'') ''12.345'' \<and> list_ex is_digit ''12.345''
   \<and> list_all is_digit ''6''
   \<and> formatar_credito (Some ''12.345,6D'') = Some 12345.6
   \<and> formatar_credito (Some ''12.345C'') = Some (- 12345)
   \<and> list_all (\<lambda>c. \<not> is_digit c) ''abc''
   \<and> formatar_credito (Some ''abc'') = Some 0"
proof -
  have h1: "\<forall>c\<in>set ''12.345''. is_digit c \<or> c = CHR ''.''"
    and h2: "\<exists>c\<in>set ''12.345''. is_digit c"
    and h3: "\<forall>c\<in>set ''6''. is_digit c"
    and h4: "\<forall>c\<in>set ''abc''. \<not> is_digit c"
    by (simp_all add: is_digit_def)
  have d: "filter is_digit ''12.345'' = ''12345''"
    by (simp add: is_digit_def)
  have a: "formatar_credito (Some ''12.345,6D'') = Some 12345.6"
    using formatar_credito_sign_and_magnitude [THEN conjunct1, rule_format,
        of "''12.345''" "''6''" "CHR ''D''", THEN conjunct1] h1 h2 h3
    by (simp add: d digits_value_samples)
  have b: "formatar_credito (Some ''12.345C'') = Some (- 12345)"
    using formatar_credito_sign_and_magnitude [THEN conjunct1, rule_format,
        of "''12.345''" "''6''" "CHR ''C''", THEN conjunct2] h1 h2 h3
    by (simp add: d digits_value_samples)
  have c: "formatar_credito (Some ''abc'') = Some 0"
    using formatar_credito_sign_and_magnitude [THEN conjunct2, THEN conjunct2,
        THEN conjunct2, THEN conjunct1, rule_format, of "''abc''"] h4
    by blast
  show ?thesis
    using h1 h2 h3 h4 a b c by (simp add: list_all_iff list_ex_iff)
qed

subsection \<open>Code and description of a composite cell\<close>

lemma is_space_sep: "is_space c \<Longrightarrow> is_sep c"
  by (simp add: is_sep_def)

lemma is_digit_not_sep: "is_digit c \<Longrightarrow> \<not> is_sep c"
  by (auto simp: is_digit_def is_sep_def is_space_def)

lemma filter_dropWhile_disjoint:
  "(\<And>x. P x \<Longrightarrow> \<not> Q x) \<Longrightarrow> filter Q (dropWhile P xs) = filter Q xs"
  by (induction xs) auto

lemma dropWhile_dropWhile_weaker:
  "(\<And>x. P x \<Longrightarrow> Q x) \<Longrightarrow> dropWhile Q (dropWhile P xs) = dropWhile Q xs"
  by (induction xs) auto

lemma filter_nonsep_strip:
  "filter (\<lambda>c. \<not> is_sep c) (py_strip s) = filter (\<lambda>c. \<not> is_sep c) s"
proof -
  have *: "filter (\<lambda>c. \<not> is_sep c) (dropWhile is_space xs) = filter (\<lambda>c. \<not> is_sep c) xs" for xs
    by (rule filter_dropWhile_disjoint) (simp add: is_space_sep)
  have "filter (\<lambda>c. \<not> is_sep c) (py_strip s)
      = rev (filter (\<lambda>c. \<not> is_sep c) (dropWhile is_space (rev (dropWhile is_space s))))"
    by (simp add: py_strip_def rev_filter)
  also have "\<dots> = rev (filter (\<lambda>c. \<not> is_sep c) (rev (dropWhile is_space s)))"
    by (simp only: *)
  also have "\<dots> = filter (\<lambda>c. \<not> is_sep c) (dropWhile is_space s)"
    by (simp add: rev_filter)
  also have "\<dots> = filter (\<lambda>c. \<not> is_sep c) s"
    by (rule *)
  finally show ?thesis .
qed

lemma py_strip_decomp:
  assumes "s \<noteq> []" "\<not> is_space (hd s)"
  shows "\<exists>w. s = py_strip s @ w \<and> (\<forall>c\<in>set w. is_space c)"
proof -
  have d: "dropWhile is_space s = s"
    using assms by (cases s) simp_all
  have "rev (dropWhile is_space (rev s)) @ rev (takeWhile is_space (rev s))
      = rev (takeWhile is_space (rev s) @ dropWhile is_space (rev s))"
    by (simp only: rev_append)
  also have "\<dots> = rev (rev s)"
    by (simp only: takeWhile_dropWhile_id)
  finally have "s = py_strip s @ rev (takeWhile is_space (rev s))"
    by (simp add: py_strip_def d)
  moreover have "\<forall>c\<in>set (rev (takeWhile is_space (rev s))). is_space c"
    by (auto dest: set_takeWhileD)
  ultimately show ?thesis
    by blast
qed

lemma py_strip_last:
  assumes "py_strip s \<noteq> []"
  shows "\<not> is_space (last (py_strip s))"
proof -
  let ?u = "dropWhile is_space (rev (dropWhile is_space s))"
  have "?u \<noteq> []"
    using assms by (simp add: py_strip_def)
  then have "\<not> is_space (hd ?u)"
    by (rule hd_dropWhile)
  moreover have "last (py_strip s) = hd ?u"
    using \<open>?u \<noteq> []\<close> by (simp add: py_strip_def last_rev)
  ultimately show ?thesis
    by simp
qed

lemma py_strip_of_clean:
  assumes "x = [] \<or> \<not> is_space (last x)"
  shows "dropWhile is_sep (py_strip x) = dropWhile is_sep x"
proof (cases "x = []")
  case True
  then show ?thesis by (simp add: py_strip_def)
next
  case False
  with assms have l: "\<not> is_space (last x)"
    by simp
  let ?u = "dropWhile is_space x"
  have "last x \<in> set x"
    using False by simp
  with l have "?u \<noteq> []"
    by (auto simp: dropWhile_eq_Nil_conv)
  moreover have "x = takeWhile is_space x @ ?u"
    by simp
  ultimately have "last ?u = last x"
    by (metis last_appendR)
  with l \<open>?u \<noteq> []\<close> have "dropWhile is_space (rev ?u) = rev ?u"
    by (cases "rev ?u") (simp_all add: hd_rev [symmetric])
  then have "py_strip x = ?u"
    by (simp add: py_strip_def)
  then show ?thesis
    by (simp add: dropWhile_dropWhile_weaker is_space_sep)
qed


lemma drop_prefix_eq: "xs = a @ b \<Longrightarrow> drop (length a) xs = b"
  by simp

lemma separar_valor_digit:
  assumes t: "py_strip v \<noteq> []" "is_digit (hd (py_strip v))"
  shows "separar_valor (Some v) =
     (takeWhile is_digit (py_strip v)
        @ takeWhile is_digit (dropWhile is_sep (dropWhile is_digit (py_strip v))),
      dropWhile is_sep (dropWhile is_digit (dropWhile is_sep (dropWhile is_digit (py_strip v)))))"
proof -
  let ?t = "py_strip v"
  let ?d1 = "takeWhile is_digit ?t" and ?r1 = "dropWhile is_digit ?t"
  let ?sp = "takeWhile is_sep ?r1" and ?r2 = "dropWhile is_sep ?r1"
  let ?d2 = "takeWhile is_digit ?r2" and ?r3 = "dropWhile is_digit ?r2"
  let ?m = "?d1 @ ?sp @ ?d2"
  have d1ne: "?d1 \<noteq> []"
    using t by (cases ?t) simp_all
  have mc: "match_codigo ?t = Some ?m"
    using d1ne by (simp add: match_codigo_def Let_def)
  have tdec: "?t = ?m @ ?r3"
    by simp
  have "hd ?m = hd ?t"
    using d1ne t by (cases ?t) simp_all
  then have "\<not> is_space (hd ?m)"
    using t(2) by (simp add: is_digit_not_space)
  moreover have "?m \<noteq> []"
    using d1ne by simp
  ultimately obtain w where w: "?m = py_strip ?m @ w" "\<forall>c\<in>set w. is_space c"
    using py_strip_decomp by blast
  have fw: "filter is_digit w = []"
    using w(2) by (auto simp: filter_empty_conv dest: is_digit_not_space)
  have fm: "filter is_digit ?m = ?d1 @ ?d2"
  proof -
    have "filter is_digit ?d1 = ?d1" "filter is_digit ?d2 = ?d2"
      by (auto simp: filter_id_conv dest: set_takeWhileD)
    moreover have "filter is_digit ?sp = []"
      by (auto simp: filter_empty_conv dest: set_takeWhileD is_digit_not_sep)
    ultimately show ?thesis
      by (simp only: filter_append append_Nil)
  qed
  have "filter is_digit ?m = filter is_digit (py_strip ?m) @ filter is_digit w"
    using arg_cong [OF w(1), of "filter is_digit"] by (simp only: filter_append)
  then have fd: "filter is_digit (py_strip ?m) = ?d1 @ ?d2"
    using fw fm by simp
  have tw: "?t = py_strip ?m @ (w @ ?r3)"
    using tdec w(1) by (metis append_assoc)
  have dr: "drop (length (py_strip ?m)) ?t = w @ ?r3"
    by (rule drop_prefix_eq [OF tw])
  have clean: "w @ ?r3 = [] \<or> \<not> is_space (last (w @ ?r3))"
  proof (cases "w @ ?r3 = []")
    case False
    then have "last ?t = last (w @ ?r3)"
      using tw by (metis last_appendR)
    then show ?thesis
      using py_strip_last [OF t(1)] by simp
  qed simp
  have "dropWhile is_sep (py_strip (w @ ?r3)) = dropWhile is_sep (w @ ?r3)"
    using clean by (rule py_strip_of_clean)
  also have "\<dots> = dropWhile is_sep ?r3"
    using w(2) by (simp add: dropWhile_append2 is_space_sep)
  finally have desc: "dropWhile is_sep (py_strip (w @ ?r3)) = dropWhile is_sep ?r3" .
  show ?thesis
    using t(1) by (simp add: separar_valor_def mc Let_def fd dr desc)
qed


lemma separar_valor_no_digit:
  assumes "py_strip v = [] \<or> \<not> is_digit (hd (py_strip v))"
  shows "separar_valor (Some v) = ([], py_strip v)"
proof (cases "py_strip v = []")
  case True
  then show ?thesis by (simp add: separar_valor_def)
next
  case False
  with assms have "\<not> is_digit (hd (py_strip v))"
    by simp
  with False have "takeWhile is_digit (py_strip v) = []"
    by (cases "py_strip v") simp_all
  then have "match_codigo (py_strip v) = None"
    by (simp add: match_codigo_def Let_def)
  with False show ?thesis
    by (simp add: separar_valor_def)
qed

lemma separar_valor_roundtrip:
  "filter (\<lambda>c. \<not> is_sep c) (fst (separar_valor (Some v)) @ snd (separar_valor (Some v)))
     = filter (\<lambda>c. \<not> is_sep c) v"
proof (cases "py_strip v \<noteq> [] \<and> is_digit (hd (py_strip v))")
  case False
  then have "separar_valor (Some v) = ([], py_strip v)"
    by (intro separar_valor_no_digit) auto
  then show ?thesis
    by (simp add: filter_nonsep_strip)
next
  case True
  let ?t = "py_strip v"
  let ?d1 = "takeWhile is_digit ?t" and ?r1 = "dropWhile is_digit ?t"
  let ?sp = "takeWhile is_sep ?r1" and ?r2 = "dropWhile is_sep ?r1"
  let ?d2 = "takeWhile is_digit ?r2" and ?r3 = "dropWhile is_digit ?r2"
  let ?Q = "\<lambda>c. \<not> is_sep c"
  have sv: "separar_valor (Some v) = (?d1 @ ?d2, dropWhile is_sep ?r3)"
    using True by (intro separar_valor_digit) simp_all
  have q1: "filter ?Q ?d1 = ?d1" and q2: "filter ?Q ?d2 = ?d2"
    by (auto simp: filter_id_conv dest: set_takeWhileD is_digit_not_sep)
  have qs: "filter ?Q ?sp = []"
    by (auto simp: filter_empty_conv dest: set_takeWhileD)
  have q3: "filter ?Q (dropWhile is_sep ?r3) = filter ?Q ?r3"
    by (rule filter_dropWhile_disjoint) simp
  have "?t = ?d1 @ ?sp @ ?d2 @ ?r3"
    by simp
  then have "filter ?Q ?t = filter ?Q (?d1 @ ?sp @ ?d2 @ ?r3)"
    by (rule arg_cong)
  then have "filter ?Q ?t = ?d1 @ ?d2 @ filter ?Q ?r3"
    by (simp only: filter_append q1 q2 qs append_Nil)
  moreover have "filter ?Q (fst (separar_valor (Some v)) @ snd (separar_valor (Some v)))
      = ?d1 @ ?d2 @ filter ?Q ?r3"
    by (simp only: sv fst_conv snd_conv filter_append q1 q2 q3 append_assoc)
  ultimately show ?thesis
    by (simp only: filter_nonsep_strip)
qed

lemma py_strip_samples:
  "py_strip ''1234-5 ACME LTDA'' = ''1234-5 ACME LTDA''"
  "py_strip ''12-34-56 ACME'' = ''12-34-56 ACME''"
  by (simp_all add: py_strip_def is_space_def)

text \<open>
  Claim C5 asks that the code be the whole leading run of digits, its internal
  separators removed, and the description the remainder.  The docstring of
  \<^verbatim>\<open>separar_codigo_descricao\<close> says the same (\<^verbatim>\<open>Extrai todos os digitos do inicio da string\<close>),
  and so does the comment on its pattern
  (\<^verbatim>\<open>Pega TODOS os digitos do inicio, incluindo possiveis separadores\<close>).  The pattern
  \<^verbatim>\<open>^(\d+[\s\-\.\/]*\d*)\<close> crosses one group of separators only.  The cell
  \<^verbatim>\<open>"1234-5 ACME LTDA"\<close> is split as the claim says; at \<^verbatim>\<open>"12-34-56 ACME"\<close> the code is
  \<^verbatim>\<open>"1234"\<close>, not \<^verbatim>\<open>"123456"\<close>, and the digits \<^verbatim>\<open>56\<close> open the description.
\<close>

theorem separar_valor_second_separator_group:
  "separar_valor (Some ''1234-5 ACME LTDA'') = (''12345'', ''ACME LTDA'')
   \<and> separar_valor (Some ''12-34-56 ACME'') = (''1234'', ''56 ACME'')
   \<and> leading_run ''12-34-56 ACME'' = ''12-34-56''
   \<and> filter is_digit (leading_run ''12-34-56 ACME'') = ''123456''
   \<and> fst (separar_valor (Some ''12-34-56 ACME'')) \<noteq> filter is_digit (leading_run ''12-34-56 ACME'')"
proof -
  have "is_digit (hd (py_strip ''1234-5 ACME LTDA''))" "py_strip ''1234-5 ACME LTDA'' \<noteq> []"
    by (simp_all add: py_strip_samples is_digit_def)
  from separar_valor_digit [OF this(2) this(1)]
  have a: "separar_valor (Some ''1234-5 ACME LTDA'') = (''12345'', ''ACME LTDA'')"
    by (simp add: py_strip_samples is_digit_def is_sep_def is_space_def)
  have "is_digit (hd (py_strip ''12-34-56 ACME''))" "py_strip ''12-34-56 ACME'' \<noteq> []"
    by (simp_all add: py_strip_samples is_digit_def)
  from separar_valor_digit [OF this(2) this(1)]
  have b: "separar_valor (Some ''12-34-56 ACME'') = (''1234'', ''56 ACME'')"
    by (simp add: py_strip_samples is_digit_def is_sep_def is_space_def)
  have c: "leading_run ''12-34-56 ACME'' = ''12-34-56''"
    by (simp add: leading_run_def is_digit_def is_sep_def is_space_def)
  show ?thesis
    by (simp add: a b c is_digit_def)
qed

subsection \<open>The key of the join\<close>

lemma sql_remove_Nil [simp]: "sql_remove pat [] = []"
  by (simp add: sql_remove.simps)

lemma sql_remove_Cons:
  "sql_remove pat (c # cs) =
     (if pat \<noteq> [] \<and> prefix pat (c # cs) then sql_remove pat (drop (length pat) (c # cs))
      else c # sql_remove pat cs)"
  by (subst sql_remove.simps) simp

lemma chave_samples:
  "chave_juncao ''12F3'' = ''123''" "chave_juncao ''123'' = ''123''"
  "chave_juncao '' af123 '' = ''123''"
  by (simp_all add: chave_juncao_def sql_trim_def sql_upper_def sql_remove_Cons)

text \<open>
  Claim C3 asks that the join between a supplier group and the accounting items compare
  the two codes after trimming, upper-casing and removing a leading \<^verbatim>\<open>AF\<close> or \<^verbatim>\<open>F\<close>
  only, as the cleaning at import does.  The key of \<^verbatim>\<open>query_atualiza_contabil\<close> deletes
  every \<^verbatim>\<open>AF\<close> and \<^verbatim>\<open>F\<close> of the code instead: the codes \<^verbatim>\<open>12F3\<close> and \<^verbatim>\<open>123\<close>, which
  the cleaning at import keeps apart, get the same key, and the group \<^verbatim>\<open>123\<close> receives
  the balance of both items (150 rather than 100).
\<close>

theorem chave_juncao_removes_inner_letter:
  "chave_juncao ''12F3'' = chave_juncao ''123''
   \<and> limpa_codigo_fornecedor ''12F3'' = ''12F3''
   \<and> limpa_codigo_fornecedor ''12F3'' \<noteq> limpa_codigo_fornecedor ''123''
   \<and> casa_fornecedor (exemplo_itens ! 1) exemplo_grupo
   \<and> saldo_contabil (query_atualiza_contabil_row round2_meio (\<lambda>x. []) exemplo_itens exemplo_grupo) = Some 150"
  by (simp add: chave_samples limpa_codigo_fornecedor_def py_strip_def is_space_def
      casa_fornecedor_def exemplo_itens_def exemplo_grupo_def sql_like_prefix_def
      conta_fornecedores_def query_atualiza_contabil_row_def Let_def coalesce0_def)

subsection \<open>Import: destination and replacement\<close>

lemma contem_sublist: "contem t s \<longleftrightarrow> sublist t s"
proof (induction s)
  case Nil
  then show ?case by simp
next
  case (Cons c cs)
  then show ?case by (simp add: sublist_Cons_right)
qed

lemma completa_Nil [simp]: "completa [] d = d"
  by (simp add: completa_def)

lemma completa_Cons:
  "completa (c # cs) d = completa cs (if c \<in> set (colunas d) then d else acrescenta c d)"
  by (simp add: completa_def)

lemma completa_eq:
  "completa tc d =
     \<lparr>colunas = colunas d @ novas (colunas d) tc,
      linhas = map (\<lambda>l. l @ map padrao (novas (colunas d) tc)) (linhas d)\<rparr>"
proof (induction tc arbitrary: d)
  case Nil
  show ?case by simp
next
  case (Cons c cs)
  show ?case
  proof (cases "c \<in> set (colunas d)")
    case True
    then show ?thesis
      by (simp add: completa_Cons Cons.IH)
  next
    case False
    then show ?thesis
      by (simp add: completa_Cons Cons.IH acrescenta_def comp_def)
  qed
qed

lemma novas_subset: "set (novas p xs) \<subseteq> set xs"
  by (induction p xs rule: novas.induct) auto

lemma novas_disjoint: "set (novas p xs) \<inter> set p = {}"
  by (induction p xs rule: novas.induct) auto

lemma novas_absorb: "set ys \<subseteq> set p \<Longrightarrow> novas p (ys @ zs) = novas p zs"
  by (induction ys) auto

lemma novas_idem: "novas p (novas p xs) = novas p xs"
  by (induction p xs rule: novas.induct) auto

lemma keep_stable:
  "filter (\<lambda>c. c \<in> set (filter (\<lambda>c. c \<in> set tc) dcols @ novas (filter (\<lambda>c. c \<in> set tc) dcols) tc)) dcols
     = filter (\<lambda>c. c \<in> set tc) dcols"
  using novas_subset [of "filter (\<lambda>c. c \<in> set tc) dcols" tc]
  by (intro filter_cong) auto

lemma completa_again:
  assumes "colunas d = keep"
  shows "completa (keep @ novas keep tc) d = completa tc d"
  using assms by (simp add: completa_eq novas_absorb novas_idem)

lemma colunas_completa:
  "colunas (completa tc (seleciona (filter (\<lambda>c. c \<in> set tc) cols) df)) = [] \<longleftrightarrow> tc = []"
proof (cases tc)
  case Nil
  then show ?thesis
    by (simp add: seleciona_def)
next
  case (Cons c cs)
  show ?thesis
  proof (cases "filter (\<lambda>c. c \<in> set tc) cols = []")
    case True
    then show ?thesis
      using Cons by (simp add: completa_eq seleciona_def)
  next
    case False
    then show ?thesis
      using Cons by (simp add: completa_eq seleciona_def)
  qed
qed

lemma import_ok:
  assumes "ler fp (tabela_destino fp tn) = Lido df"
    and "table_info db (tabela_destino fp tn) \<noteq> []"
  shows "import_from_excel ler db fp tn =
     (Inr True,
      db(tabela_destino fp tn \<mapsto>
         completa (table_info db (tabela_destino fp tn))
           (seleciona (filter (\<lambda>c. c \<in> set (table_info db (tabela_destino fp tn))) (colunas df)) df)))"
  using assms by (simp add: import_from_excel_def Let_def colunas_completa)

lemma import_sem_tabela:
  assumes "ler fp (tabela_destino fp tn) = Lido df"
    and "table_info db (tabela_destino fp tn) = []"
  shows "import_from_excel ler db fp tn = (Inl ExcecaoNaoMapeadaError, db)"
  using assms by (simp add: import_from_excel_def Let_def colunas_completa)

lemma import_ok_iff:
  "fst (import_from_excel ler db fp tn) = Inr True \<longleftrightarrow>
     (\<exists>df. ler fp (tabela_destino fp tn) = Lido df) \<and> table_info db (tabela_destino fp tn) \<noteq> []"
  by (cases "ler fp (tabela_destino fp tn)")
     (simp_all add: import_from_excel_def Let_def colunas_completa)

lemma import_idempotent:
  assumes "import_from_excel ler db fp tn = (Inr True, db1)"
  shows "import_from_excel ler db1 fp tn = (Inr True, db1)"
proof -
  let ?t = "tabela_destino fp tn"
  from assms have "fst (import_from_excel ler db fp tn) = Inr True"
    by simp
  then obtain df where df: "ler fp ?t = Lido df" and ne: "table_info db ?t \<noteq> []"
    by (auto simp: import_ok_iff)
  let ?tc = "table_info db ?t"
  let ?keep = "filter (\<lambda>c. c \<in> set ?tc) (colunas df)"
  let ?df1 = "completa ?tc (seleciona ?keep df)"
  have db1: "db1 = db(?t \<mapsto> ?df1)"
    using assms import_ok [of ler fp tn df db, OF df ne] by simp
  have tc1: "table_info db1 ?t = ?keep @ novas ?keep ?tc"
    by (simp add: db1 table_info_def completa_eq seleciona_def)
  have "colunas ?df1 \<noteq> []"
    using ne by (simp only: colunas_completa not_False_eq_True)
  then have ne1: "table_info db1 ?t \<noteq> []"
    by (simp add: db1 table_info_def)
  have keep1: "filter (\<lambda>c. c \<in> set (table_info db1 ?t)) (colunas df) = ?keep"
    unfolding tc1 by (rule keep_stable)
  have "completa (table_info db1 ?t) (seleciona ?keep df) = ?df1"
    unfolding tc1 by (rule completa_again) (simp add: seleciona_def)
  then have "import_from_excel ler db1 fp tn = (Inr True, db1(?t \<mapsto> ?df1))"
    using import_ok [of ler fp tn df db1, OF df ne1] by (simp add: keep1)
  moreover have "db1(?t \<mapsto> ?df1) = db1"
    by (simp add: db1)
  ultimately show ?thesis
    by simp
qed


text \<open>
  Claim C7.  When \<^verbatim>\<open>import_from_excel\<close> succeeds, the destination table holds one row for
  each row of the cleaned file and nothing of what it held before: any store with the
  same columns in that table ends with the same table, the other tables are untouched,
  and importing the same file again leaves the store as the first import left it.
\<close>

theorem import_replace_semantics:
  "import_from_excel ler db fp tn = (Inr True, db1) \<longrightarrow>
     import_from_excel ler db1 fp tn = (Inr True, db1)
     \<and> (\<exists>df tb. ler fp (tabela_destino fp tn) = Lido df
            \<and> db1 (tabela_destino fp tn) = Some tb
            \<and> length (linhas tb) = length (linhas df))
     \<and> (\<forall>db'. table_info db' (tabela_destino fp tn) = table_info db (tabela_destino fp tn) \<longrightarrow>
            snd (import_from_excel ler db' fp tn) (tabela_destino fp tn)
              = db1 (tabela_destino fp tn))
     \<and> (\<forall>u. u \<noteq> tabela_destino fp tn \<longrightarrow> db1 u = db u)"
proof (intro impI conjI allI)
  let ?t = "tabela_destino fp tn"
  assume a: "import_from_excel ler db fp tn = (Inr True, db1)"
  then show "import_from_excel ler db1 fp tn = (Inr True, db1)"
    by (rule import_idempotent)
  from a have "fst (import_from_excel ler db fp tn) = Inr True"
    by simp
  then obtain df where df: "ler fp ?t = Lido df" and ne: "table_info db ?t \<noteq> []"
    by (auto simp: import_ok_iff)
  have db1: "db1 = db(?t \<mapsto> completa (table_info db ?t)
        (seleciona (filter (\<lambda>c. c \<in> set (table_info db ?t)) (colunas df)) df))"
    using a import_ok [of ler fp tn df db, OF df ne] by simp
  show "\<exists>df tb. ler fp ?t = Lido df \<and> db1 ?t = Some tb \<and> length (linhas tb) = length (linhas df)"
    using df by (simp add: db1 completa_eq seleciona_def)
  show "snd (import_from_excel ler db' fp tn) ?t = db1 ?t"
    if "table_info db' ?t = table_info db ?t" for db'
  proof -
    from that ne have "table_info db' ?t \<noteq> []"
      by simp
    from import_ok [of ler fp tn df db', OF df this] that show ?thesis
      by (simp add: db1)
  qed
  show "db1 u = db u" if "u \<noteq> ?t" for u
    using that by (simp add: db1)
qed

lemma exemplo_stem:
  "py_lower (path_stem ''/d/finr150.xlsx'') = ''finr150''"
  "py_lower (path_stem ''/tmp/downloads/CTBR140.xlsx'') = ''ctbr140''"
  "py_lower (path_stem ''/tmp/downloads/saldos.xlsx'') = ''saldos''"
  by (simp_all add: path_stem_def path_name_def py_lower_def)

lemma exemplo_destino: "tabela_destino ''/d/finr150.xlsx'' ''x'' = ''financeiro''"
  by (simp add: tabela_destino_def exemplo_stem TABLE_FINANCEIRO_def)

theorem import_replace_semantics_witness:
  "import_from_excel exemplo_leitor exemplo_banco ''/d/finr150.xlsx'' ''x''
     = (Inr True, snd (import_from_excel exemplo_leitor exemplo_banco ''/d/finr150.xlsx'' ''x''))
   \<and> import_from_excel exemplo_leitor
        (snd (import_from_excel exemplo_leitor exemplo_banco ''/d/finr150.xlsx'' ''x''))
        ''/d/finr150.xlsx'' ''x''
     = import_from_excel exemplo_leitor exemplo_banco ''/d/finr150.xlsx'' ''x''
   \<and> map_option (\<lambda>tb. length (linhas tb)) (exemplo_banco ''financeiro'') = Some 2
   \<and> map_option (\<lambda>tb. length (linhas tb))
        (snd (import_from_excel exemplo_leitor exemplo_banco ''/d/finr150.xlsx'' ''x'')
           ''financeiro'') = Some 1"
proof -
  let ?db1 = "snd (import_from_excel exemplo_leitor exemplo_banco ''/d/finr150.xlsx'' ''x'')"
  have "table_info exemplo_banco (tabela_destino ''/d/finr150.xlsx'' ''x'') \<noteq> []"
    by (simp add: exemplo_destino table_info_def exemplo_banco_def)
  then have "fst (import_from_excel exemplo_leitor exemplo_banco ''/d/finr150.xlsx'' ''x'')
      = Inr True"
    by (simp add: import_ok_iff exemplo_leitor_def)
  then have h: "import_from_excel exemplo_leitor exemplo_banco ''/d/finr150.xlsx'' ''x''
      = (Inr True, ?db1)"
    by (intro prod_eqI) simp_all
  note w = import_replace_semantics [of exemplo_leitor exemplo_banco "''/d/finr150.xlsx''"
      "''x''" ?db1, THEN mp, OF h]
  from w [THEN conjunct2, THEN conjunct1]
  have "\<exists>df tb. exemplo_leitor ''/d/finr150.xlsx'' ''financeiro'' = Lido df
      \<and> ?db1 ''financeiro'' = Some tb \<and> length (linhas tb) = length (linhas df)"
    by (simp only: exemplo_destino)
  then obtain df tb where a: "exemplo_leitor ''/d/finr150.xlsx'' ''financeiro'' = Lido df"
    and b: "?db1 ''financeiro'' = Some tb"
    and c: "length (linhas tb) = length (linhas df)"
    by blast
  from a have "length (linhas df) = 1"
    by (auto simp: exemplo_leitor_def)
  with b c have n: "map_option (\<lambda>tb. length (linhas tb)) (?db1 ''financeiro'') = Some 1"
    by simp
  have m: "map_option (\<lambda>tb. length (linhas tb)) (exemplo_banco ''financeiro'') = Some 2"
    by (simp add: exemplo_banco_def)
  from w have "import_from_excel exemplo_leitor ?db1 ''/d/finr150.xlsx'' ''x'' = (Inr True, ?db1)"
    by (rule conjunct1)
  then have again: "import_from_excel exemplo_leitor ?db1 ''/d/finr150.xlsx'' ''x''
      = import_from_excel exemplo_leitor exemplo_banco ''/d/finr150.xlsx'' ''x''"
    using h by (rule trans [OF _ sym])
  show ?thesis
    by (intro conjI) (rule h again m n)+
qed

text \<open>
  Claim C10.  The table \<^verbatim>\<open>import_from_excel\<close> writes is fixed by the lower-cased stem of
  the file name: \<^verbatim>\<open>ctbr100\<close> gives \<^verbatim>\<open>adiantamento\<close>, otherwise \<^verbatim>\<open>ctbr140\<close> gives
  \<^verbatim>\<open>contas_itens\<close>, otherwise \<^verbatim>\<open>ctbr040\<close> gives \<^verbatim>\<open>modelo1\<close>, otherwise \<^verbatim>\<open>finr150\<close> gives
  \<^verbatim>\<open>financeiro\<close>; with one of these tokens in the name neither the table nor the
  whole import depends on the caller's argument, which is used only when the name has
  none of them.  The cleaned rows of the file go to that table and to no other: when
  the table exists, it becomes the frame restricted to the columns of the table and
  completed with the columns it lacks, and every other table is as before; when it
  does not exist, the import raises \<^verbatim>\<open>ExcecaoNaoMapeadaError\<close> and writes nothing.
\<close>

theorem tabela_destino_routing:
  "(let filename = py_lower (path_stem fp); t = tabela_destino fp tn in
      (contem ''ctbr100'' filename \<longrightarrow> t = TABLE_ADIANTAMENTO)
    \<and> (\<not> contem ''ctbr100'' filename \<and> contem ''ctbr140'' filename \<longrightarrow> t = TABLE_CONTAS_ITENS)
    \<and> (\<not> contem ''ctbr100'' filename \<and> \<not> contem ''ctbr140'' filename
         \<and> contem ''ctbr040'' filename \<longrightarrow> t = TABLE_MODELO1)
    \<and> (\<not> contem ''ctbr100'' filename \<and> \<not> contem ''ctbr140'' filename
         \<and> \<not> contem ''ctbr040'' filename \<and> contem ''finr150'' filename \<longrightarrow> t = TABLE_FINANCEIRO)
    \<and> (\<not> contem ''ctbr100'' filename \<and> \<not> contem ''ctbr140'' filename
         \<and> \<not> contem ''ctbr040'' filename \<and> \<not> contem ''finr150'' filename \<longrightarrow> t = tn)
    \<and> (contem ''ctbr100'' filename \<or> contem ''ctbr140'' filename
         \<or> contem ''ctbr040'' filename \<or> contem ''finr150'' filename \<longrightarrow>
         (\<forall>tn'. tabela_destino fp tn' = t)
         \<and> (\<forall>ler db tn'. import_from_excel ler db fp tn' = import_from_excel ler db fp tn))
    \<and> (\<forall>ler db df. ler fp t = Lido df \<longrightarrow>
          (table_info db t \<noteq> [] \<longrightarrow>
             import_from_excel ler db fp tn =
               (Inr True,
                db(t \<mapsto> completa (table_info db t)
                            (seleciona (filter (\<lambda>c. c \<in> set (table_info db t)) (colunas df)) df)))
             \<and> (\<forall>u. u \<noteq> t \<longrightarrow> snd (import_from_excel ler db fp tn) u = db u))
          \<and> (table_info db t = [] \<longrightarrow>
                import_from_excel ler db fp tn = (Inl ExcecaoNaoMapeadaError, db))))"
proof -
  let ?f = "py_lower (path_stem fp)"
  have tok: "tabela_destino fp tn' = tabela_destino fp tn"
    if "contem ''ctbr100'' ?f \<or> contem ''ctbr140'' ?f \<or> contem ''ctbr040'' ?f
        \<or> contem ''finr150'' ?f" for tn'
    using that by (auto simp: tabela_destino_def Let_def)
  have same: "import_from_excel ler db fp tn' = import_from_excel ler db fp tn"
    if "contem ''ctbr100'' ?f \<or> contem ''ctbr140'' ?f \<or> contem ''ctbr040'' ?f
        \<or> contem ''finr150'' ?f" for ler db tn'
    by (simp only: import_from_excel_def tok [OF that, of tn'])
  show ?thesis
    unfolding Let_def
  proof (intro conjI allI impI)
    fix ler db df
    assume l: "ler fp (tabela_destino fp tn) = Lido df"
    {
      assume ne: "table_info db (tabela_destino fp tn) \<noteq> []"
      show i: "import_from_excel ler db fp tn =
               (Inr True,
                db(tabela_destino fp tn \<mapsto> completa (table_info db (tabela_destino fp tn))
                  (seleciona (filter (\<lambda>c. c \<in> set (table_info db (tabela_destino fp tn)))
                     (colunas df)) df)))"
        by (rule import_ok [of ler fp tn df db, OF l ne])
      fix u assume "u \<noteq> tabela_destino fp tn"
      then show "snd (import_from_excel ler db fp tn) u = db u"
        by (simp add: i)
    }
    assume "table_info db (tabela_destino fp tn) = []"
    then show "import_from_excel ler db fp tn = (Inl ExcecaoNaoMapeadaError, db)"
      by (rule import_sem_tabela [of ler fp tn df db, OF l])
  next
    fix tn'
    assume "contem ''ctbr100'' ?f \<or> contem ''ctbr140'' ?f \<or> contem ''ctbr040'' ?f
        \<or> contem ''finr150'' ?f"
    then show "tabela_destino fp tn' = tabela_destino fp tn"
      by (rule tok)
  next
    fix ler db tn'
    assume "contem ''ctbr100'' ?f \<or> contem ''ctbr140'' ?f \<or> contem ''ctbr040'' ?f
        \<or> contem ''finr150'' ?f"
    then show "import_from_excel ler db fp tn' = import_from_excel ler db fp tn"
      by (rule same)
  qed (auto simp: tabela_destino_def Let_def)
qed

theorem tabela_destino_routing_witness:
  "\<not> contem ''ctbr100'' (py_lower (path_stem ''/tmp/downloads/CTBR140.xlsx''))
   \<and> contem ''ctbr140'' (py_lower (path_stem ''/tmp/downloads/CTBR140.xlsx''))
   \<and> tabela_destino ''/tmp/downloads/CTBR140.xlsx'' ''financeiro'' = ''contas_itens''
   \<and> tabela_destino ''/tmp/downloads/saldos.xlsx'' ''financeiro'' = ''financeiro''
   \<and> exemplo_leitor ''/tmp/downloads/CTBR140.xlsx'' ''contas_itens'' \<noteq> Invalido
   \<and> table_info exemplo_banco_itens ''contas_itens'' \<noteq> []
   \<and> import_from_excel exemplo_leitor exemplo_banco_itens ''/tmp/downloads/CTBR140.xlsx''
        ''financeiro''
      = (Inr True,
         exemplo_banco_itens(''contas_itens'' \<mapsto>
           \<lparr>colunas = [''codigo_fornecedor'', ''id'', ''conta_contabil'', ''excluido''],
            linhas = [[Texto ''1001'', Nulo, Nulo, Numero 0]]\<rparr>))
   \<and> snd (import_from_excel exemplo_leitor exemplo_banco_itens ''/tmp/downloads/CTBR140.xlsx''
            ''financeiro'') ''financeiro'' = exemplo_banco ''financeiro''
   \<and> table_info exemplo_banco ''contas_itens'' = []
   \<and> import_from_excel exemplo_leitor exemplo_banco ''/tmp/downloads/CTBR140.xlsx''
        ''financeiro''
      = (Inl ExcecaoNaoMapeadaError, exemplo_banco)"
proof -
  let ?fp = "''/tmp/downloads/CTBR140.xlsx''"
  have c1: "\<not> contem ''ctbr100'' (py_lower (path_stem ?fp))"
    and c2: "contem ''ctbr140'' (py_lower (path_stem ?fp))"
    by (simp_all add: exemplo_stem)
  have s: "\<not> contem ''ctbr100'' (py_lower (path_stem ''/tmp/downloads/saldos.xlsx''))
      \<and> \<not> contem ''ctbr140'' (py_lower (path_stem ''/tmp/downloads/saldos.xlsx''))
      \<and> \<not> contem ''ctbr040'' (py_lower (path_stem ''/tmp/downloads/saldos.xlsx''))
      \<and> \<not> contem ''finr150'' (py_lower (path_stem ''/tmp/downloads/saldos.xlsx''))"
    by (simp add: exemplo_stem)
  note r1 = tabela_destino_routing [of ?fp "''financeiro''", unfolded Let_def]
  note r2 = tabela_destino_routing [of "''/tmp/downloads/saldos.xlsx''" "''financeiro''",
      unfolded Let_def]
  have t1: "tabela_destino ?fp ''financeiro'' = ''contas_itens''"
    using r1 [THEN conjunct2, THEN conjunct1, THEN mp, OF conjI, OF c1 c2]
    by (simp only: TABLE_CONTAS_ITENS_def)
  have t2: "tabela_destino ''/tmp/downloads/saldos.xlsx'' ''financeiro'' = ''financeiro''"
    using r2 [THEN conjunct2, THEN conjunct2, THEN conjunct2, THEN conjunct2, THEN conjunct1,
        THEN mp, OF s] .
  have l: "exemplo_leitor ?fp (tabela_destino ?fp ''financeiro'')
      = Lido \<lparr>colunas = [''fornecedor'', ''valor_original'', ''codigo_fornecedor''],
           linhas = [[Texto ''1001 ACME'', Numero 1000, Texto ''1001'']]\<rparr>"
    by (simp add: exemplo_leitor_def)
  have l': "exemplo_leitor ?fp ''contas_itens'' \<noteq> Invalido"
    by (simp add: exemplo_leitor_def)
  have ti: "table_info exemplo_banco_itens ''contas_itens''
      = [''id'', ''conta_contabil'', ''codigo_fornecedor'', ''excluido'']"
    by (simp add: table_info_def exemplo_banco_itens_def)
  then have ne: "table_info exemplo_banco_itens ''contas_itens'' \<noteq> []"
    by simp
  have ne': "table_info exemplo_banco_itens (tabela_destino ?fp ''financeiro'') \<noteq> []"
    unfolding t1 by (rule ne)
  have em: "table_info exemplo_banco ''contas_itens'' = []"
    by (simp add: table_info_def exemplo_banco_def)
  have em': "table_info exemplo_banco (tabela_destino ?fp ''financeiro'') = []"
    unfolding t1 by (rule em)
  note r7 = r1 [THEN conjunct2, THEN conjunct2, THEN conjunct2, THEN conjunct2, THEN conjunct2,
      THEN conjunct2]
  note ok = r7 [THEN spec, of exemplo_leitor, THEN spec, of exemplo_banco_itens,
      THEN spec, THEN mp, OF l, THEN conjunct1, THEN mp, OF ne']
  note raises = r7 [THEN spec, of exemplo_leitor, THEN spec, of exemplo_banco,
      THEN spec, THEN mp, OF l, THEN conjunct2, THEN mp, OF em']
  have i: "import_from_excel exemplo_leitor exemplo_banco_itens ?fp ''financeiro''
      = (Inr True,
         exemplo_banco_itens(''contas_itens'' \<mapsto>
           \<lparr>colunas = [''codigo_fornecedor'', ''id'', ''conta_contabil'', ''excluido''],
            linhas = [[Texto ''1001'', Nulo, Nulo, Numero 0]]\<rparr>))"
    using ok [THEN conjunct1]
    by (simp add: t1 ti seleciona_def valor_celula_def completa_def acrescenta_def padrao_def)
  have ne2: "''financeiro'' \<noteq> tabela_destino ?fp ''financeiro''"
    unfolding t1 by simp
  have "snd (import_from_excel exemplo_leitor exemplo_banco_itens ?fp ''financeiro'')
      ''financeiro'' = exemplo_banco_itens ''financeiro''"
    using ok [THEN conjunct2, THEN spec, of "''financeiro''", THEN mp, OF ne2] .
  then have k: "snd (import_from_excel exemplo_leitor exemplo_banco_itens ?fp ''financeiro'')
      ''financeiro'' = exemplo_banco ''financeiro''"
    by (simp add: exemplo_banco_itens_def)
  show ?thesis
    by (intro conjI) (rule c1 c2 t1 t2 l' ne i k em raises)+
qed

subsection \<open>Rollback of the reconciliation\<close>

lemma executa_None_iff:
  "executa falha n cs d = None \<longleftrightarrow> (\<exists>i<length cs. falha (n + i))"
proof (induction cs arbitrary: n d)
  case Nil
  show ?case by simp
next
  case (Cons c cs)
  show ?case
  proof (cases "falha n")
    case True
    then have "\<exists>i<length (c # cs). falha (n + i)"
      by (intro exI [of _ 0]) simp
    with True show ?thesis by simp
  next
    case False
    have "(\<exists>i<length (c # cs). falha (n + i)) \<longleftrightarrow> (\<exists>i<length cs. falha (Suc n + i))"
    proof
      assume "\<exists>i<length (c # cs). falha (n + i)"
      then obtain i where i: "i < length (c # cs)" "falha (n + i)" by blast
      with False have "i \<noteq> 0" by (auto intro: ccontr)
      then obtain j where "i = Suc j" by (cases i) auto
      with i show "\<exists>i<length cs. falha (Suc n + i)" by auto
    next
      assume "\<exists>i<length cs. falha (Suc n + i)"
      then obtain j where "j < length cs" "falha (Suc n + j)" by blast
      then show "\<exists>i<length (c # cs). falha (n + i)"
        by (intro exI [of _ "Suc j"]) simp
    qed
    with False Cons.IH [of "Suc n" "c d"] show ?thesis by simp
  qed
qed

lemma executa_Some:
  "(\<forall>i<length cs. \<not> falha (n + i)) \<Longrightarrow> executa falha n cs d = Some (foldl (\<lambda>x c. c x) d cs)"
proof (induction cs arbitrary: n d)
  case Nil
  show ?case by simp
next
  case (Cons c cs)
  from Cons.prems have "\<not> falha n"
    by (metis add.right_neutral length_greater_0_conv list.distinct(1))
  moreover from Cons.prems have "\<forall>i<length cs. \<not> falha (Suc n + i)"
    by (metis Suc_less_eq add_Suc_shift length_Cons)
  ultimately show ?case
    using Cons.IH [of "Suc n" "c d"] by simp
qed


lemma length_comandos [simp]:
  "length (comandos_antes rnd txt ins) = 11" "length (comandos_depois rnd txt ins) = 11"
  by (simp_all add: comandos_antes_def comandos_depois_def)

lemma process_data_outcomes:
  "((\<exists>i<23. i \<noteq> 11 \<and> falha i) \<longrightarrow>
       process_data falha rnd txt ins d0 = (Inl ExcecaoNaoMapeadaError, d0))
   \<and> ((\<forall>i<23. i \<noteq> 11 \<longrightarrow> \<not> falha i) \<longrightarrow>
       process_data falha rnd txt ins d0 =
           (Inr True,
            foldl (\<lambda>x c. c x)
              ((if falha 11 then (\<lambda>d. d) else em_resultado (\<lambda>d. query_ordem_importancia))
                 (foldl (\<lambda>x c. c x) d0 (comandos_antes rnd txt ins)))
              (comandos_depois rnd txt ins)))"
proof (intro conjI impI)
  assume "\<exists>i<23. i \<noteq> 11 \<and> falha i"
  then obtain i where i: "i < 23" "i \<noteq> 11" "falha i"
    by blast
  show "process_data falha rnd txt ins d0 = (Inl ExcecaoNaoMapeadaError, d0)"
  proof (cases "i < 11")
    case True
    with i have "\<exists>j<length (comandos_antes rnd txt ins). falha (0 + j)"
      by auto
    then have "executa falha 0 (comandos_antes rnd txt ins) d0 = None"
      by (simp only: executa_None_iff)
    then show ?thesis
      by (simp add: process_data_def Let_def)
  next
    case False
    with i have "i - 12 < length (comandos_depois rnd txt ins)" "falha (12 + (i - 12))"
      by simp_all
    then have "\<exists>j<length (comandos_depois rnd txt ins). falha (12 + j)"
      by blast
    then have "executa falha 12 (comandos_depois rnd txt ins) d = None" for d
      by (simp only: executa_None_iff)
    then show ?thesis
      by (simp add: process_data_def Let_def split: option.split)
  qed
next
  assume a: "\<forall>i<23. i \<noteq> 11 \<longrightarrow> \<not> falha i"
  then have "\<forall>j<length (comandos_antes rnd txt ins). \<not> falha (0 + j)"
    by simp
  then have e1: "executa falha 0 (comandos_antes rnd txt ins) d0
      = Some (foldl (\<lambda>x c. c x) d0 (comandos_antes rnd txt ins))"
    by (rule executa_Some)
  from a have "\<forall>j<length (comandos_depois rnd txt ins). \<not> falha (12 + j)"
    by simp
  then have e2: "executa falha 12 (comandos_depois rnd txt ins) d
      = Some (foldl (\<lambda>x c. c x) d (comandos_depois rnd txt ins))" for d
    by (rule executa_Some)
  show "process_data falha rnd txt ins d0 =
           (Inr True,
            foldl (\<lambda>x c. c x)
              ((if falha 11 then (\<lambda>d. d) else em_resultado (\<lambda>d. query_ordem_importancia))
                 (foldl (\<lambda>x c. c x) d0 (comandos_antes rnd txt ins)))
              (comandos_depois rnd txt ins))"
    by (simp add: process_data_def Let_def e1 e2)
qed

text \<open>
  Claim C8, as amended.  The statements of \<^verbatim>\<open>process_data\<close>, those of
  \<^verbatim>\<open>_process_adiantamentos\<close> included, run between \<^verbatim>\<open>BEGIN TRANSACTION\<close> and \<^verbatim>\<open>commit\<close>.
  When any of them other than the update of the order of importance raises, the
  transaction is rolled back: the store, and so both result tables, are as they were
  before the run, and the caller receives \<^verbatim>\<open>ExcecaoNaoMapeadaError\<close>.  When none of them
  raises, the function returns \<^verbatim>\<open>True\<close>.
\<close>

theorem process_data_rollback:
  "(let k = length (comandos_antes rnd txt ins); n = Suc k + length (comandos_depois rnd txt ins) in
      ((\<exists>i<n. i \<noteq> k \<and> falha i) \<longrightarrow>
          process_data falha rnd txt ins d0 = (Inl ExcecaoNaoMapeadaError, d0)
          \<and> tb_resultado (snd (process_data falha rnd txt ins d0)) = tb_resultado d0
          \<and> tb_resultado_adiantamento (snd (process_data falha rnd txt ins d0))
              = tb_resultado_adiantamento d0)
    \<and> ((\<forall>i<n. i \<noteq> k \<longrightarrow> \<not> falha i) \<longrightarrow>
          fst (process_data falha rnd txt ins d0) = Inr True))"
  using process_data_outcomes [of falha rnd "txt" ins d0]
  by (simp add: Let_def)

theorem process_data_rollback_witness:
  "(3::nat) < Suc (length (comandos_antes round2_meio (texto_fixo []) exemplo_insercoes))
                + length (comandos_depois round2_meio (texto_fixo []) exemplo_insercoes)
   \<and> (3::nat) \<noteq> length (comandos_antes round2_meio (texto_fixo []) exemplo_insercoes)
   \<and> falha_em 3 3
   \<and> process_data (falha_em 3) round2_meio (texto_fixo []) exemplo_insercoes
        (exemplo_db\<lparr>tb_resultado := exemplo_divergente\<rparr>)
      = (Inl ExcecaoNaoMapeadaError, exemplo_db\<lparr>tb_resultado := exemplo_divergente\<rparr>)
   \<and> tb_resultado (snd (process_data (falha_em 3) round2_meio (texto_fixo []) exemplo_insercoes
        (exemplo_db\<lparr>tb_resultado := exemplo_divergente\<rparr>))) = exemplo_divergente
   \<and> fst (process_data (falha_em 30) round2_meio (texto_fixo []) exemplo_insercoes exemplo_db) = Inr True"
proof -
  let ?k = "length (comandos_antes round2_meio (texto_fixo []) exemplo_insercoes)"
  let ?n = "Suc ?k + length (comandos_depois round2_meio (texto_fixo []) exemplo_insercoes)"
  have h0: "(3::nat) < ?n" "(3::nat) \<noteq> ?k" "falha_em 3 3"
    by (simp_all add: falha_em_def)
  then have h: "\<exists>i<?n. i \<noteq> ?k \<and> falha_em 3 i"
    by blast
  note a = process_data_rollback [of round2_meio "texto_fixo []" exemplo_insercoes "falha_em 3"
      "exemplo_db\<lparr>tb_resultado := exemplo_divergente\<rparr>", unfolded Let_def,
      THEN conjunct1, THEN mp, OF h]
  have h2: "\<forall>i<?n. i \<noteq> ?k \<longrightarrow> \<not> falha_em 30 i"
    by (simp add: falha_em_def)
  note b = process_data_rollback [of round2_meio "texto_fixo []" exemplo_insercoes "falha_em 30" exemplo_db,
      unfolded Let_def, THEN conjunct2, THEN mp, OF h2]
  have c: "tb_resultado (snd (process_data (falha_em 3) round2_meio (texto_fixo []) exemplo_insercoes
        (exemplo_db\<lparr>tb_resultado := exemplo_divergente\<rparr>))) = exemplo_divergente"
    using a [THEN conjunct2, THEN conjunct1] by simp
  show ?thesis
    by (intro conjI) (rule h0 a [THEN conjunct1] c b)+
qed

lemma query_atualiza_contabil_sem_itens: "query_atualiza_contabil rnd txt [] rows = rows"
  by (induction rows) (simp_all add: query_atualiza_contabil_def query_atualiza_contabil_row_def)

lemma query_adiantamento_sem_adiantamentos: "map (query_adiantamento_row []) rows = rows"
  by (induction rows) (simp_all add: query_adiantamento_row_def)

lemma exemplo_antes:
  "tb_resultado (foldl (\<lambda>x c. c x) exemplo_db (comandos_antes rnd txt exemplo_insercoes))
     = divergentes_sem_itens txt (query_investigacao txt [] (query_diferenca rnd exemplo_resultado))"
  by (simp add: comandos_antes_def em_resultado_def em_resultado_adiantamento_def
      exemplo_insercoes_def exemplo_db_def query_atualiza_contabil_sem_itens
      query_adiantamento_sem_adiantamentos)

lemma exemplo_depois:
  "tb_resultado (foldl (\<lambda>x c. c x) d (comandos_depois rnd txt exemplo_insercoes))
     = detalhes_nao_divergentes txt (tb_resultado d)"
  by (simp add: comandos_depois_def em_resultado_def em_resultado_adiantamento_def
      exemplo_insercoes_def)

lemma map_status_frame:
  "map status (detalhes_nao_divergentes txt xs) = map status xs"
  "map status (divergentes_sem_itens txt xs) = map status xs"
  "map status (query_investigacao txt itens xs) = map status xs"
  "map ordem_importancia (detalhes_nao_divergentes txt xs) = map ordem_importancia xs"
  "map ordem_importancia (divergentes_sem_itens txt xs) = map ordem_importancia xs"
  "map ordem_importancia (query_investigacao txt itens xs) = map ordem_importancia xs"
  by (simp_all add: detalhes_nao_divergentes_def divergentes_sem_itens_def
      query_investigacao_def comp_def)

lemma exemplo_query_diferenca:
  "map status (query_diferenca rnd exemplo_resultado) = [Divergente, Conferido, Pendente]"
  "map ordem_importancia (query_diferenca rnd exemplo_resultado) = [None, None, None]"
  by (simp_all add: query_diferenca_def query_diferenca_row_def exemplo_resultado_def
      status_fornecedor_def coalesce0_def sql_sub_def sql_mul_def sql_003_eq dbl_eval)

text \<open>
  The claim as first stated covers every exception of the phase.  The update of the
  order of importance has a \<^verbatim>\<open>try\<close> of its own: when it raises, the error is logged, the
  run goes on and commits, and the rows of \<^verbatim>\<open>resultado\<close> are visible without their order.
\<close>

theorem process_data_rank_error_counterexample:
  "falha_em 11 (length (comandos_antes round2_meio (texto_fixo []) exemplo_insercoes))
   \<and> fst (process_data (falha_em 11) round2_meio (texto_fixo []) exemplo_insercoes exemplo_db) = Inr True
   \<and> map status (tb_resultado
        (snd (process_data (falha_em 11) round2_meio (texto_fixo []) exemplo_insercoes exemplo_db)))
       = [Divergente, Conferido, Pendente]
   \<and> map ordem_importancia (tb_resultado
        (snd (process_data (falha_em 11) round2_meio (texto_fixo []) exemplo_insercoes exemplo_db)))
       = [None, None, None]
   \<and> tb_resultado exemplo_db = []"
proof -
  have f: "\<forall>i<23. i \<noteq> 11 \<longrightarrow> \<not> falha_em 11 i" "falha_em 11 11"
    by (simp_all add: falha_em_def)
  note p = process_data_outcomes [of "falha_em 11" round2_meio "texto_fixo []" exemplo_insercoes
      exemplo_db,
      THEN conjunct2, THEN mp, OF f(1)]
  have t: "tb_resultado (snd (process_data (falha_em 11) round2_meio (texto_fixo []) exemplo_insercoes
        exemplo_db))
      = detalhes_nao_divergentes (texto_fixo [])
          (divergentes_sem_itens (texto_fixo [])
            (query_investigacao (texto_fixo []) [] (query_diferenca round2_meio exemplo_resultado)))"
    unfolding p by (simp add: f(2) exemplo_depois exemplo_antes)
  have r: "fst (process_data (falha_em 11) round2_meio (texto_fixo []) exemplo_insercoes exemplo_db)
      = Inr True"
    unfolding p by simp
  have e: "tb_resultado exemplo_db = []"
    by (simp add: exemplo_db_def)
  have k: "falha_em 11 (length (comandos_antes round2_meio (texto_fixo []) exemplo_insercoes))"
    by (simp add: falha_em_def)
  show ?thesis
    unfolding t by (simp add: f(2) r e map_status_frame exemplo_query_diferenca)
qed

end
